theory Spec2Isabelle
  imports Complex_Main "HOL-Library.Multiset" "HOL-Library.Sublist"
begin

section \<open>EEMS: commands, program scheduling and the evaluation engine\<close>

text \<open>
  A shallow embedding of \<^verbatim>\<open>EEMSBasePackage.py\<close>: the command validator of class
  \<^verbatim>\<open>EEMSCmd\<close>, the loader and scheduler of class \<^verbatim>\<open>EEMSProgram\<close>, the operators of
  class \<^verbatim>\<open>EEMSCmdRunnerBase\<close> and the dispatch loop of class \<^verbatim>\<open>EEMSInterpreter\<close>.

  Conventions.
  \<^item> Every \<^verbatim>\<open>raise\<close> and every failing builtin is a value \<open>Inl e\<close> of type \<open>error + 'a\<close>.
  \<^item> Text is a \<open>string\<close> of ASCII characters; \<^verbatim>\<open>\w\<close> is \<^verbatim>\<open>[a-zA-Z0-9_]\<close> and \<^verbatim>\<open>\s\<close> is blank,
    tab, line feed, vertical tab, form feed and carriage return.
  \<^item> Numbers of the data arrays and of \<^verbatim>\<open>float(...)\<close> are real numbers: rounding, infinities and
    NaN of the machine floats are outside the model.
  \<^item> The regular-expression split of a statement into result, command name and parameter
    dictionary (\<^verbatim>\<open>__ParseEEMSCmd\<close>) is the input of the model: a command is given by the
    \<^verbatim>\<open>parsedCmd\<close> dictionary that the parser hands to \<^verbatim>\<open>__ValidateCmd\<close>.
\<close>

subsection \<open>Errors\<close>

text \<open>Errors raised while a command is validated or one of its parameters is read.\<close>

datatype cmd_error =
    IllegalCommand string string
      \<comment> \<open>\<^verbatim>\<open>Illegal Command: *%s*\<close>: command name, statement\<close>
  | IllegalParameterType string
      \<comment> \<open>\<^verbatim>\<open>Illegal parameter type: \<close> and the type\<close>
  | CommandDoesNotUseResult string
      \<comment> \<open>\<^verbatim>\<open>Command does not use Result.\<close>: statement\<close>
  | InvalidResultSpecification string string string
      \<comment> \<open>\<^verbatim>\<open>Invalid Result specification in command\<close>: result, type, statement\<close>
  | InvalidParameterForCommand string string
      \<comment> \<open>\<^verbatim>\<open>Invalid parameter for this command: *%s*\<close>: parameter, statement\<close>
  | RequiredParameterMissing string string
      \<comment> \<open>\<^verbatim>\<open>Required parameter missing from command: *%s*\<close>: parameter, statement\<close>
  | InvalidParameterValue string string string string
      \<comment> \<open>\<^verbatim>\<open>Invalid parameter value *%s = %s*\<close>: parameter, value, type, statement\<close>
  | RawFuzzyCountMismatch nat nat string
      \<comment> \<open>\<^verbatim>\<open>Number of RawValues must be the same as the number of FuzzyValues.\<close>\<close>
  | RawValuesNotUnique real string
      \<comment> \<open>\<^verbatim>\<open>All RawValues must be unique.\<close>: the repeated value, statement\<close>
  | FieldsWeightsCountMismatch nat nat string
      \<comment> \<open>\<^verbatim>\<open>Number of InFieldNames must be the same as the number of Weights.\<close>\<close>
  | NumberToConsiderTooLarge int nat string
      \<comment> \<open>\<^verbatim>\<open>NumberToConsider can not be greater than number of InFieldNames.\<close>\<close>
  | FiveFuzzyValuesRequired string
      \<comment> \<open>\<^verbatim>\<open>Exactly 5 fuzzy values required.\<close>\<close>
  | NoResultName string
      \<comment> \<open>\<^verbatim>\<open>Requested ResultName from command with no ResultName\<close>\<close>
  | ParameterInvalidForCommand string string
      \<comment> \<open>\<^verbatim>\<open>Requested parameter *%s* invalid for this command.\<close>\<close>
  | RequiredParameterAbsent string string
      \<comment> \<open>\<^verbatim>\<open>Required parameter *%s* missing from command.\<close> (raised by \<^verbatim>\<open>GetParam\<close>)\<close>
  | BooleanParameterError string string
      \<comment> \<open>\<^verbatim>\<open>Required parameter *%s* must be one of ["True","False","0","1"].\<close>\<close>
  | UnknownParameterType string string
      \<comment> \<open>\<^verbatim>\<open>Unknown parameter type *%s* for this command.\<close>\<close>

text \<open>Errors raised while a program is loaded and ordered.\<close>

datatype prog_error =
    NotAReadCommand string
      \<comment> \<open>\<^verbatim>\<open>Programming Error, __GetReadFieldNms() for READ type EEMSCmds only.\<close>\<close>
  | NoInFieldNames string
      \<comment> \<open>\<^verbatim>\<open>Programming Error! Command has neither InFieldNames nor InFieldName.\<close>\<close>
  | DuplicateDefinition string string
      \<comment> \<open>\<^verbatim>\<open>A field is defined by two different commands.\<close>: both statements\<close>
  | RepeatedDefinition string string
      \<comment> \<open>\<^verbatim>\<open>A field is defined more than once.\<close>: both statements\<close>
  | NoCommands string
      \<comment> \<open>\<^verbatim>\<open>EEMS command file has no commands.\<close>: file name\<close>
  | UndefinedField string
      \<comment> \<open>\<^verbatim>\<open>Command depends on undefined field *%s*\<close>: the whole message\<close>
  | CircularLogic string
      \<comment> \<open>\<^verbatim>\<open>Circular logic in the dependencies for this subset of commands:\<close>: the whole
          message\<close>

text \<open>Errors raised while a command runs.\<close>

datatype run_error =
    DataShapeMismatch string nat nat
      \<comment> \<open>\<^verbatim>\<open>Data Shape mismatch\<close>: field, its shape, the registry's shape\<close>
  | FuzzyRangeError string
      \<comment> \<open>\<^verbatim>\<open>Field in fuzzy operation has range outside of fuzzy limits (-1,+1)\<close>: field\<close>
  | ThresholdsEqual string
      \<comment> \<open>\<^verbatim>\<open>CvtToFuzzy(): trueThresh cannot equal falseThresh.\<close>: input field\<close>
  | TruestOrFalsestError string
      \<comment> \<open>\<^verbatim>\<open>Selected Union truestOrFalsest must be either *Truest* or *Falsest*.\<close>\<close>
  | XOrNeedsTwoFields string
      \<comment> \<open>\<^verbatim>\<open>FuzzyXOr takes a minimum of 2 inFieldNames.\<close>: result name\<close>
  | CallExternNotImplemented
      \<comment> \<open>\<^verbatim>\<open>CALLEXTERN is not implemented!\<close>\<close>
  | UnableToInterpret string
      \<comment> \<open>\<^verbatim>\<open>ERROR: Unable to interpret command\<close>: statement\<close>

text \<open>
  The \<^verbatim>\<open>Exception\<close>s that the source raises itself, and the errors of the builtins it
  calls. \<open>NonFinite\<close> marks the places where numpy goes on with NaN, an infinity or the
  masked constant as a scalar and the real-valued model has no value: the model stops there.
\<close>

datatype error =
    CmdError cmd_error
  | ProgError prog_error
  | RunError run_error
  | NonFinite
  | KeyError string
  | IndexError
  | TypeError
  | ValueError
  | ZeroDivisionError
  | NameError string
  | UnboundLocalError string
  | AttributeError string

subsection \<open>Character classes and the patterns of the validator\<close>

definition is_digit :: "char \<Rightarrow> bool" where
  "is_digit c = (c \<in> set ''0123456789'')"

definition is_word :: "char \<Rightarrow> bool" where
  "is_word c =
     (c \<in> set ''abcdefghijklmnopqrstuvwxyzABCDEFGHIJKLMNOPQRSTUVWXYZ0123456789_'')"

definition is_space :: "char \<Rightarrow> bool" where
  "is_space c = (c \<in> set [CHR '' '', CHR 0x09, CHR 0x0A, CHR 0x0B, CHR 0x0C, CHR 0x0D])"

definition to_lower :: "char \<Rightarrow> char" where
  "to_lower c =
     (case map_of (zip ''ABCDEFGHIJKLMNOPQRSTUVWXYZ'' ''abcdefghijklmnopqrstuvwxyz'') c of
        Some d \<Rightarrow> d
      | None \<Rightarrow> c)"

text \<open>
  \<^verbatim>\<open>$\<close> of \<^verbatim>\<open>re\<close> matches at the end of the text and before a line feed that ends the text:
  \<open>at_end P s\<close> holds when \<open>P\<close> accepts \<open>s\<close> or \<open>s\<close> without its final line feed.
\<close>

definition at_end :: "(string \<Rightarrow> bool) \<Rightarrow> string \<Rightarrow> bool" where
  "at_end P s = (P s \<or> (s \<noteq> [] \<and> last s = CHR 0x0A \<and> P (butlast s)))"

text \<open>\<^verbatim>\<open>^[Tt][Rr][Uu][Ee]$\<close> and its like: the text, lower-cased, is the given word.\<close>

definition matches_word :: "string \<Rightarrow> string \<Rightarrow> bool" where
  "matches_word w s = at_end (\<lambda>t. map to_lower t = w) s"

text \<open>\<^verbatim>\<open>([a-zA-Z]:[\\/]){0,1}[\w\\/\.\- ]*\w+\s*$\<close>\<close>

definition is_path_char :: "char \<Rightarrow> bool" where
  "is_path_char c = (is_word c \<or> c \<in> set [CHR 0x5C, CHR ''/'', CHR ''.'', CHR ''-'', CHR '' ''])"

definition path_body :: "string \<Rightarrow> bool" where
  "path_body r = (r \<noteq> [] \<and> list_all is_path_char r \<and> is_word (last r))"

definition IsStrValidFileName :: "string \<Rightarrow> bool" where
  "IsStrValidFileName inStr =
     (let r = rev (dropWhile is_space (rev inStr)) in
      path_body r \<or>
      (case r of
         a # b # c # r' \<Rightarrow>
           a \<in> set ''abcdefghijklmnopqrstuvwxyzABCDEFGHIJKLMNOPQRSTUVWXYZ'' \<and> b = CHR '':'' \<and>
           (c = CHR 0x5C \<or> c = CHR ''/'') \<and> path_body r'
       | _ \<Rightarrow> False))"

text \<open>\<^verbatim>\<open>^[0-9]$\<close>: one digit.\<close>

definition IsStrValidInt :: "string \<Rightarrow> bool" where
  "IsStrValidInt inStr = at_end (\<lambda>t. case t of [c] \<Rightarrow> is_digit c | _ \<Rightarrow> False) inStr"

text \<open>\<^verbatim>\<open>^[+-]{0,1}([0-9]+\.*[0-9]*)$|(^[+-]{0,1}\.[0-9]+)$\<close>\<close>

definition drop_sign :: "string \<Rightarrow> string" where
  "drop_sign s = (case s of [] \<Rightarrow> [] | c # r \<Rightarrow> if c = CHR ''+'' \<or> c = CHR ''-'' then r else s)"

definition float_body1 :: "string \<Rightarrow> bool" where
  "float_body1 s =
     (takeWhile is_digit s \<noteq> [] \<and>
      list_all is_digit (dropWhile (\<lambda>c. c = CHR ''.'') (dropWhile is_digit s)))"

definition float_body2 :: "string \<Rightarrow> bool" where
  "float_body2 s = (case s of [] \<Rightarrow> False | c # r \<Rightarrow> c = CHR ''.'' \<and> r \<noteq> [] \<and> list_all is_digit r)"

definition IsStrValidFloat :: "string \<Rightarrow> bool" where
  "IsStrValidFloat inStr =
     (at_end (\<lambda>t. float_body1 (drop_sign t)) inStr \<or> at_end (\<lambda>t. float_body2 (drop_sign t)) inStr)"

definition IsStrValidBoolean :: "string \<Rightarrow> bool" where
  "IsStrValidBoolean inStr =
     (inStr \<in> set [''0'', ''1'', ''-1''] \<or> matches_word ''true'' inStr \<or> matches_word ''false'' inStr)"

text \<open>\<^verbatim>\<open>^\w+$\<close>\<close>

definition IsStrValidFieldName :: "string \<Rightarrow> bool" where
  "IsStrValidFieldName inStr = at_end (\<lambda>t. t \<noteq> [] \<and> list_all is_word t) inStr"

definition IsStrValidFunctionName :: "string \<Rightarrow> bool" where
  "IsStrValidFunctionName inStr = at_end (\<lambda>t. t \<noteq> [] \<and> list_all is_word t) inStr"

text \<open>\<^verbatim>\<open>([a-zA-Z_]){0,1}[\w\.\- ]*$\<close>\<close>

definition IsStrValidImportName :: "string \<Rightarrow> bool" where
  "IsStrValidImportName inStr =
     at_end (list_all (\<lambda>c. is_word c \<or> c \<in> set [CHR ''.'', CHR ''-'', CHR '' ''])) inStr"

definition IsStrValidFldTypeDesc :: "string \<Rightarrow> bool" where
  "IsStrValidFldTypeDesc inStr = (inStr \<in> set [''Fuzzy'', ''Numeric'', ''Any''])"

text \<open>
  \<^verbatim>\<open>^\[.+\]$\<close>: an opening bracket, at least one character other than a line feed, and a
  closing bracket at the end.
\<close>

definition IsListParam :: "string \<Rightarrow> bool" where
  "IsListParam inStr =
     at_end (\<lambda>t. case t of
                [] \<Rightarrow> False
              | c # r \<Rightarrow> c = CHR ''['' \<and> r \<noteq> [] \<and> last r = CHR '']'' \<and> butlast r \<noteq> [] \<and>
                         CHR 0x0A \<notin> set (butlast r)) inStr"

text \<open>
  \<^verbatim>\<open>re.split(r'\s*,\s*', ...)\<close>: the text is cut at every comma; the blanks right before a
  comma and right after it belong to the separator. The flag says that the blanks after a
  comma are being skipped; \<open>cur\<close> is the piece read so far, reversed.
\<close>

fun split_commas :: "bool \<Rightarrow> string \<Rightarrow> string \<Rightarrow> string list" where
  "split_commas skip [] cur = [rev cur]"
| "split_commas skip (c # cs) cur =
     (if c = CHR '','' then rev (dropWhile is_space cur) # split_commas True cs []
      else if skip \<and> is_space c then split_commas True cs cur
      else split_commas False cs (c # cur))"

text \<open>
  The group of \<^verbatim>\<open>^\[\s*(.+)\s*\]$\<close>: what stands between the brackets, without its leading
  blanks (the greedy group keeps the trailing ones); when only blanks stand there, the last
  of them.
\<close>

definition list_group :: "string \<Rightarrow> string" where
  "list_group inStr =
     (let t = (if inStr \<noteq> [] \<and> last inStr = CHR 0x0A then butlast inStr else inStr);
          mid = butlast (tl t);
          g = dropWhile is_space mid
      in if g = [] then [last mid] else g)"

definition ListFromListParam :: "string \<Rightarrow> string list option" where
  "ListFromListParam inStr =
     (if \<not> IsListParam inStr then None else Some (split_commas False (list_group inStr) []))"

subsection \<open>\<^verbatim>\<open>int(...)\<close> and \<^verbatim>\<open>float(...)\<close> on the texts the validator hands them\<close>

definition digit_val :: "char \<Rightarrow> nat" where
  "digit_val c = of_char c - 48"

definition digits_val :: "string \<Rightarrow> nat" where
  "digits_val ds = foldl (\<lambda>n c. 10 * n + digit_val c) 0 ds"

definition py_strip :: "string \<Rightarrow> string" where
  "py_strip s = dropWhile is_space (rev (dropWhile is_space (rev s)))"

text \<open>
  \<^verbatim>\<open>int(s)\<close>: blanks around, an optional sign, digits. \<open>None\<close> is \<^verbatim>\<open>ValueError\<close>.
\<close>

definition py_int :: "string \<Rightarrow> int option" where
  "py_int s =
     (let t = py_strip s; ds = drop_sign t in
      if ds \<noteq> [] \<and> list_all is_digit ds
      then Some (if t \<noteq> [] \<and> hd t = CHR ''-'' then - int (digits_val ds) else int (digits_val ds))
      else None)"

text \<open>
  \<^verbatim>\<open>float(s)\<close> on a text that \<open>IsStrValidFloat\<close> accepts (the source calls it on no other
  text): blanks around, an optional sign, digits with at most one point and a digit on one
  side of it. A text with two points or more passes the pattern and makes \<^verbatim>\<open>float\<close> raise
  \<^verbatim>\<open>ValueError\<close> (\<open>None\<close>). The value is the decimal fraction itself.
\<close>

definition py_float :: "string \<Rightarrow> real option" where
  "py_float s =
     (let t = py_strip s;
          sgn = (if t \<noteq> [] \<and> hd t = CHR ''-'' then - 1 else 1 :: real);
          b = drop_sign t;
          ip = takeWhile is_digit b;
          r = dropWhile is_digit b
      in case r of
           [] \<Rightarrow> if ip = [] then None else Some (sgn * real (digits_val ip))
         | c # fp \<Rightarrow>
             if c = CHR ''.'' \<and> list_all is_digit fp \<and> (ip \<noteq> [] \<or> fp \<noteq> [])
             then Some (sgn * (real (digits_val ip) + real (digits_val fp) / 10 ^ length fp))
             else None)"

subsection \<open>Sequencing of computations that may fail\<close>

definition bindE :: "error + 'a \<Rightarrow> ('a \<Rightarrow> error + 'b) \<Rightarrow> error + 'b" where
  "bindE m f = (case m of Inl e \<Rightarrow> Inl e | Inr x \<Rightarrow> f x)"

definition seqE :: "error + unit \<Rightarrow> error + 'b \<Rightarrow> error + 'b" where
  "seqE m k = (case m of Inl e \<Rightarrow> Inl e | Inr u \<Rightarrow> k)"

subsection \<open>Command descriptions (\<^verbatim>\<open>__InitCmdDesc\<close>)\<close>

text \<open>
  One description per command of the language: the type of the result (when the command
  has one), the required and the optional parameters with their types in the order of the
  source's dictionaries, and the kinds of data returned and read. The readable name and the
  short description of the source are texts for the user and are left out.
\<close>

record cmd_desc =
  descName :: string
  descResult :: "string option"
  RequiredParams :: "(string \<times> string) list"
  OptionalParams :: "(string \<times> string) list"
  RtrnType :: string
  InputType :: string

definition mk_desc ::
  "string option \<Rightarrow> (string \<times> string) list \<Rightarrow> (string \<times> string) list \<Rightarrow> string \<Rightarrow> string
   \<Rightarrow> cmd_desc" where
  "mk_desc res req opt rt it =
     \<lparr>descName = [], descResult = res, RequiredParams = req, OptionalParams = opt,
      RtrnType = rt, InputType = it\<rparr>"

definition out_only :: "(string \<times> string) list" where
  "out_only = [(''OutFileName'', ''File Name'')]"

definition one_field :: "(string \<times> string) list" where
  "one_field = [(''InFieldName'', ''Field Name'')]"

definition many_fields :: "(string \<times> string) list" where
  "many_fields = [(''InFieldNames'', ''Field Name List'')]"

definition weighted_fields :: "(string \<times> string) list" where
  "weighted_fields = [(''InFieldNames'', ''Field Name List''), (''Weights'', ''Positive Float List'')]"

definition field_result :: "string option" where
  "field_result = Some ''Field Name''"

definition cmd_table :: "(string \<times> cmd_desc) list" where
  "cmd_table =
    [(''READ'', mk_desc None
        [(''InFileName'', ''File Name''), (''InFieldName'', ''Field Name'')]
        [(''OutFileName'', ''File Name''), (''NewFieldName'', ''Field Name'')]
        ''Numeric'' ''Numeric''),
     (''READMULTI'', mk_desc None
        [(''InFileName'', ''File Name''), (''InFieldNames'', ''Field Name List'')]
        [(''OutFileName'', ''File Name''), (''NewFieldNames'', ''Field Name List'')]
        ''Numeric'' ''Numeric''),
     (''CVTTOFUZZY'', mk_desc field_result
        [(''InFieldName'', ''Field Name''), (''TrueThreshold'', ''Float''),
         (''FalseThreshold'', ''Float'')]
        out_only ''Fuzzy'' ''Numeric''),
     (''CVTTOFUZZYCURVE'', mk_desc field_result
        [(''InFieldName'', ''Field Name''), (''RawValues'', ''Float List''),
         (''FuzzyValues'', ''Fuzzy Value List'')]
        out_only ''Fuzzy'' ''Numeric''),
     (''CVTTOFUZZYCAT'', mk_desc field_result
        [(''InFieldName'', ''Field Name''), (''RawValues'', ''Float List''),
         (''FuzzyValues'', ''Fuzzy Value List''), (''DefaultFuzzyValue'', ''Float'')]
        out_only ''Fuzzy'' ''Integer''),
     (''COPYFIELD'', mk_desc field_result one_field out_only ''Any'' ''Any''),
     (''NOT'', mk_desc field_result one_field out_only ''Fuzzy'' ''Fuzzy''),
     (''SELECTEDUNION'', mk_desc field_result
        [(''InFieldNames'', ''Field Name List''), (''TruestOrFalsest'', ''Truest or Falsest''),
         (''NumberToConsider'', ''Positive Integer'')]
        out_only ''Fuzzy'' ''Fuzzy''),
     (''OR'', mk_desc field_result many_fields out_only ''Fuzzy'' ''Fuzzy''),
     (''ORNEG'', mk_desc field_result many_fields out_only ''Fuzzy'' ''Fuzzy''),
     (''XOR'', mk_desc field_result many_fields out_only ''Fuzzy'' ''Fuzzy''),
     (''SUM'', mk_desc field_result many_fields out_only ''Numeric'' ''Numeric''),
     (''MIN'', mk_desc field_result many_fields out_only ''Numeric'' ''Numeric''),
     (''MAX'', mk_desc field_result many_fields out_only ''Numeric'' ''Numeric''),
     (''MEAN'', mk_desc field_result many_fields out_only ''Numeric'' ''Numeric''),
     (''UNION'', mk_desc field_result many_fields out_only ''Fuzzy'' ''Fuzzy''),
     (''AND'', mk_desc field_result many_fields out_only ''Fuzzy'' ''Fuzzy''),
     (''EMDSAND'', mk_desc field_result many_fields out_only ''Fuzzy'' ''Fuzzy''),
     (''DIF'', mk_desc field_result
        [(''StartingFieldName'', ''Field Name''), (''ToSubtractFieldName'', ''Field Name'')]
        out_only ''Numeric'' ''Numeric''),
     (''WTDUNION'', mk_desc field_result weighted_fields out_only ''Fuzzy'' ''Fuzzy''),
     (''WTDMEAN'', mk_desc field_result weighted_fields out_only ''Numeric'' ''Numeric''),
     (''WTDSUM'', mk_desc field_result weighted_fields out_only ''Numeric'' ''Numeric''),
     (''WTDEMDSAND'', mk_desc field_result weighted_fields out_only ''Fuzzy'' ''Fuzzy''),
     (''CALLEXTERN'', mk_desc field_result
        [(''InFieldNames'', ''Field Name List''), (''ImportName'', ''Import Name''),
         (''FunctionName'', ''Function Name''), (''ResultType'', ''Field Type Description'')]
        out_only ''Any'' ''Any''),
     (''SCORERANGEBENEFIT'', mk_desc field_result one_field out_only ''Fuzzy'' ''Numeric''),
     (''SCORERANGECOST'', mk_desc field_result one_field out_only ''Fuzzy'' ''Numeric''),
     (''MEANTOMID'', mk_desc field_result
        [(''InFieldName'', ''Field Name''), (''IgnoreZeros'', ''Boolean''),
         (''FuzzyValues'', ''Fuzzy Value List'')]
        out_only ''Fuzzy'' ''Numeric'')]"

text \<open>
  The \<^verbatim>\<open>if\<close>/\<^verbatim>\<open>elif\<close> chain of \<^verbatim>\<open>__InitCmdDesc\<close>: the first entry with the command's name;
  \<open>None\<close> is its final \<^verbatim>\<open>else\<close>, which raises \<^verbatim>\<open>Illegal Command\<close>.
\<close>

definition InitCmdDesc :: "string \<Rightarrow> cmd_desc option" where
  "InitCmdDesc c = map_option (\<lambda>d. d\<lparr>descName := c\<rparr>) (map_of cmd_table c)"

subsection \<open>Commands (class \<^verbatim>\<open>EEMSCmd\<close>)\<close>

text \<open>
  \<open>cmdStr\<close> is the statement; \<open>rslt\<close>, \<open>cmdNm\<close> and \<open>params\<close> are the entries
  \<^verbatim>\<open>'rslt'\<close>, \<^verbatim>\<open>'cmd'\<close> and \<^verbatim>\<open>'params'\<close> of \<^verbatim>\<open>parsedCmd\<close> (the parameter dictionary in
  insertion order, every name once); \<open>cmdDesc\<close> is the description of the command.
\<close>

record EEMSCmd =
  cmdStr :: string
  rslt :: "string option"
  cmdNm :: string
  params :: "(string \<times> string) list"
  cmdDesc :: cmd_desc

subsubsection \<open>\<^verbatim>\<open>__IsParamType\<close>\<close>

definition IsParamTypeScalar :: "string \<Rightarrow> string \<Rightarrow> error + bool" where
  "IsParamTypeScalar inStr ty =
     (if ty = ''File Name'' then Inr (IsStrValidFileName inStr)
      else if ty = ''Field Name'' then Inr (IsStrValidFieldName inStr)
      else if ty = ''Import Name'' then Inr (IsStrValidImportName inStr)
      else if ty = ''Function Name'' then Inr (IsStrValidFunctionName inStr)
      else if ty = ''Field Type Description'' then Inr (IsStrValidFldTypeDesc inStr)
      else if ty = ''Integer'' then Inr (IsStrValidInt inStr)
      else if ty = ''Positive Integer'' then
        (if IsStrValidInt inStr
         then (case py_int inStr of None \<Rightarrow> Inl ValueError | Some n \<Rightarrow> Inr (n > 0))
         else Inr False)
      else if ty = ''Float'' then Inr (IsStrValidFloat inStr)
      else if ty = ''Positive Float'' then
        (if IsStrValidFloat inStr
         then (case py_float inStr of None \<Rightarrow> Inl ValueError | Some x \<Rightarrow> Inr (x > 0))
         else Inr False)
      else if ty = ''Boolean'' then Inr (IsStrValidBoolean inStr)
      else if ty = ''Fuzzy Value'' then
        (if IsStrValidFloat inStr
         then (case py_float inStr of
                 None \<Rightarrow> Inl ValueError
               | Some x \<Rightarrow> Inr (x \<ge> - 1 \<and> x \<le> 1))
         else Inr False)
      else if ty = ''Truest or Falsest'' then
        Inr (inStr = ''-1'' \<or> inStr = ''1'' \<or> matches_word ''truest'' inStr \<or>
             matches_word ''falsest'' inStr)
      else Inl (CmdError (IllegalParameterType ty)))"

text \<open>
  The list types as the source's list holds them: between \<^verbatim>\<open>'Function Name List'\<close> and
  \<^verbatim>\<open>'Integer List'\<close> the comma is missing, so Python joins the two literals into one.
\<close>

definition list_types :: "string list" where
  "list_types =
     [''File Name List'', ''Field Name List'', ''Import Name List'',
      ''Function Name ListInteger List'', ''Positive Integer List'', ''Float List'',
      ''Positive Float List'', ''Boolean List'', ''Fuzzy Value List'']"

text \<open>
  \<^verbatim>\<open>re.match(r'(.*) List',type).groups()[0]\<close> on a member of \<open>list_types\<close>: each ends with
  \<^verbatim>\<open>' List'\<close>, and the greedy group is the type without these five characters.
\<close>

definition elem_type :: "string \<Rightarrow> string" where
  "elem_type ty = take (length ty - 5) ty"

text \<open>The loop over the tokens of a list, left at the first token of another type.\<close>

fun check_tokens :: "string list \<Rightarrow> string \<Rightarrow> error + bool" where
  "check_tokens [] ty = Inr True"
| "check_tokens (tok # toks) ty =
     (case IsParamTypeScalar tok ty of
        Inl e \<Rightarrow> Inl e
      | Inr ok \<Rightarrow> if ok then check_tokens toks ty else Inr False)"

text \<open>
  The source calls itself on each token with the element type; no element type is a list
  type, so that call is \<open>IsParamTypeScalar\<close>. The names of the scalar types and of the list
  types are disjoint, so that the order of the two tests does not matter.
\<close>

definition IsParamType :: "string \<Rightarrow> string \<Rightarrow> error + bool" where
  "IsParamType inStr ty =
     (if ty \<in> set list_types then
        (case ListFromListParam inStr of
           None \<Rightarrow> Inr False
         | Some toks \<Rightarrow> check_tokens toks (elem_type ty))
      else IsParamTypeScalar inStr ty)"

subsubsection \<open>\<^verbatim>\<open>__ValidateCmd\<close>\<close>

definition get_raw :: "EEMSCmd \<Rightarrow> string \<Rightarrow> error + string" where
  "get_raw c k = (case map_of (params c) k of None \<Rightarrow> Inl (KeyError k) | Some v \<Rightarrow> Inr v)"

text \<open>
  \<^verbatim>\<open>self.__ListFromListParam(self.parsedCmd['params'][k])\<close> under \<^verbatim>\<open>len\<close> or a loop, which
  raise \<^verbatim>\<open>TypeError\<close> on \<^verbatim>\<open>None\<close>.
\<close>

definition get_list :: "EEMSCmd \<Rightarrow> string \<Rightarrow> error + string list" where
  "get_list c k =
     bindE (get_raw c k)
       (\<lambda>v. case ListFromListParam v of None \<Rightarrow> Inl TypeError | Some xs \<Rightarrow> Inr xs)"

text \<open>Are the presence and format of the result valid?\<close>

definition check_result :: "EEMSCmd \<Rightarrow> error + unit" where
  "check_result c =
     (case descResult (cmdDesc c) of
        None \<Rightarrow>
          (case rslt c of
             Some r \<Rightarrow> Inl (CmdError (CommandDoesNotUseResult (cmdStr c)))
           | None \<Rightarrow> Inr ())
      | Some ty \<Rightarrow>
          (case rslt c of
             None \<Rightarrow> Inl (KeyError ''rslt'')
           | Some r \<Rightarrow>
               bindE (IsParamType r ty)
                 (\<lambda>ok. if ok then Inr ()
                       else Inl (CmdError (InvalidResultSpecification r ty (cmdStr c))))))"

text \<open>Are there any parameters that do not belong?\<close>

definition check_belong :: "EEMSCmd \<Rightarrow> error + unit" where
  "check_belong c =
     (if cmdNm c \<notin> set [''CALLEXTERN''] then
        (case find (\<lambda>paramName. paramName \<notin> set (map fst (RequiredParams (cmdDesc c)) @
                                                    map fst (OptionalParams (cmdDesc c))))
                (map fst (params c)) of
           Some paramName \<Rightarrow> Inl (CmdError (InvalidParameterForCommand paramName (cmdStr c)))
         | None \<Rightarrow> Inr ())
      else Inr ())"

text \<open>Are all the required parameters present?\<close>

definition check_required :: "EEMSCmd \<Rightarrow> error + unit" where
  "check_required c =
     (case find (\<lambda>paramName. paramName \<notin> set (map fst (params c)))
             (map fst (RequiredParams (cmdDesc c))) of
        Some paramName \<Rightarrow> Inl (CmdError (RequiredParameterMissing paramName (cmdStr c)))
      | None \<Rightarrow> Inr ())"

text \<open>
  Are all the parameter values legal? The last branch of the type lookup cannot be reached
  after \<open>check_belong\<close>: there \<^verbatim>\<open>paramType\<close> would be unbound or left from the parameter
  before.
\<close>

fun check_values :: "EEMSCmd \<Rightarrow> (string \<times> string) list \<Rightarrow> error + unit" where
  "check_values c [] = Inr ()"
| "check_values c ((paramName, v) # rest) =
     (case (if paramName \<in> set (map fst (RequiredParams (cmdDesc c)))
            then Inr (map_of (RequiredParams (cmdDesc c)) paramName)
            else if paramName \<in> set (map fst (OptionalParams (cmdDesc c)))
            then Inr (map_of (OptionalParams (cmdDesc c)) paramName)
            else if cmdNm c \<in> set [''CALLEXTERN''] then Inr None
            else Inl (NameError ''paramType'')) of
        Inl e \<Rightarrow> Inl e
      | Inr None \<Rightarrow> check_values c rest
      | Inr (Some paramType) \<Rightarrow>
          (case IsParamType v paramType of
             Inl e \<Rightarrow> Inl e
           | Inr ok \<Rightarrow>
               if ok then check_values c rest
               else Inl (CmdError (InvalidParameterValue paramName v paramType (cmdStr c)))))"

text \<open>
  \<^verbatim>\<open>for ndx in range(0,len(rawVals)-1): if rawVals[ndx] in rawVals[ndx+1:]\<close>: the first value
  that comes again later.
\<close>

fun first_repeated :: "real list \<Rightarrow> real option" where
  "first_repeated [] = None"
| "first_repeated (x # xs) = (if x \<in> set xs then Some x else first_repeated xs)"

fun floats_of :: "string list \<Rightarrow> error + real list" where
  "floats_of [] = Inr []"
| "floats_of (x # xs) =
     (case py_float x of
        None \<Rightarrow> Inl ValueError
      | Some v \<Rightarrow> bindE (floats_of xs) (\<lambda>vs. Inr (v # vs)))"

fun ints_of :: "string list \<Rightarrow> error + int list" where
  "ints_of [] = Inr []"
| "ints_of (x # xs) =
     (case py_int x of
        None \<Rightarrow> Inl ValueError
      | Some v \<Rightarrow> bindE (ints_of xs) (\<lambda>vs. Inr (v # vs)))"

text \<open>\<^verbatim>\<open>len(s.split(','))\<close>: one more than the number of commas.\<close>

definition comma_pieces :: "string \<Rightarrow> nat" where
  "comma_pieces s = Suc (length (filter (\<lambda>ch. ch = CHR '','') s))"

text \<open>Are the other conditions for a correct command met?\<close>

definition check_curve :: "EEMSCmd \<Rightarrow> error + unit" where
  "check_curve c =
     (if cmdNm c \<in> set [''CVTTOFUZZYCURVE'', ''CVTTOFUZZYCAT'']
      then bindE (get_list c ''RawValues'') (\<lambda>raws.
           bindE (get_list c ''FuzzyValues'') (\<lambda>fuzzies.
             if length raws \<noteq> length fuzzies
             then Inl (CmdError (RawFuzzyCountMismatch (length raws) (length fuzzies) (cmdStr c)))
             else bindE (floats_of raws) (\<lambda>rawVals.
                    case first_repeated rawVals of
                      Some x \<Rightarrow> Inl (CmdError (RawValuesNotUnique x (cmdStr c)))
                    | None \<Rightarrow> Inr ())))
      else Inr ())"

definition check_weights :: "EEMSCmd \<Rightarrow> error + unit" where
  "check_weights c =
     (if cmdNm c \<in> set [''WTDUNION'', ''WTDMEAN'', ''WTDSUM'', ''WTDEMDSAND'']
      then bindE (get_list c ''InFieldNames'') (\<lambda>names.
           bindE (get_list c ''Weights'') (\<lambda>weights.
             if length names \<noteq> length weights
             then Inl (CmdError
                    (FieldsWeightsCountMismatch (length names) (length weights) (cmdStr c)))
             else Inr ()))
      else Inr ())"

definition check_number :: "EEMSCmd \<Rightarrow> error + unit" where
  "check_number c =
     (if cmdNm c \<in> set [''SELECTEDUNION'']
      then bindE (get_raw c ''NumberToConsider'') (\<lambda>v.
             case py_int v of
               None \<Rightarrow> Inl ValueError
             | Some n \<Rightarrow>
                 bindE (get_list c ''InFieldNames'') (\<lambda>names.
                   if n > int (length names)
                   then Inl (CmdError (NumberToConsiderTooLarge n (length names) (cmdStr c)))
                   else Inr ()))
      else Inr ())"

definition check_five :: "EEMSCmd \<Rightarrow> error + unit" where
  "check_five c =
     (if cmdNm c \<in> set [''MEANTOMID'']
      then bindE (get_raw c ''FuzzyValues'') (\<lambda>v.
             if comma_pieces v \<noteq> 5 then Inl (CmdError (FiveFuzzyValuesRequired (cmdStr c)))
             else Inr ())
      else Inr ())"

definition ValidateCmd :: "EEMSCmd \<Rightarrow> error + unit" where
  "ValidateCmd c =
     seqE (check_result c)
    (seqE (check_belong c)
    (seqE (check_required c)
    (seqE (check_values c (params c))
    (seqE (check_curve c)
    (seqE (check_weights c)
    (seqE (check_number c)
          (check_five c)))))))"

text \<open>
  The constructor, from the parser's dictionary on: the description is looked up (the
  parser does so as soon as it has the command's name), then the command is validated.
\<close>

definition EEMSCmd_init ::
  "string \<Rightarrow> string option \<Rightarrow> string \<Rightarrow> (string \<times> string) list \<Rightarrow> error + EEMSCmd" where
  "EEMSCmd_init cs r n ps =
     (case InitCmdDesc n of
        None \<Rightarrow> Inl (CmdError (IllegalCommand n cs))
      | Some d \<Rightarrow>
          (let c = \<lparr>cmdStr = cs, rslt = r, cmdNm = n, params = ps, cmdDesc = d\<rparr>
           in seqE (ValidateCmd c) (Inr c)))"

text \<open>A command object exists only as the value of its constructor.\<close>

definition constructed :: "EEMSCmd \<Rightarrow> bool" where
  "constructed c = (EEMSCmd_init (cmdStr c) (rslt c) (cmdNm c) (params c) = Inr c)"

subsubsection \<open>Public methods\<close>

definition HasResultName :: "EEMSCmd \<Rightarrow> bool" where
  "HasResultName c = (rslt c \<noteq> None)"

definition GetResultName :: "EEMSCmd \<Rightarrow> error + string" where
  "GetResultName c =
     (case rslt c of Some r \<Rightarrow> Inr r | None \<Rightarrow> Inl (CmdError (NoResultName (cmdStr c))))"

definition GetCommandName :: "EEMSCmd \<Rightarrow> string" where
  "GetCommandName c = cmdNm c"

definition IsReadCmd :: "EEMSCmd \<Rightarrow> bool" where
  "IsReadCmd c = (cmdNm c \<in> set [''READ'', ''READMULTI''])"

definition HasParam :: "EEMSCmd \<Rightarrow> string \<Rightarrow> bool" where
  "HasParam c paramNm = (paramNm \<in> set (map fst (params c)))"

definition IsRequiredParam :: "EEMSCmd \<Rightarrow> string \<Rightarrow> bool" where
  "IsRequiredParam c paramNm = (paramNm \<in> set (map fst (RequiredParams (cmdDesc c))))"

definition IsOptionalParam :: "EEMSCmd \<Rightarrow> string \<Rightarrow> bool" where
  "IsOptionalParam c paramNm = (paramNm \<in> set (map fst (OptionalParams (cmdDesc c))))"

definition GetOptionalParamNames :: "EEMSCmd \<Rightarrow> string list" where
  "GetOptionalParamNames c = map fst (OptionalParams (cmdDesc c))"

definition GetRequiredParamNames :: "EEMSCmd \<Rightarrow> string list" where
  "GetRequiredParamNames c = map fst (RequiredParams (cmdDesc c))"

definition GetCommandString :: "EEMSCmd \<Rightarrow> string" where
  "GetCommandString c = cmdStr c"

definition GetParamNames :: "EEMSCmd \<Rightarrow> string list" where
  "GetParamNames c = map fst (params c)"

definition GetParamType :: "EEMSCmd \<Rightarrow> string \<Rightarrow> error + string" where
  "GetParamType c paramNm =
     (if IsRequiredParam c paramNm then
        (case map_of (RequiredParams (cmdDesc c)) paramNm of
           Some ty \<Rightarrow> Inr ty | None \<Rightarrow> Inl (KeyError paramNm))
      else if IsOptionalParam c paramNm then
        (case map_of (OptionalParams (cmdDesc c)) paramNm of
           Some ty \<Rightarrow> Inr ty | None \<Rightarrow> Inl (KeyError paramNm))
      else if GetCommandName c = ''CALLEXTERN'' then Inr ''Unknown Type''
      else Inl (CmdError (ParameterInvalidForCommand paramNm (cmdStr c))))"

text \<open>
  The values that \<^verbatim>\<open>GetParam\<close> returns and that the interpreter passes on: Python's
  \<^verbatim>\<open>None\<close>, texts, numbers, truth values and lists of them.
\<close>

datatype pval =
    PNone
  | PStr string
  | PInt int
  | PFloat real
  | PBool bool
  | PStrList "string list"
  | PIntList "int list"
  | PFloatList "real list"

definition GetParam :: "EEMSCmd \<Rightarrow> string \<Rightarrow> error + pval" where
  "GetParam c paramNm =
     bindE (GetParamType c paramNm) (\<lambda>paramType.
       case map_of (params c) paramNm of
         None \<Rightarrow>
           if IsOptionalParam c paramNm then Inr PNone
           else Inl (CmdError (RequiredParameterAbsent paramNm (cmdStr c)))
       | Some paramVal \<Rightarrow>
           if paramType \<in> set [''File Name'', ''Field Name'', ''Truest or Falsest'', ''Import Name'',
                               ''Function Name'', ''Unknown Type'']
           then Inr (PStr paramVal)
           else if paramType \<in> set [''Integer'', ''Positive Integer''] then
             (case py_int paramVal of None \<Rightarrow> Inl ValueError | Some n \<Rightarrow> Inr (PInt n))
           else if paramType \<in> set [''Float'', ''Positive Float'', ''Fuzzy Value''] then
             (case py_float paramVal of None \<Rightarrow> Inl ValueError | Some x \<Rightarrow> Inr (PFloat x))
           else if paramType \<in> set [''Boolean''] then
             (if paramVal = ''1'' \<or> matches_word ''true'' paramVal then Inr (PBool True)
              else if paramVal = ''0'' \<or> paramVal = ''-1'' \<or> matches_word ''false'' paramVal
              then Inr (PBool False)
              else Inl (CmdError (BooleanParameterError paramNm (cmdStr c))))
           else if paramType \<in> set [''Field Type Description''] then Inr (PStr paramVal)
           else if paramType \<in> set [''File Name List'', ''Field Name List''] then
             (case ListFromListParam paramVal of
                None \<Rightarrow> Inr PNone
              | Some xs \<Rightarrow> Inr (PStrList xs))
           else if paramType \<in> set [''Integer List'', ''Positive Integer List''] then
             (case ListFromListParam paramVal of
                None \<Rightarrow> Inl TypeError
              | Some xs \<Rightarrow> bindE (ints_of xs) (\<lambda>ns. Inr (PIntList ns)))
           else if paramType \<in> set [''Float List'', ''Positive Float List'', ''Fuzzy Value List''] then
             (case ListFromListParam paramVal of
                None \<Rightarrow> Inl TypeError
              | Some xs \<Rightarrow> bindE (floats_of xs) (\<lambda>vs. Inr (PFloatList vs)))
           else Inl (CmdError (UnknownParameterType paramType (cmdStr c))))"

subsection \<open>Programs (class \<^verbatim>\<open>EEMSProgram\<close>)\<close>

text \<open>
  The model starts where the statements of the file have been cut out and handed, one by
  one, to the constructor of \<^verbatim>\<open>EEMSCmd\<close>: a program is loaded from the list of its command
  objects, in the order of the file.
\<close>

record EEMSProgram =
  unorderedCmds :: "EEMSCmd list"
  orderedCmds :: "EEMSCmd list"
  crntCmdNdx :: "int option"
  allDefinedFieldNms :: "string \<rightharpoonup> EEMSCmd"

text \<open>
  A parameter read as one field name, and as a list of field names. Every description types
  \<^verbatim>\<open>InFieldName\<close>, \<^verbatim>\<open>NewFieldName\<close>, \<^verbatim>\<open>StartingFieldName\<close> and \<^verbatim>\<open>ToSubtractFieldName\<close> as
  \<^verbatim>\<open>Field Name\<close> and \<^verbatim>\<open>InFieldNames\<close>, \<^verbatim>\<open>NewFieldNames\<close> as \<^verbatim>\<open>Field Name List\<close>, so that
  \<open>GetParam\<close> yields a text, a list of texts or \<^verbatim>\<open>None\<close> (which a loop cannot run over).
\<close>

definition name_of :: "pval \<Rightarrow> error + string" where
  "name_of v = (case v of PStr s \<Rightarrow> Inr s | _ \<Rightarrow> Inl TypeError)"

definition names_of :: "pval \<Rightarrow> error + string list" where
  "names_of v = (case v of PStrList xs \<Rightarrow> Inr xs | _ \<Rightarrow> Inl TypeError)"

definition GetReadFieldNms :: "EEMSCmd \<Rightarrow> error + string list" where
  "GetReadFieldNms c =
     (if GetCommandName c \<in> set [''READ''] then
        (if HasParam c ''NewFieldName''
         then bindE (GetParam c ''NewFieldName'') (\<lambda>v. bindE (name_of v) (\<lambda>n. Inr [n]))
         else bindE (GetParam c ''InFieldName'') (\<lambda>v. bindE (name_of v) (\<lambda>n. Inr [n])))
      else if GetCommandName c \<in> set [''READMULTI''] then
        (if HasParam c ''NewFieldNames''
         then bindE (GetParam c ''NewFieldNames'') names_of
         else bindE (GetParam c ''InFieldNames'') names_of)
      else Inl (ProgError (NotAReadCommand (GetCommandString c))))"

definition GetDependFieldNms :: "EEMSCmd \<Rightarrow> error + string list" where
  "GetDependFieldNms c =
     (if IsReadCmd c then Inr []
      else if HasParam c ''InFieldNames'' then bindE (GetParam c ''InFieldNames'') names_of
      else if HasParam c ''InFieldName''
      then bindE (GetParam c ''InFieldName'') (\<lambda>v. bindE (name_of v) (\<lambda>n. Inr [n]))
      else if GetCommandName c = ''DIF'' then
        bindE (GetParam c ''StartingFieldName'') (\<lambda>v. bindE (name_of v) (\<lambda>a.
        bindE (GetParam c ''ToSubtractFieldName'') (\<lambda>w. bindE (name_of w) (\<lambda>b. Inr [a, b]))))
      else Inl (ProgError (NoInFieldNames (GetCommandString c))))"

subsubsection \<open>\<^verbatim>\<open>__AddCmd\<close>\<close>

text \<open>The loop over the fields of a read command: each is registered unless it is defined.\<close>

fun register_read ::
  "EEMSCmd \<Rightarrow> string list \<Rightarrow> (string \<rightharpoonup> EEMSCmd) \<Rightarrow> error + (string \<rightharpoonup> EEMSCmd)" where
  "register_read c [] defs = Inr defs"
| "register_read c (fldNm # rest) defs =
     (case defs fldNm of
        Some c' \<Rightarrow> Inl (ProgError (RepeatedDefinition (cmdStr c) (GetCommandString c')))
      | None \<Rightarrow> register_read c rest (defs(fldNm \<mapsto> c)))"

definition AddCmd :: "EEMSProgram \<Rightarrow> EEMSCmd \<Rightarrow> error + EEMSProgram" where
  "AddCmd p c =
     bindE
       (if HasResultName c then
          bindE (GetResultName c) (\<lambda>rsltNm.
            case allDefinedFieldNms p rsltNm of
              Some c' \<Rightarrow> Inl (ProgError (DuplicateDefinition (cmdStr c) (GetCommandString c')))
            | None \<Rightarrow> Inr ((allDefinedFieldNms p)(rsltNm \<mapsto> c)))
        else if IsReadCmd c then
          bindE (GetReadFieldNms c) (\<lambda>nms. register_read c nms (allDefinedFieldNms p))
        else Inr (allDefinedFieldNms p))
       (\<lambda>defs. Inr (p\<lparr>allDefinedFieldNms := defs, unorderedCmds := unorderedCmds p @ [c]\<rparr>))"

fun add_all :: "EEMSProgram \<Rightarrow> EEMSCmd list \<Rightarrow> error + EEMSProgram" where
  "add_all p [] = Inr p"
| "add_all p (c # cs) = bindE (AddCmd p c) (\<lambda>p'. add_all p' cs)"

subsubsection \<open>\<^verbatim>\<open>__OrderCmds\<close>\<close>

definition error_banner :: string where
  "error_banner = ''\<newline>********************ERROR********************\<newline>''"

definition undefined_field_message :: "string \<Rightarrow> EEMSCmd \<Rightarrow> string" where
  "undefined_field_message dependNm c =
     error_banner @ ''Command depends on undefined field *'' @ dependNm @ ''*\<newline>'' @
     ''Full command with error:\<newline>  '' @ GetCommandString c @ ''\<newline>''"

definition circular_logic_message :: "EEMSCmd list \<Rightarrow> string" where
  "circular_logic_message cs =
     error_banner @ ''Circular logic in the dependencies for this subset of commands:'' @
     concat (map (\<lambda>c. ''  '' @ GetCommandString c @ ''\<newline>'') cs)"

text \<open>The check for a missing dependency: every command, every field it depends on.\<close>

fun check_depends :: "(string \<rightharpoonup> EEMSCmd) \<Rightarrow> EEMSCmd \<Rightarrow> string list \<Rightarrow> error + unit" where
  "check_depends defs c [] = Inr ()"
| "check_depends defs c (dependNm # rest) =
     (if defs dependNm = None
      then Inl (ProgError (UndefinedField (undefined_field_message dependNm c)))
      else check_depends defs c rest)"

fun check_missing :: "(string \<rightharpoonup> EEMSCmd) \<Rightarrow> EEMSCmd list \<Rightarrow> error + unit" where
  "check_missing defs [] = Inr ()"
| "check_missing defs (c # cs) =
     bindE (GetDependFieldNms c) (\<lambda>deps.
       seqE (check_depends defs c deps) (check_missing defs cs))"

text \<open>\<^verbatim>\<open>unorderedCmds.pop(ndx)\<close>\<close>

definition pop :: "nat \<Rightarrow> 'a list \<Rightarrow> 'a list" where
  "pop ndx xs = take ndx xs @ drop (Suc ndx) xs"

text \<open>
  One sweep, \<^verbatim>\<open>for ndx in ndxs\<close>, over the indices of the commands not yet ordered. The
  state is the program with the list \<^verbatim>\<open>dpndsInOrderedCmds\<close>.
\<close>

fun sweep :: "nat list \<Rightarrow> EEMSProgram \<times> string list \<Rightarrow> error + EEMSProgram \<times> string list" where
  "sweep [] s = Inr s"
| "sweep (ndx # ndxs) (p, dpndsInOrderedCmds) =
     (if ndx \<ge> length (unorderedCmds p) then Inl IndexError
      else
        (let c = unorderedCmds p ! ndx;
             moved = p\<lparr>orderedCmds := orderedCmds p @ [c],
                       unorderedCmds := pop ndx (unorderedCmds p)\<rparr>
         in if IsReadCmd c then
              bindE (GetReadFieldNms c) (\<lambda>nms. sweep ndxs (moved, dpndsInOrderedCmds @ nms))
            else
              bindE (GetDependFieldNms c) (\<lambda>deps.
                if list_all (\<lambda>dependFldNm. dependFldNm \<in> set dpndsInOrderedCmds) deps then
                  bindE (GetResultName c)
                    (\<lambda>r. sweep ndxs (moved, dpndsInOrderedCmds @ [r]))
                else sweep ndxs (p, dpndsInOrderedCmds))))"

lemma length_pop_le: "length (pop ndx xs) \<le> length xs"
  by (simp add: pop_def)

lemma sweep_length_le:
  "sweep ndxs (p, d) = Inr (p', d') \<Longrightarrow> length (unorderedCmds p') \<le> length (unorderedCmds p)"
proof (induction ndxs arbitrary: p d)
  case Nil
  then show ?case by simp
next
  case (Cons ndx ndxs)
  let ?c = "unorderedCmds p ! ndx"
  let ?moved = "p\<lparr>orderedCmds := orderedCmds p @ [?c], unorderedCmds := pop ndx (unorderedCmds p)\<rparr>"
  from Cons.prems have inb: "ndx < length (unorderedCmds p)"
    by (auto split: if_splits)
  have moved_le: "length (unorderedCmds ?moved) \<le> length (unorderedCmds p)"
    by (simp add: length_pop_le)
  show ?case
  proof (cases "IsReadCmd ?c")
    case True
    with Cons.prems inb obtain nms where
      "sweep ndxs (?moved, d @ nms) = Inr (p', d')"
      by (auto simp: bindE_def Let_def split: sum.splits)
    from Cons.IH[OF this] moved_le show ?thesis by simp
  next
    case False
    with Cons.prems inb obtain deps where deps: "GetDependFieldNms ?c = Inr deps"
      by (auto simp: bindE_def Let_def split: sum.splits)
    show ?thesis
    proof (cases "list_all (\<lambda>x. x \<in> set d) deps")
      case True
      with Cons.prems inb False deps obtain r where
        "sweep ndxs (?moved, d @ [r]) = Inr (p', d')"
        by (auto simp: bindE_def Let_def split: sum.splits)
      from Cons.IH[OF this] moved_le show ?thesis by simp
    next
      case nall: False
      with Cons.prems inb False deps have "sweep ndxs (p, d) = Inr (p', d')"
        by (auto simp: bindE_def Let_def split: sum.splits)
      from Cons.IH[OF this] show ?thesis .
    qed
  qed
qed

text \<open>
  The loop \<^verbatim>\<open>while len(self.unorderedCmds) > 0\<close>: a sweep from the last index down to the
  first; when the sweep has moved no command, the cycle error with the statements of the
  commands that are left.
\<close>

function order_loop :: "EEMSProgram \<times> string list \<Rightarrow> error + EEMSProgram \<times> string list" where
  "order_loop (p, d) =
     (if length (unorderedCmds p) > 0 then
        (case sweep (rev [0..<length (unorderedCmds p)]) (p, d) of
           Inl e \<Rightarrow> Inl e
         | Inr (p', d') \<Rightarrow>
             if length (unorderedCmds p) = length (unorderedCmds p')
             then Inl (ProgError (CircularLogic (circular_logic_message (unorderedCmds p'))))
             else order_loop (p', d'))
      else Inr (p, d))"
  by pat_completeness auto
termination
proof (relation "measure (\<lambda>(p, d). length (unorderedCmds p))")
  show "wf (measure (\<lambda>(p, d). length (unorderedCmds p)))" by simp
next
  fix p :: EEMSProgram and d :: "string list" and x2 p' d'
  assume "sweep (rev [0..<length (unorderedCmds p)]) (p, d) = Inr x2" "(p', d') = x2"
    "length (unorderedCmds p) \<noteq> length (unorderedCmds p')"
  then show "((p', d'), (p, d)) \<in> measure (\<lambda>(p, d). length (unorderedCmds p))"
    using sweep_length_le[of "rev [0..<length (unorderedCmds p)]" p d p' d'] by auto
qed

definition OrderCmds :: "EEMSProgram \<Rightarrow> error + EEMSProgram" where
  "OrderCmds p =
     seqE (check_missing (allDefinedFieldNms p) (unorderedCmds p))
       (bindE (order_loop (p\<lparr>orderedCmds := []\<rparr>, []))
          (\<lambda>(p', d). Inr (p'\<lparr>crntCmdNdx := Some 0\<rparr>)))"

subsubsection \<open>The constructor\<close>

definition empty_program :: EEMSProgram where
  "empty_program =
     \<lparr>unorderedCmds = [], orderedCmds = [], crntCmdNdx = None, allDefinedFieldNms = Map.empty\<rparr>"

definition EEMSProgram_init :: "string \<Rightarrow> EEMSCmd list \<Rightarrow> error + EEMSProgram" where
  "EEMSProgram_init fNm cmds =
     bindE (add_all empty_program cmds) (\<lambda>p.
       if length (unorderedCmds p) = 0 then Inl (ProgError (NoCommands fNm))
       else OrderCmds p)"

subsubsection \<open>The cursor\<close>

definition NextCmd :: "EEMSProgram \<Rightarrow> error + bool \<times> EEMSProgram" where
  "NextCmd p =
     (case crntCmdNdx p of
        None \<Rightarrow> Inl TypeError
      | Some i \<Rightarrow>
          if i + 1 \<ge> int (length (orderedCmds p)) then Inr (False, p\<lparr>crntCmdNdx := None\<rparr>)
          else Inr (True, p\<lparr>crntCmdNdx := Some (i + 1)\<rparr>))"

definition PrevCmd :: "EEMSProgram \<Rightarrow> error + bool \<times> EEMSProgram" where
  "PrevCmd p =
     (case crntCmdNdx p of
        None \<Rightarrow> Inl TypeError
      | Some i \<Rightarrow>
          if i - 1 < 0 then Inr (False, p\<lparr>crntCmdNdx := None\<rparr>)
          else Inr (True, p\<lparr>crntCmdNdx := Some (i - 1)\<rparr>))"

text \<open>\<^verbatim>\<open>self.orderedCmds[self.crntCmdNdx]\<close>: a negative index counts from the end.\<close>

definition GetCrntCmd :: "EEMSProgram \<Rightarrow> error + EEMSCmd" where
  "GetCrntCmd p =
     (case crntCmdNdx p of
        None \<Rightarrow> Inl TypeError
      | Some i \<Rightarrow>
          (let n = int (length (orderedCmds p)); j = (if i < 0 then n + i else i)
           in if 0 \<le> j \<and> j < n then Inr (orderedCmds p ! nat j) else Inl IndexError))"

definition SetCrntCmdToFirst :: "EEMSProgram \<Rightarrow> EEMSProgram" where
  "SetCrntCmdToFirst p = p\<lparr>crntCmdNdx := Some 0\<rparr>"

subsection \<open>The evaluation engine (class \<^verbatim>\<open>EEMSCmdRunnerBase\<close>)\<close>

text \<open>
  A field's data is a masked array of numbers. The model flattens it: the list of its cells,
  \<open>None\<close> for a masked cell, and the length of the list for its shape; every operator of
  the engine works cell by cell, or along the axis that stacks fields. The destination of a
  field is a value the engine only stores.
\<close>

type_synonym marray = "real option list"

record EEMSFld =
  outFNm :: pval
  data :: marray

text \<open>
  Two things that the class does not hold decide what the methods that stack fields do, and
  the model keeps them with the state of the command runner. The first is the Python that
  runs the module: the module is written so that both read it (\<^verbatim>\<open>setup.py\<close> names Python 3,
  \<^verbatim>\<open>RunEEMSNetCDF.py\<close> Python 2.7), and the two differ in what \<^verbatim>\<open>exec\<close> does to the local
  names of a method. The second is what numpy keeps in an array under a masked cell: a masked
  array is an array of data and a mask, and \<open>under st nm i\<close> is the data of the field \<open>nm\<close>
  at the cell \<open>i\<close> where the mask hides it. The engine never computes these values by itself;
  they are given for every field name, the names of the fields to come included (a name is
  stored once).
\<close>

datatype python = Python2 | Python3

record EEMSCmdRunnerBase =
  EEMSFlds :: "string \<rightharpoonup> EEMSFld"
  arrayShape :: "nat option"
  interpreter :: python
  under :: "string \<Rightarrow> nat \<Rightarrow> real"

text \<open>\<^verbatim>\<open>__init__\<close>: no field and no shape yet.\<close>

definition new_runner :: "python \<Rightarrow> (string \<Rightarrow> nat \<Rightarrow> real) \<Rightarrow> EEMSCmdRunnerBase" where
  "new_runner py h = \<lparr>EEMSFlds = Map.empty, arrayShape = None, interpreter = py, under = h\<rparr>"

definition MinForFuzzyLimit :: real where
  "MinForFuzzyLimit = - 9999"

definition MaxForFuzzyLimit :: real where
  "MaxForFuzzyLimit = 9999"

subsubsection \<open>Masked arrays\<close>

definition unmasked :: "marray \<Rightarrow> real list" where
  "unmasked a = map the (filter (\<lambda>x. x \<noteq> None) a)"

text \<open>
  \<^verbatim>\<open>a.min()\<close> and \<^verbatim>\<open>a.max()\<close>: over the cells that are not masked; the masked constant
  (\<open>None\<close>) when all are masked; \<^verbatim>\<open>ValueError\<close> on an array without cells.
\<close>

definition ma_min :: "marray \<Rightarrow> error + real option" where
  "ma_min a =
     (if a = [] then Inl ValueError
      else case unmasked a of [] \<Rightarrow> Inr None | v # vs \<Rightarrow> Inr (Some (fold min vs v)))"

definition ma_max :: "marray \<Rightarrow> error + real option" where
  "ma_max a =
     (if a = [] then Inl ValueError
      else case unmasked a of [] \<Rightarrow> Inr None | v # vs \<Rightarrow> Inr (Some (fold max vs v)))"

text \<open>An operation of an array with a number, cell by cell; masked cells stay masked.\<close>

definition ma_scalar :: "(real \<Rightarrow> real) \<Rightarrow> marray \<Rightarrow> marray" where
  "ma_scalar f a = map (map_option f) a"

text \<open>
  An operation of two arrays, cell by cell; the cell is masked when one of the two is. The
  fields of one registry have one shape; arrays of two shapes make numpy raise
  \<^verbatim>\<open>ValueError\<close> (but for an array of a single cell, which it repeats: not modelled).
\<close>

definition ma_lift2 :: "(real \<Rightarrow> real \<Rightarrow> real) \<Rightarrow> marray \<Rightarrow> marray \<Rightarrow> error + marray" where
  "ma_lift2 f a b =
     (if length a \<noteq> length b then Inl ValueError
      else Inr (map2 (\<lambda>x y. case x of
                               None \<Rightarrow> None
                             | Some u \<Rightarrow> (case y of None \<Rightarrow> None | Some v \<Rightarrow> Some (f u v))) a b))"

text \<open>Division of an array by a number: numpy masks every cell when the number is zero.\<close>

definition ma_div :: "marray \<Rightarrow> real \<Rightarrow> marray" where
  "ma_div a s = (if s = 0 then replicate (length a) None else ma_scalar (\<lambda>v. v / s) a)"

text \<open>\<^verbatim>\<open>np.ma.zeros(self.arrayShape)\<close>; the shape is \<^verbatim>\<open>None\<close> until the first field is added.\<close>

definition ma_zeros :: "nat option \<Rightarrow> error + marray" where
  "ma_zeros shp = (case shp of None \<Rightarrow> Inl TypeError | Some n \<Rightarrow> Inr (replicate n (Some 0)))"

text \<open>
  \<^verbatim>\<open>newData = np.ma.where(newData > 1.0, 1.0, newData)\<close> and
  \<^verbatim>\<open>newData = np.ma.where(newData < -1.0, -1.0, newData)\<close>
\<close>

definition clip_fuzzy :: "marray \<Rightarrow> marray" where
  "clip_fuzzy a =
     ma_scalar (\<lambda>v. if v < - 1 then - 1 else v) (ma_scalar (\<lambda>v. if v > 1 then 1 else v) a)"

subsubsection \<open>The registry of fields\<close>

text \<open>
  \<^verbatim>\<open>_AddFieldToEEMSFlds\<close>. The message of its first error is built with \<^verbatim>\<open>'...*s*\n'%fldNm\<close>,
  a format without a conversion: Python raises \<^verbatim>\<open>TypeError\<close> there.
\<close>

definition AddFieldToEEMSFlds ::
  "EEMSCmdRunnerBase \<Rightarrow> pval \<Rightarrow> string \<Rightarrow> marray \<Rightarrow> error + EEMSCmdRunnerBase" where
  "AddFieldToEEMSFlds st outFileName fldNm fldArray =
     (case EEMSFlds st fldNm of
        Some f \<Rightarrow> Inl TypeError
      | None \<Rightarrow>
          (case arrayShape st of
             None \<Rightarrow>
               Inr (st\<lparr>arrayShape := Some (length fldArray),
                       EEMSFlds := (EEMSFlds st)(fldNm \<mapsto> \<lparr>outFNm = outFileName, data = fldArray\<rparr>)\<rparr>)
           | Some n \<Rightarrow>
               if length fldArray \<noteq> n
               then Inl (RunError (DataShapeMismatch fldNm (length fldArray) n))
               else Inr (st\<lparr>EEMSFlds :=
                              (EEMSFlds st)(fldNm \<mapsto> \<lparr>outFNm = outFileName, data = fldArray\<rparr>)\<rparr>)))"

text \<open>\<^verbatim>\<open>self.EEMSFlds[name]['data']\<close>\<close>

definition get_data :: "EEMSCmdRunnerBase \<Rightarrow> string \<Rightarrow> error + marray" where
  "get_data st nm = (case EEMSFlds st nm of None \<Rightarrow> Inl (KeyError nm) | Some f \<Rightarrow> Inr (data f))"

definition VerifyFuzzyField :: "EEMSCmdRunnerBase \<Rightarrow> string \<Rightarrow> error + unit" where
  "VerifyFuzzyField st inFldNm =
     bindE (get_data st inFldNm) (\<lambda>d.
     bindE (ma_min d) (\<lambda>lo.
     bindE (ma_max d) (\<lambda>hi.
       if (case lo of Some l \<Rightarrow> l < - 1 | None \<Rightarrow> False) \<or>
          (case hi of Some h \<Rightarrow> h > 1 | None \<Rightarrow> False)
       then Inl (RunError (FuzzyRangeError inFldNm))
       else Inr ())))"

text \<open>\<^verbatim>\<open>for inFldNm in inFieldNames: self._VerifyFuzzyField(inFldNm)\<close>\<close>

fun verify_all :: "EEMSCmdRunnerBase \<Rightarrow> string list \<Rightarrow> error + unit" where
  "verify_all st [] = Inr ()"
| "verify_all st (nm # nms) = seqE (VerifyFuzzyField st nm) (verify_all st nms)"

subsubsection \<open>Conversions to fuzzy values\<close>

text \<open>
  A threshold equal to \<open>MinForFuzzyLimit\<close> or \<open>MaxForFuzzyLimit\<close> stands for the least or
  the greatest value of the field.
\<close>

definition resolve_threshold :: "EEMSCmdRunnerBase \<Rightarrow> string \<Rightarrow> real \<Rightarrow> error + real option" where
  "resolve_threshold st inFieldName threshold =
     (if threshold = MinForFuzzyLimit then bindE (get_data st inFieldName) ma_min
      else if threshold = MaxForFuzzyLimit then bindE (get_data st inFieldName) ma_max
      else Inr (Some threshold))"

text \<open>
  \<^verbatim>\<open>CvtToFuzzy\<close>. When a threshold is the masked constant (a field with every cell masked),
  the comparison of the thresholds is masked, which counts as false, and the slope is masked:
  every cell of the result is masked.
\<close>

definition CvtToFuzzy ::
  "EEMSCmdRunnerBase \<Rightarrow> string \<Rightarrow> real \<Rightarrow> real \<Rightarrow> pval \<Rightarrow> string \<Rightarrow> error + EEMSCmdRunnerBase" where
  "CvtToFuzzy st inFieldName trueThreshold falseThreshold outFileName rsltName =
     bindE (resolve_threshold st inFieldName falseThreshold) (\<lambda>falseThresh.
     bindE (resolve_threshold st inFieldName trueThreshold) (\<lambda>trueThresh.
       case trueThresh of
         None \<Rightarrow>
           bindE (get_data st inFieldName) (\<lambda>d.
             AddFieldToEEMSFlds st outFileName rsltName (replicate (length d) None))
       | Some t \<Rightarrow>
           (case falseThresh of
              None \<Rightarrow>
                bindE (get_data st inFieldName) (\<lambda>d.
                  AddFieldToEEMSFlds st outFileName rsltName (replicate (length d) None))
            | Some f \<Rightarrow>
                if t = f then Inl (RunError (ThresholdsEqual inFieldName))
                else
                  (let m = (- 1 - 1) / (f - t);
                       b = 1 - m * t
                   in bindE (get_data st inFieldName) (\<lambda>d.
                        AddFieldToEEMSFlds st outFileName rsltName
                          (clip_fuzzy (ma_scalar (\<lambda>x. x * m + b) d)))))))"

text \<open>\<^verbatim>\<open>xs[i]\<close> of a Python list with an index that is not negative.\<close>

definition py_nth :: "'a list \<Rightarrow> nat \<Rightarrow> error + 'a" where
  "py_nth xs i = (if i < length xs then Inr (xs ! i) else Inl IndexError)"

text \<open>\<^verbatim>\<open>xs[-1]\<close>\<close>

definition py_last :: "'a list \<Rightarrow> error + 'a" where
  "py_last xs = (if xs = [] then Inl IndexError else Inr (last xs))"

text \<open>
  The loop of \<^verbatim>\<open>CvtToFuzzyCurve\<close> over the segments \<^verbatim>\<open>ndx = 1, ..., len(rawValues)-1\<close>: the
  cells above the anchor \<^verbatim>\<open>ndx-1\<close> and not above the anchor \<^verbatim>\<open>ndx\<close> get the value of the
  line through the two anchors. The anchors are Python floats: a segment between two equal
  raw values raises \<^verbatim>\<open>ZeroDivisionError\<close>.
\<close>

fun curve_segments ::
  "marray \<Rightarrow> real list \<Rightarrow> real list \<Rightarrow> nat list \<Rightarrow> marray \<Rightarrow> error + marray" where
  "curve_segments d rawValues fuzzyValues [] newData = Inr newData"
| "curve_segments d rawValues fuzzyValues (ndx # ndxs) newData =
     bindE (py_nth fuzzyValues ndx) (\<lambda>f1.
     bindE (py_nth fuzzyValues (ndx - 1)) (\<lambda>f0.
     bindE (py_nth rawValues ndx) (\<lambda>r1.
     bindE (py_nth rawValues (ndx - 1)) (\<lambda>r0.
       if r1 - r0 = 0 then Inl ZeroDivisionError
       else
         (let m = (f1 - f0) / (r1 - r0);
              b = f0 - m * r0
          in curve_segments d rawValues fuzzyValues ndxs
               (map2 (\<lambda>x old. case x of
                                 None \<Rightarrow> None
                               | Some v \<Rightarrow> if v \<le> r0 then old
                                           else if v \<le> r1 then Some (v * m + b) else old)
                  d newData))))))"

definition CvtToFuzzyCurve ::
  "EEMSCmdRunnerBase \<Rightarrow> string \<Rightarrow> real list \<Rightarrow> real list \<Rightarrow> pval \<Rightarrow> string
   \<Rightarrow> error + EEMSCmdRunnerBase" where
  "CvtToFuzzyCurve st inFieldName rawValues fuzzyValues outFileName rsltName =
     bindE (get_data st inFieldName) (\<lambda>d.
     bindE (py_nth rawValues 0) (\<lambda>raw0.
     bindE (py_nth fuzzyValues 0) (\<lambda>fuzzy0.
     bindE (curve_segments d rawValues fuzzyValues [1..<length rawValues]
              (ma_scalar (\<lambda>v. if v \<le> raw0 then fuzzy0 else - 9999) d)) (\<lambda>newData.
     bindE (py_last rawValues) (\<lambda>rawN.
     bindE (py_last fuzzyValues) (\<lambda>fuzzyN.
       AddFieldToEEMSFlds st outFileName rsltName
         (clip_fuzzy
            (map2 (\<lambda>x old. case x of None \<Rightarrow> None | Some v \<Rightarrow> if v > rawN then Some fuzzyN else old)
               d newData))))))))"

text \<open>The loop of \<^verbatim>\<open>CvtToFuzzyCat\<close> over the listed raw values.\<close>

fun cat_values :: "marray \<Rightarrow> real list \<Rightarrow> real list \<Rightarrow> nat list \<Rightarrow> marray \<Rightarrow> error + marray" where
  "cat_values d rawValues fuzzyValues [] newData = Inr newData"
| "cat_values d rawValues fuzzyValues (ndx # ndxs) newData =
     bindE (py_nth rawValues ndx) (\<lambda>r.
     bindE (py_nth fuzzyValues ndx) (\<lambda>f.
       cat_values d rawValues fuzzyValues ndxs
         (map2 (\<lambda>x old. case x of None \<Rightarrow> None | Some v \<Rightarrow> if v = r then Some f else old)
            d newData)))"

definition CvtToFuzzyCat ::
  "EEMSCmdRunnerBase \<Rightarrow> string \<Rightarrow> real list \<Rightarrow> real list \<Rightarrow> real \<Rightarrow> pval \<Rightarrow> string
   \<Rightarrow> error + EEMSCmdRunnerBase" where
  "CvtToFuzzyCat st inFieldName rawValues fuzzyValues defaultFuzzyValue outFileName rsltName =
     bindE (get_data st inFieldName) (\<lambda>d.
     bindE (cat_values d rawValues fuzzyValues [0..<length rawValues]
              (ma_scalar (\<lambda>v. defaultFuzzyValue) d)) (\<lambda>newData.
       AddFieldToEEMSFlds st outFileName rsltName newData))"

subsubsection \<open>Copy, difference, minimum, maximum, sum and mean\<close>

definition CopyField ::
  "EEMSCmdRunnerBase \<Rightarrow> string \<Rightarrow> pval \<Rightarrow> string \<Rightarrow> error + EEMSCmdRunnerBase" where
  "CopyField st inFieldName outFileName rsltName =
     bindE (get_data st inFieldName) (\<lambda>d. AddFieldToEEMSFlds st outFileName rsltName d)"

definition DifFlds ::
  "EEMSCmdRunnerBase \<Rightarrow> string \<Rightarrow> string \<Rightarrow> pval \<Rightarrow> string \<Rightarrow> error + EEMSCmdRunnerBase" where
  "DifFlds st startingFieldName toSubtractFieldName outFileName rsltName =
     bindE (get_data st startingFieldName) (\<lambda>a.
     bindE (get_data st toSubtractFieldName) (\<lambda>b.
     bindE (ma_lift2 (\<lambda>u v. u - v) a b) (\<lambda>newData.
       AddFieldToEEMSFlds st outFileName rsltName newData)))"

text \<open>
  \<^verbatim>\<open>for ndx in range(1,len(inFieldNames)): newData = op(newData, ...)\<close>, for the fields after
  the first.
\<close>

fun fold_fields ::
  "(real \<Rightarrow> real \<Rightarrow> real) \<Rightarrow> EEMSCmdRunnerBase \<Rightarrow> string list \<Rightarrow> marray \<Rightarrow> error + marray" where
  "fold_fields f st [] newData = Inr newData"
| "fold_fields f st (nm # nms) newData =
     bindE (get_data st nm) (\<lambda>d.
     bindE (ma_lift2 f newData d) (\<lambda>newData'. fold_fields f st nms newData'))"

definition first_field :: "EEMSCmdRunnerBase \<Rightarrow> string list \<Rightarrow> error + marray" where
  "first_field st inFieldNames = bindE (py_nth inFieldNames 0) (get_data st)"

definition MinFlds ::
  "EEMSCmdRunnerBase \<Rightarrow> string list \<Rightarrow> pval \<Rightarrow> string \<Rightarrow> error + EEMSCmdRunnerBase" where
  "MinFlds st inFieldNames outFileName rsltName =
     bindE (first_field st inFieldNames) (\<lambda>d0.
     bindE (fold_fields min st (tl inFieldNames) d0) (\<lambda>newData.
       AddFieldToEEMSFlds st outFileName rsltName newData))"

definition MaxFlds ::
  "EEMSCmdRunnerBase \<Rightarrow> string list \<Rightarrow> pval \<Rightarrow> string \<Rightarrow> error + EEMSCmdRunnerBase" where
  "MaxFlds st inFieldNames outFileName rsltName =
     bindE (first_field st inFieldNames) (\<lambda>d0.
     bindE (fold_fields max st (tl inFieldNames) d0) (\<lambda>newData.
       AddFieldToEEMSFlds st outFileName rsltName newData))"

definition SumFlds ::
  "EEMSCmdRunnerBase \<Rightarrow> string list \<Rightarrow> pval \<Rightarrow> string \<Rightarrow> error + EEMSCmdRunnerBase" where
  "SumFlds st inFieldNames outFileName rsltName =
     bindE (ma_zeros (arrayShape st)) (\<lambda>z.
     bindE (fold_fields (+) st inFieldNames z) (\<lambda>newData.
       AddFieldToEEMSFlds st outFileName rsltName newData))"

definition MeanFlds ::
  "EEMSCmdRunnerBase \<Rightarrow> string list \<Rightarrow> pval \<Rightarrow> string \<Rightarrow> error + EEMSCmdRunnerBase" where
  "MeanFlds st inFieldNames outFileName rsltName =
     bindE (ma_zeros (arrayShape st)) (\<lambda>z.
     bindE (fold_fields (+) st inFieldNames z) (\<lambda>newData.
       AddFieldToEEMSFlds st outFileName rsltName
         (ma_div newData (real (length inFieldNames)))))"

subsubsection \<open>Fuzzy logic operators\<close>

definition FuzzyNot ::
  "EEMSCmdRunnerBase \<Rightarrow> string \<Rightarrow> pval \<Rightarrow> string \<Rightarrow> error + EEMSCmdRunnerBase" where
  "FuzzyNot st inFieldName outFileName rsltName =
     seqE (VerifyFuzzyField st inFieldName)
       (bindE (get_data st inFieldName) (\<lambda>d.
          AddFieldToEEMSFlds st outFileName rsltName
            (clip_fuzzy (ma_scalar (\<lambda>v. - 1 * v) d))))"

definition FuzzyUnion ::
  "EEMSCmdRunnerBase \<Rightarrow> string list \<Rightarrow> pval \<Rightarrow> string \<Rightarrow> error + EEMSCmdRunnerBase" where
  "FuzzyUnion st inFieldNames outFileName rsltName =
     seqE (verify_all st inFieldNames)
       (bindE (ma_zeros (arrayShape st)) (\<lambda>z.
        bindE (fold_fields (+) st inFieldNames z) (\<lambda>newData.
          AddFieldToEEMSFlds st outFileName rsltName
            (clip_fuzzy (ma_div newData (real (length inFieldNames)))))))"

definition FuzzyOr ::
  "EEMSCmdRunnerBase \<Rightarrow> string list \<Rightarrow> pval \<Rightarrow> string \<Rightarrow> error + EEMSCmdRunnerBase" where
  "FuzzyOr st inFieldNames outFileName rsltName =
     seqE (verify_all st inFieldNames)
       (bindE (first_field st inFieldNames) (\<lambda>d0.
        bindE (fold_fields max st (tl inFieldNames) d0) (\<lambda>newData.
          AddFieldToEEMSFlds st outFileName rsltName (clip_fuzzy newData))))"

definition FuzzyAnd ::
  "EEMSCmdRunnerBase \<Rightarrow> string list \<Rightarrow> pval \<Rightarrow> string \<Rightarrow> error + EEMSCmdRunnerBase" where
  "FuzzyAnd st inFieldNames outFileName rsltName =
     seqE (verify_all st inFieldNames)
       (bindE (first_field st inFieldNames) (\<lambda>d0.
        bindE (fold_fields min st (tl inFieldNames) d0) (\<lambda>newData.
          AddFieldToEEMSFlds st outFileName rsltName (clip_fuzzy newData))))"

text \<open>\<^verbatim>\<open>newData = minVals + (meanVals - minVals) * (minVals + 1) / 2\<close>\<close>

definition emds_and :: "real \<Rightarrow> real \<Rightarrow> real" where
  "emds_and minVal meanVal = minVal + (meanVal - minVal) * (minVal + 1) / 2"

definition FuzzyEMDSAnd ::
  "EEMSCmdRunnerBase \<Rightarrow> string list \<Rightarrow> pval \<Rightarrow> string \<Rightarrow> error + EEMSCmdRunnerBase" where
  "FuzzyEMDSAnd st inFieldNames outFileName rsltName =
     seqE (verify_all st inFieldNames)
       (bindE (first_field st inFieldNames) (\<lambda>d0.
        bindE (fold_fields min st (tl inFieldNames) d0) (\<lambda>minVals.
        bindE (fold_fields (+) st (tl inFieldNames) d0) (\<lambda>totals.
        bindE (ma_lift2 emds_and minVals (ma_div totals (real (length inFieldNames)))) (\<lambda>newData.
          AddFieldToEEMSFlds st outFileName rsltName (clip_fuzzy newData))))))"

definition FuzzyOrNeg ::
  "EEMSCmdRunnerBase \<Rightarrow> string list \<Rightarrow> pval \<Rightarrow> string \<Rightarrow> error + EEMSCmdRunnerBase" where
  "FuzzyOrNeg st inFieldNames outFileName rsltName =
     FuzzyAnd st inFieldNames outFileName rsltName"

text \<open>
  \<^verbatim>\<open>for ndx in ...: newData += self.EEMSFlds[inFieldNames[ndx]]['data'] * weights[ndx]\<close>, the
  weights running along with the field names.
\<close>

fun weighted_sum ::
  "EEMSCmdRunnerBase \<Rightarrow> string list \<Rightarrow> real list \<Rightarrow> marray \<Rightarrow> error + marray" where
  "weighted_sum st [] ws newData = Inr newData"
| "weighted_sum st (nm # nms) ws newData =
     bindE (get_data st nm) (\<lambda>d.
       case ws of
         [] \<Rightarrow> Inl IndexError
       | w # ws' \<Rightarrow>
           bindE (ma_lift2 (+) newData (ma_scalar (\<lambda>v. v * w) d))
             (\<lambda>newData'. weighted_sum st nms ws' newData'))"

definition FuzzyWeightedUnion ::
  "EEMSCmdRunnerBase \<Rightarrow> string list \<Rightarrow> real list \<Rightarrow> pval \<Rightarrow> string
   \<Rightarrow> error + EEMSCmdRunnerBase" where
  "FuzzyWeightedUnion st inFieldNames weights outFileName rsltName =
     seqE (verify_all st inFieldNames)
       (bindE (ma_zeros (arrayShape st)) (\<lambda>z.
        bindE (weighted_sum st inFieldNames weights z) (\<lambda>newData.
          AddFieldToEEMSFlds st outFileName rsltName
            (clip_fuzzy (ma_div newData (sum_list weights))))))"

text \<open>
  The method that the source defines under the name \<^verbatim>\<open>FuzzyEMDSWeighteddAnd\<close> (with two
  letters d; the comment that closes it reads \<^verbatim>\<open># def FuzzyEMDSWeightedAnd(...)\<close>).
\<close>

definition FuzzyEMDSWeighteddAnd ::
  "EEMSCmdRunnerBase \<Rightarrow> string list \<Rightarrow> real list \<Rightarrow> pval \<Rightarrow> string
   \<Rightarrow> error + EEMSCmdRunnerBase" where
  "FuzzyEMDSWeighteddAnd st inFieldNames weights outFileName rsltName =
     seqE (verify_all st inFieldNames)
       (bindE (first_field st inFieldNames) (\<lambda>d0.
        bindE (py_nth weights 0) (\<lambda>w0.
        bindE (fold_fields min st (tl inFieldNames) d0) (\<lambda>minVals.
        bindE (weighted_sum st (tl inFieldNames) (tl weights) (ma_scalar (\<lambda>v. v * w0) d0)) (\<lambda>totals.
        bindE (ma_lift2 emds_and minVals (ma_div totals (sum_list weights))) (\<lambda>newData.
          AddFieldToEEMSFlds st outFileName rsltName (clip_fuzzy newData)))))))"

definition WeightedMean ::
  "EEMSCmdRunnerBase \<Rightarrow> string list \<Rightarrow> real list \<Rightarrow> pval \<Rightarrow> string
   \<Rightarrow> error + EEMSCmdRunnerBase" where
  "WeightedMean st inFieldNames weights outFileName rsltName =
     bindE (ma_zeros (arrayShape st)) (\<lambda>z.
     bindE (weighted_sum st inFieldNames weights z) (\<lambda>newData.
       AddFieldToEEMSFlds st outFileName rsltName (ma_div newData (sum_list weights))))"

definition WeightedSum ::
  "EEMSCmdRunnerBase \<Rightarrow> string list \<Rightarrow> real list \<Rightarrow> pval \<Rightarrow> string
   \<Rightarrow> error + EEMSCmdRunnerBase" where
  "WeightedSum st inFieldNames weights outFileName rsltName =
     bindE (ma_zeros (arrayShape st)) (\<lambda>z.
     bindE (weighted_sum st inFieldNames weights z) (\<lambda>newData.
       AddFieldToEEMSFlds st outFileName rsltName newData))"

subsubsection \<open>Stacked and sorted fields\<close>

text \<open>
  The statement handed to \<^verbatim>\<open>exec\<close> is
  \<^verbatim>\<open>stackedArrs = np.ma.concatenate(([self.EEMSFlds['X']['data']],[self.EEMSFlds['Y']['data']]))\<close>
  for the field names \<open>X\<close> and \<open>Y\<close>. Every element of the tuple is a Python list that holds
  one array; a list has no mask, so \<^verbatim>\<open>np.ma.concatenate\<close> reads the data of the arrays and
  drops their masks: the stack holds, at a masked cell, the data under the mask, and no cell of
  the stack is masked. Without a field name the statement reads the field of the empty name;
  fields of different shapes cannot be stacked.
\<close>

fun get_all :: "EEMSCmdRunnerBase \<Rightarrow> string list \<Rightarrow> error + marray list" where
  "get_all st [] = Inr []"
| "get_all st (nm # nms) =
     bindE (get_data st nm) (\<lambda>d. bindE (get_all st nms) (\<lambda>ds. Inr (d # ds)))"

definition raw_data :: "EEMSCmdRunnerBase \<Rightarrow> string \<Rightarrow> marray \<Rightarrow> real list" where
  "raw_data st nm d =
     map (\<lambda>i. case d ! i of Some v \<Rightarrow> v | None \<Rightarrow> under st nm i) [0..<length d]"

definition stack_fields :: "EEMSCmdRunnerBase \<Rightarrow> string list \<Rightarrow> error + real list list" where
  "stack_fields st inFieldNames =
     (if inFieldNames = [] then Inl (KeyError [])
      else bindE (get_all st inFieldNames) (\<lambda>ds.
             (let rows = map (\<lambda>(nm, d). raw_data st nm d) (zip inFieldNames ds)
              in if list_all (\<lambda>r. length r = length (hd rows)) rows then Inr rows
                 else Inl ValueError)))"

text \<open>
  The first use of \<^verbatim>\<open>stackedArrs\<close> after the \<^verbatim>\<open>exec\<close>. The methods also delete the name, so
  it is a local name of theirs. On Python 2 \<^verbatim>\<open>exec\<close> is a statement that binds the local
  name. On Python 3 \<^verbatim>\<open>exec\<close> is a function that cannot bind a local name of its caller: the
  name is still unbound and its use raises \<^verbatim>\<open>UnboundLocalError\<close>.
\<close>

definition load_local :: "EEMSCmdRunnerBase \<Rightarrow> string \<Rightarrow> error + unit" where
  "load_local st nm =
     (case interpreter st of Python2 \<Rightarrow> Inr () | Python3 \<Rightarrow> Inl (UnboundLocalError nm))"

text \<open>
  \<^verbatim>\<open>stackedArrs.sort(axis=0, kind='heapsort')\<close>: at every cell the values of the stacked
  fields in ascending order. The result is held by columns: one sorted list per cell.
\<close>

definition sorted_columns :: "real list list \<Rightarrow> real list list" where
  "sorted_columns rows =
     map (\<lambda>j. sort (map (\<lambda>r. r ! j) rows)) [0..<length (hd rows)]"

text \<open>
  A list of row indices as numpy reads it: a negative index counts from the end, an index
  out of range raises \<^verbatim>\<open>IndexError\<close>.
\<close>

fun row_indices :: "nat \<Rightarrow> int list \<Rightarrow> error + nat list" where
  "row_indices n [] = Inr []"
| "row_indices n (i # is) =
     (if 0 \<le> i \<and> i < int n then bindE (row_indices n is) (\<lambda>js. Inr (nat i # js))
      else if - int n \<le> i \<and> i < 0 then bindE (row_indices n is) (\<lambda>js. Inr (nat (int n + i) # js))
      else Inl IndexError)"

text \<open>
  \<^verbatim>\<open>stackedArrs[myRange].mean(axis=0)\<close> at one cell: the mean of the selected values. Without
  a selected row numpy goes on with NaN: the model stops with \<open>NonFinite\<close>.
\<close>

definition selected_mean :: "nat list \<Rightarrow> real list \<Rightarrow> real" where
  "selected_mean rows col = sum_list (map (\<lambda>i. col ! i) rows) / real (length rows)"

definition FuzzySelectedUnion ::
  "EEMSCmdRunnerBase \<Rightarrow> string list \<Rightarrow> string \<Rightarrow> int \<Rightarrow> pval \<Rightarrow> string
   \<Rightarrow> error + EEMSCmdRunnerBase" where
  "FuzzySelectedUnion st inFieldNames truestOrFalsest numberToConsider outFileName rsltName =
     seqE (verify_all st inFieldNames)
       (if length inFieldNames = 1
        then CopyField st (hd inFieldNames) outFileName rsltName
        else
          bindE (stack_fields st inFieldNames) (\<lambda>rows.
          seqE (load_local st ''stackedArrs'')
         (bindE (if matches_word ''truest'' truestOrFalsest
                 then Inr [int (length inFieldNames) - numberToConsider ..
                           int (length inFieldNames) - 1]
                 else if matches_word ''falsest'' truestOrFalsest
                 then Inr [0 .. numberToConsider - 1]
                 else Inl (RunError (TruestOrFalsestError truestOrFalsest))) (\<lambda>myRange.
          bindE (row_indices (length rows) myRange) (\<lambda>js.
            if js = [] then Inl NonFinite
            else AddFieldToEEMSFlds st outFileName rsltName
                   (clip_fuzzy (map (\<lambda>col. Some (selected_mean js col)) (sorted_columns rows))))))))"

text \<open>
  \<^verbatim>\<open>FuzzyXOr\<close> at one cell of the sorted stack, \<open>t\<close> the last (truest) value and \<open>s\<close> the
  one before it: where \<open>t\<close> is not \<open>-1\<close> the formula, else \<open>-1\<close>. The division masks the
  formula where \<open>t\<close> is \<open>-1\<close>, and only there; these are the cells that take the \<open>-1\<close>, so
  no cell of the result is masked.
\<close>

definition xor_formula :: "real \<Rightarrow> real \<Rightarrow> real" where
  "xor_formula t s = t - (t - s) * (s - - 1) / (t - - 1)"

definition xor_cell :: "real list \<Rightarrow> real option" where
  "xor_cell col =
     (let t = col ! (length col - 1);
          s = col ! (length col - 2)
      in if t \<noteq> - 1 then Some (xor_formula t s) else Some (- 1))"

text \<open>
  The message of the first error names \<^verbatim>\<open>inFieldNames[0]\<close>: without a field name Python
  raises \<^verbatim>\<open>IndexError\<close> while it builds the message.
\<close>

definition FuzzyXOr ::
  "EEMSCmdRunnerBase \<Rightarrow> string list \<Rightarrow> pval \<Rightarrow> string \<Rightarrow> error + EEMSCmdRunnerBase" where
  "FuzzyXOr st inFieldNames outFileName rsltName =
     (if length inFieldNames < 2 then
        (if inFieldNames = [] then Inl IndexError
         else Inl (RunError (XOrNeedsTwoFields rsltName)))
      else
        seqE (verify_all st inFieldNames)
          (bindE (stack_fields st inFieldNames) (\<lambda>rows.
           seqE (load_local st ''stackedArrs'')
             (AddFieldToEEMSFlds st outFileName rsltName
               (clip_fuzzy (map xor_cell (sorted_columns rows)))))))"

subsubsection \<open>Range scores and mean to mid\<close>

text \<open>
  \<^verbatim>\<open>(data - minValue) / (maxValue - minValue)\<close>: every cell is masked when the least and the
  greatest value are equal (division by zero) or masked.
\<close>

definition ScoreRangeBenefit ::
  "EEMSCmdRunnerBase \<Rightarrow> string \<Rightarrow> pval \<Rightarrow> string \<Rightarrow> error + EEMSCmdRunnerBase" where
  "ScoreRangeBenefit st inFieldName outFileName rsltName =
     bindE (get_data st inFieldName) (\<lambda>d.
     bindE (ma_min d) (\<lambda>minValue.
     bindE (ma_max d) (\<lambda>maxValue.
       AddFieldToEEMSFlds st outFileName rsltName
         (case minValue of
            None \<Rightarrow> replicate (length d) None
          | Some lo \<Rightarrow>
              (case maxValue of
                 None \<Rightarrow> replicate (length d) None
               | Some hi \<Rightarrow> ma_div (ma_scalar (\<lambda>v. v - lo) d) (hi - lo))))))"

definition ScoreRangeCost ::
  "EEMSCmdRunnerBase \<Rightarrow> string \<Rightarrow> pval \<Rightarrow> string \<Rightarrow> error + EEMSCmdRunnerBase" where
  "ScoreRangeCost st inFieldName outFileName rsltName =
     bindE (get_data st inFieldName) (\<lambda>d.
     bindE (ma_min d) (\<lambda>minValue.
     bindE (ma_max d) (\<lambda>maxValue.
       AddFieldToEEMSFlds st outFileName rsltName
         (case minValue of
            None \<Rightarrow> replicate (length d) None
          | Some lo \<Rightarrow>
              (case maxValue of
                 None \<Rightarrow> replicate (length d) None
               | Some hi \<Rightarrow> ma_div (ma_scalar (\<lambda>v. hi - v) d) (hi - lo))))))"

text \<open>
  The names bound in the module: its two imports and its classes. A name that is neither
  bound there nor a builtin raises \<^verbatim>\<open>NameError\<close> when it is read.
\<close>

definition module_globals :: "string list" where
  "module_globals =
     [''re'', ''np'', ''EEMSCmd'', ''EEMSProgram'', ''EEMSCmdRunnerBase'', ''EEMSInterpreter'',
      ''EEMSUtils'']"

definition load_global :: "string \<Rightarrow> error + unit" where
  "load_global nm = (if nm \<in> set module_globals then Inr () else Inl (NameError nm))"

text \<open>The mean of a list of numbers; of no number it is NaN or masked.\<close>

definition mean_of :: "real list \<Rightarrow> error + real" where
  "mean_of vs = (if vs = [] then Inl NonFinite else Inr (sum_list vs / real (length vs)))"

text \<open>
  \<^verbatim>\<open>MeanToMid\<close>. With \<^verbatim>\<open>ignoreZeros\<close> the statistics are those of the cells that are neither
  masked nor zero. Otherwise the source evaluates \<^verbatim>\<open>cp.deepcopy(...)\<close>, and reading the name
  \<^verbatim>\<open>cp\<close> comes first. The five anchors are numpy numbers: where the curve conversion would
  divide by zero, numpy goes on with an infinity or NaN.
\<close>

definition MeanToMid ::
  "EEMSCmdRunnerBase \<Rightarrow> string \<Rightarrow> bool \<Rightarrow> real list \<Rightarrow> pval \<Rightarrow> string
   \<Rightarrow> error + EEMSCmdRunnerBase" where
  "MeanToMid st inFieldName ignoreZeros fuzzyValues outFileName rsltName =
     bindE (if ignoreZeros
            then bindE (get_data st inFieldName) (\<lambda>d. Inr (filter (\<lambda>v. v \<noteq> 0) (unmasked d)))
            else bindE (load_global ''cp'') (\<lambda>u.
                   bindE (get_data st inFieldName) (\<lambda>d. Inr (unmasked d)))) (\<lambda>valArr.
     bindE (mean_of valArr) (\<lambda>meanVal.
     bindE (mean_of (filter (\<lambda>v. v < meanVal) valArr)) (\<lambda>lowMeanVal.
     bindE (mean_of (filter (\<lambda>v. v > meanVal) valArr)) (\<lambda>hiMeanVal.
       (let lowVal = fold min (tl valArr) (hd valArr);
            hiVal = fold max (tl valArr) (hd valArr)
        in case CvtToFuzzyCurve st inFieldName [lowVal, lowMeanVal, meanVal, hiMeanVal, hiVal]
                  fuzzyValues outFileName rsltName of
             Inl ZeroDivisionError \<Rightarrow> Inl NonFinite
           | r \<Rightarrow> r)))))"

definition CallExtern :: "EEMSCmdRunnerBase \<Rightarrow> error + EEMSCmdRunnerBase" where
  "CallExtern st = Inl (RunError CallExternNotImplemented)"

definition Finish :: "EEMSCmdRunnerBase \<Rightarrow> EEMSCmdRunnerBase" where
  "Finish st = st"

subsection \<open>Example commands and programs\<close>

text \<open>
  The commands of the chain \<^verbatim>\<open>READ(InFileName=in,InFieldName=A)\<close>,
  \<^verbatim>\<open>B=CVTTOFUZZY(InFieldName=A,TrueThreshold=100,FalseThreshold=0)\<close>,
  \<^verbatim>\<open>C=NOT(InFieldName=B)\<close>, each the value of the constructor on its parsed statement.
\<close>

definition read_A :: EEMSCmd where
  "read_A = projr (EEMSCmd_init ''READ(InFileName=in,InFieldName=A)'' None ''READ''
      [(''InFileName'', ''in''), (''InFieldName'', ''A'')])"

definition cvt_B :: EEMSCmd where
  "cvt_B = projr (EEMSCmd_init
      ''B=CVTTOFUZZY(InFieldName=A,TrueThreshold=100,FalseThreshold=0)'' (Some ''B'') ''CVTTOFUZZY''
      [(''InFieldName'', ''A''), (''TrueThreshold'', ''100''), (''FalseThreshold'', ''0'')])"

definition not_C :: EEMSCmd where
  "not_C = projr (EEMSCmd_init ''C=NOT(InFieldName=B)'' (Some ''C'') ''NOT''
      [(''InFieldName'', ''B'')])"

text \<open>The chain, written in the file from its end to its beginning, and the loaded program.\<close>

definition chain_cmds :: "EEMSCmd list" where
  "chain_cmds = [not_C, cvt_B, read_A]"

definition chain_program :: EEMSProgram where
  "chain_program = projr (EEMSProgram_init ''chain.eem'' chain_cmds)"

text \<open>
  The cycle \<^verbatim>\<open>D = OR(InFieldNames=[E])\<close>, \<^verbatim>\<open>E = OR(InFieldNames=[D])\<close>, and the state in which
  the ordering loop starts on it.
\<close>

definition or_D :: EEMSCmd where
  "or_D = projr (EEMSCmd_init ''D = OR(InFieldNames=[E])'' (Some ''D'') ''OR''
      [(''InFieldNames'', ''[E]'')])"

definition or_E :: EEMSCmd where
  "or_E = projr (EEMSCmd_init ''E = OR(InFieldNames=[D])'' (Some ''E'') ''OR''
      [(''InFieldNames'', ''[D]'')])"

definition cycle_state :: EEMSProgram where
  "cycle_state = (projr (add_all empty_program [or_D, or_E]))\<lparr>orderedCmds := []\<rparr>"

definition cycle_swept :: "EEMSProgram \<times> string list" where
  "cycle_swept = projr (sweep (rev [0..<length (unorderedCmds cycle_state)]) (cycle_state, []))"

text \<open>Two read commands, and the state in which the ordering loop starts on them.\<close>

definition read_B :: EEMSCmd where
  "read_B = projr (EEMSCmd_init ''READ(InFileName=in,InFieldName=B)'' None ''READ''
      [(''InFileName'', ''in''), (''InFieldName'', ''B'')])"

definition reads_state :: EEMSProgram where
  "reads_state = (projr (add_all empty_program [read_A, read_B]))\<lparr>orderedCmds := []\<rparr>"

definition reads_swept :: "EEMSProgram \<times> string list" where
  "reads_swept = projr (sweep (rev [0..<length (unorderedCmds reads_state)]) (reads_state, []))"




text \<open>
  The parsed statements \<^verbatim>\<open>R = WTDMEAN(InFieldNames=[X,Y], Weights=[1])\<close> and
  \<^verbatim>\<open>R = SELECTEDUNION(InFieldNames=[X,Y], TruestOrFalsest=Truest, NumberToConsider=3)\<close>.
\<close>

definition wtdmean_text :: string where
  "wtdmean_text = ''R = WTDMEAN(InFieldNames=[X,Y], Weights=[1])''"

definition wtdmean_params :: "(string \<times> string) list" where
  "wtdmean_params = [(''InFieldNames'', ''[X,Y]''), (''Weights'', ''[1]'')]"

definition selunion_text :: string where
  "selunion_text =
     ''R = SELECTEDUNION(InFieldNames=[X,Y], TruestOrFalsest=Truest, NumberToConsider=3)''"

definition selunion_params :: "(string \<times> string) list" where
  "selunion_params =
     [(''InFieldNames'', ''[X,Y]''), (''TruestOrFalsest'', ''Truest''), (''NumberToConsider'', ''3'')]"

subsection \<open>The interpreter (class \<^verbatim>\<open>EEMSInterpreter\<close>)\<close>

text \<open>
  The interpreter holds the program, the command runner and the two dictionaries of
  parameter values: the defaults for optional parameters that a statement leaves out, and
  the values that override what a statement says.
\<close>

record EEMSInterpreter =
  myProg :: EEMSProgram
  myCmdRunner :: EEMSCmdRunnerBase
  dfltOptnlParamVals :: "string \<rightharpoonup> pval"
  paramOverrideVals :: "string \<rightharpoonup> pval"

definition EEMSInterpreter_init ::
  "string \<Rightarrow> EEMSCmd list \<Rightarrow> EEMSCmdRunnerBase \<Rightarrow> error + EEMSInterpreter" where
  "EEMSInterpreter_init EEMSProgFNm cmds cmdRunner =
     bindE (EEMSProgram_init EEMSProgFNm cmds) (\<lambda>p.
       Inr \<lparr>myProg = SetCrntCmdToFirst p, myCmdRunner = cmdRunner,
            dfltOptnlParamVals = Map.empty, paramOverrideVals = Map.empty\<rparr>)"

definition SetDfltOptionalParam :: "EEMSInterpreter \<Rightarrow> string \<Rightarrow> pval \<Rightarrow> EEMSInterpreter" where
  "SetDfltOptionalParam I paramNm paramVal =
     I\<lparr>dfltOptnlParamVals := (dfltOptnlParamVals I)(paramNm \<mapsto> paramVal)\<rparr>"

definition SetOverrideParam :: "EEMSInterpreter \<Rightarrow> string \<Rightarrow> pval \<Rightarrow> EEMSInterpreter" where
  "SetOverrideParam I paramNm paramVal =
     I\<lparr>paramOverrideVals := (paramOverrideVals I)(paramNm \<mapsto> paramVal)\<rparr>"

subsubsection \<open>The parameters of the current command\<close>

text \<open>Set values for optional parameters.\<close>

fun fill_optional ::
  "EEMSInterpreter \<Rightarrow> EEMSCmd \<Rightarrow> string list \<Rightarrow> (string \<rightharpoonup> pval) \<Rightarrow> error + (string \<rightharpoonup> pval)" where
  "fill_optional I c [] cmdParams = Inr cmdParams"
| "fill_optional I c (paramNm # rest) cmdParams =
     (if HasParam c paramNm then
        bindE (GetParam c paramNm) (\<lambda>v. fill_optional I c rest (cmdParams(paramNm \<mapsto> v)))
      else
        (case dfltOptnlParamVals I paramNm of
           Some v \<Rightarrow> fill_optional I c rest (cmdParams(paramNm \<mapsto> v))
         | None \<Rightarrow> fill_optional I c rest (cmdParams(paramNm \<mapsto> PStr ''NONE''))))"

text \<open>Do overrides, for every parameter that the statement has.\<close>

fun fill_present ::
  "EEMSInterpreter \<Rightarrow> EEMSCmd \<Rightarrow> string list \<Rightarrow> (string \<rightharpoonup> pval) \<Rightarrow> error + (string \<rightharpoonup> pval)" where
  "fill_present I c [] cmdParams = Inr cmdParams"
| "fill_present I c (paramNm # rest) cmdParams =
     (case paramOverrideVals I paramNm of
        Some v \<Rightarrow> fill_present I c rest (cmdParams(paramNm \<mapsto> v))
      | None \<Rightarrow>
          bindE (GetParam c paramNm) (\<lambda>v. fill_present I c rest (cmdParams(paramNm \<mapsto> v))))"

definition cmd_params :: "EEMSInterpreter \<Rightarrow> EEMSCmd \<Rightarrow> error + (string \<rightharpoonup> pval)" where
  "cmd_params I c =
     bindE (fill_optional I c (GetOptionalParamNames c) Map.empty)
       (fill_present I c (GetParamNames c))"

text \<open>\<^verbatim>\<open>cmdParams[k]\<close>\<close>

definition param :: "(string \<rightharpoonup> pval) \<Rightarrow> string \<Rightarrow> error + pval" where
  "param cmdParams k = (case cmdParams k of None \<Rightarrow> Inl (KeyError k) | Some v \<Rightarrow> Inr v)"

subsubsection \<open>The values that reach the engine\<close>

text \<open>
  The engine's methods take what the interpreter hands them; what a method does with a value
  of a kind it does not expect is reduced here to the error of the conversion.
\<close>

definition to_key :: "pval \<Rightarrow> error + string" where
  "to_key v =
     (case v of
        PStr s \<Rightarrow> Inr s
      | PStrList xs \<Rightarrow> Inl TypeError
      | PIntList xs \<Rightarrow> Inl TypeError
      | PFloatList xs \<Rightarrow> Inl TypeError
      | _ \<Rightarrow> Inl (KeyError []))"

definition to_names :: "pval \<Rightarrow> error + string list" where
  "to_names v =
     (case v of
        PStrList xs \<Rightarrow> Inr xs
      | PStr s \<Rightarrow> Inr (map (\<lambda>ch. [ch]) s)
      | _ \<Rightarrow> Inl TypeError)"

definition to_real :: "pval \<Rightarrow> error + real" where
  "to_real v =
     (case v of
        PFloat x \<Rightarrow> Inr x
      | PInt n \<Rightarrow> Inr (real_of_int n)
      | PBool b \<Rightarrow> Inr (if b then 1 else 0)
      | _ \<Rightarrow> Inl TypeError)"

definition to_reals :: "pval \<Rightarrow> error + real list" where
  "to_reals v =
     (case v of
        PFloatList xs \<Rightarrow> Inr xs
      | PIntList ns \<Rightarrow> Inr (map real_of_int ns)
      | _ \<Rightarrow> Inl TypeError)"

definition to_int :: "pval \<Rightarrow> error + int" where
  "to_int v =
     (case v of
        PInt n \<Rightarrow> Inr n
      | PBool b \<Rightarrow> Inr (if b then 1 else 0)
      | _ \<Rightarrow> Inl TypeError)"

definition to_text :: "pval \<Rightarrow> error + string" where
  "to_text v = (case v of PStr s \<Rightarrow> Inr s | _ \<Rightarrow> Inl TypeError)"

text \<open>The truth value of a value under \<^verbatim>\<open>if\<close>.\<close>

definition truthy :: "pval \<Rightarrow> bool" where
  "truthy v =
     (case v of
        PNone \<Rightarrow> False
      | PStr s \<Rightarrow> s \<noteq> []
      | PInt n \<Rightarrow> n \<noteq> 0
      | PFloat x \<Rightarrow> x \<noteq> 0
      | PBool b \<Rightarrow> b
      | PStrList xs \<Rightarrow> xs \<noteq> []
      | PIntList xs \<Rightarrow> xs \<noteq> []
      | PFloatList xs \<Rightarrow> xs \<noteq> [])"

subsubsection \<open>The methods of the command runner, by name\<close>

text \<open>
  Reading is the work of the class that extends \<^verbatim>\<open>EEMSCmdRunnerBase\<close> for a file format: its
  \<^verbatim>\<open>ReadMulti(inFileName, inFieldNames, outFileName, newFieldNames)\<close> is a parameter of the
  model. The \<^verbatim>\<open>ReadMulti\<close> of the base class takes three arguments and cannot be called
  with four.
\<close>

type_synonym reader =
  "pval \<Rightarrow> pval \<Rightarrow> pval \<Rightarrow> pval \<Rightarrow> EEMSCmdRunnerBase \<Rightarrow> error + EEMSCmdRunnerBase"

definition base_ReadMulti :: reader where
  "base_ReadMulti inFileName inFieldNames outFileName newFieldNames st = Inl TypeError"

definition Read ::
  "reader \<Rightarrow> pval \<Rightarrow> pval \<Rightarrow> pval \<Rightarrow> pval \<Rightarrow> EEMSCmdRunnerBase \<Rightarrow> error + EEMSCmdRunnerBase" where
  "Read ReadMulti inFileName inFieldName outFileName newFieldName st =
     bindE (to_text inFieldName) (\<lambda>nm.
       if newFieldName \<noteq> PStr ''NONE'' then
         bindE (to_text newFieldName) (\<lambda>new.
           ReadMulti inFileName (PStrList [nm]) outFileName (PStrList [new]) st)
       else ReadMulti inFileName (PStrList [nm]) outFileName newFieldName st)"

type_synonym bound_method = "pval list \<Rightarrow> EEMSCmdRunnerBase \<Rightarrow> error + EEMSCmdRunnerBase"

text \<open>Methods by the kinds of their arguments; a call with another number of arguments
  raises \<^verbatim>\<open>TypeError\<close>.\<close>

definition one_field_method ::
  "(EEMSCmdRunnerBase \<Rightarrow> string \<Rightarrow> pval \<Rightarrow> string \<Rightarrow> error + EEMSCmdRunnerBase) \<Rightarrow> bound_method" where
  "one_field_method f args st =
     (case args of
        [inFieldName, outFileName, rsltName] \<Rightarrow>
          bindE (to_key inFieldName) (\<lambda>nm.
          bindE (to_key rsltName) (\<lambda>r. f st nm outFileName r))
      | _ \<Rightarrow> Inl TypeError)"

definition fields_method ::
  "(EEMSCmdRunnerBase \<Rightarrow> string list \<Rightarrow> pval \<Rightarrow> string \<Rightarrow> error + EEMSCmdRunnerBase)
   \<Rightarrow> bound_method" where
  "fields_method f args st =
     (case args of
        [inFieldNames, outFileName, rsltName] \<Rightarrow>
          bindE (to_names inFieldNames) (\<lambda>nms.
          bindE (to_key rsltName) (\<lambda>r. f st nms outFileName r))
      | _ \<Rightarrow> Inl TypeError)"

definition weighted_method ::
  "(EEMSCmdRunnerBase \<Rightarrow> string list \<Rightarrow> real list \<Rightarrow> pval \<Rightarrow> string
    \<Rightarrow> error + EEMSCmdRunnerBase) \<Rightarrow> bound_method" where
  "weighted_method f args st =
     (case args of
        [inFieldNames, weights, outFileName, rsltName] \<Rightarrow>
          bindE (to_names inFieldNames) (\<lambda>nms.
          bindE (to_reals weights) (\<lambda>ws.
          bindE (to_key rsltName) (\<lambda>r. f st nms ws outFileName r)))
      | _ \<Rightarrow> Inl TypeError)"

definition lists_method ::
  "(EEMSCmdRunnerBase \<Rightarrow> string \<Rightarrow> real list \<Rightarrow> real list \<Rightarrow> pval \<Rightarrow> string
    \<Rightarrow> error + EEMSCmdRunnerBase) \<Rightarrow> bound_method" where
  "lists_method f args st =
     (case args of
        [inFieldName, rawValues, fuzzyValues, outFileName, rsltName] \<Rightarrow>
          bindE (to_key inFieldName) (\<lambda>nm.
          bindE (to_reals rawValues) (\<lambda>raws.
          bindE (to_reals fuzzyValues) (\<lambda>fuzzies.
          bindE (to_key rsltName) (\<lambda>r. f st nm raws fuzzies outFileName r))))
      | _ \<Rightarrow> Inl TypeError)"

text \<open>
  \<^verbatim>\<open>getattr\<close> on a command runner of the base class: the methods that the class defines,
  under the names of their definitions. \<open>None\<close> is \<^verbatim>\<open>AttributeError\<close>.
\<close>

definition runner_method :: "reader \<Rightarrow> string \<Rightarrow> bound_method option" where
  "runner_method ReadMulti nm =
     (if nm = ''Read'' then
        Some (\<lambda>args st. case args of
                [a, b, c, d] \<Rightarrow> Read ReadMulti a b c d st
              | _ \<Rightarrow> Inl TypeError)
      else if nm = ''ReadMulti'' then
        Some (\<lambda>args st. case args of
                [a, b, c, d] \<Rightarrow> ReadMulti a b c d st
              | _ \<Rightarrow> Inl TypeError)
      else if nm = ''CvtToFuzzy'' then
        Some (\<lambda>args st. case args of
                [inFieldName, trueThreshold, falseThreshold, outFileName, rsltName] \<Rightarrow>
                  bindE (to_key inFieldName) (\<lambda>f.
                  bindE (to_real trueThreshold) (\<lambda>t.
                  bindE (to_real falseThreshold) (\<lambda>fa.
                  bindE (to_key rsltName) (\<lambda>r. CvtToFuzzy st f t fa outFileName r))))
              | _ \<Rightarrow> Inl TypeError)
      else if nm = ''CvtToFuzzyCurve'' then Some (lists_method CvtToFuzzyCurve)
      else if nm = ''CvtToFuzzyCat'' then
        Some (\<lambda>args st. case args of
                [inFieldName, rawValues, fuzzyValues, defaultFuzzyValue, outFileName, rsltName] \<Rightarrow>
                  bindE (to_key inFieldName) (\<lambda>f.
                  bindE (to_reals rawValues) (\<lambda>raws.
                  bindE (to_reals fuzzyValues) (\<lambda>fuzzies.
                  bindE (to_real defaultFuzzyValue) (\<lambda>dflt.
                  bindE (to_key rsltName) (\<lambda>r.
                    CvtToFuzzyCat st f raws fuzzies dflt outFileName r)))))
              | _ \<Rightarrow> Inl TypeError)
      else if nm = ''MeanToMid'' then
        Some (\<lambda>args st. case args of
                [inFieldName, ignoreZeros, fuzzyValues, outFileName, rsltName] \<Rightarrow>
                  bindE (to_key inFieldName) (\<lambda>f.
                  bindE (to_reals fuzzyValues) (\<lambda>fuzzies.
                  bindE (to_key rsltName) (\<lambda>r.
                    MeanToMid st f (truthy ignoreZeros) fuzzies outFileName r)))
              | _ \<Rightarrow> Inl TypeError)
      else if nm = ''CopyField'' then Some (one_field_method CopyField)
      else if nm = ''DifFlds'' then
        Some (\<lambda>args st. case args of
                [startingFieldName, toSubtractFieldName, outFileName, rsltName] \<Rightarrow>
                  bindE (to_key startingFieldName) (\<lambda>a.
                  bindE (to_key toSubtractFieldName) (\<lambda>b.
                  bindE (to_key rsltName) (\<lambda>r. DifFlds st a b outFileName r)))
              | _ \<Rightarrow> Inl TypeError)
      else if nm = ''MinFlds'' then Some (fields_method MinFlds)
      else if nm = ''MaxFlds'' then Some (fields_method MaxFlds)
      else if nm = ''SumFlds'' then Some (fields_method SumFlds)
      else if nm = ''MeanFlds'' then Some (fields_method MeanFlds)
      else if nm = ''FuzzyNot'' then Some (one_field_method FuzzyNot)
      else if nm = ''FuzzyUnion'' then Some (fields_method FuzzyUnion)
      else if nm = ''FuzzyOr'' then Some (fields_method FuzzyOr)
      else if nm = ''FuzzyAnd'' then Some (fields_method FuzzyAnd)
      else if nm = ''FuzzyEMDSAnd'' then Some (fields_method FuzzyEMDSAnd)
      else if nm = ''FuzzyOrNeg'' then Some (fields_method FuzzyOrNeg)
      else if nm = ''FuzzyWeightedUnion'' then Some (weighted_method FuzzyWeightedUnion)
      else if nm = ''FuzzyEMDSWeighteddAnd'' then Some (weighted_method FuzzyEMDSWeighteddAnd)
      else if nm = ''WeightedMean'' then Some (weighted_method WeightedMean)
      else if nm = ''WeightedSum'' then Some (weighted_method WeightedSum)
      else if nm = ''FuzzySelectedUnion'' then
        Some (\<lambda>args st. case args of
                [inFieldNames, truestOrFalsest, numberToConsider, outFileName, rsltName] \<Rightarrow>
                  bindE (to_names inFieldNames) (\<lambda>nms.
                  bindE (to_text truestOrFalsest) (\<lambda>tf.
                  bindE (to_int numberToConsider) (\<lambda>n.
                  bindE (to_key rsltName) (\<lambda>r.
                    FuzzySelectedUnion st nms tf n outFileName r))))
              | _ \<Rightarrow> Inl TypeError)
      else if nm = ''FuzzyXOr'' then Some (fields_method FuzzyXOr)
      else if nm = ''ScoreRangeBenefit'' then Some (one_field_method ScoreRangeBenefit)
      else if nm = ''ScoreRangeCost'' then Some (one_field_method ScoreRangeCost)
      else if nm = ''CallExtern'' then
        Some (\<lambda>args st. case args of [] \<Rightarrow> CallExtern st | _ \<Rightarrow> Inl TypeError)
      else if nm = ''Finish'' then
        Some (\<lambda>args st. case args of [] \<Rightarrow> Inr (Finish st) | _ \<Rightarrow> Inl TypeError)
      else None)"

text \<open>The arguments of a call, evaluated from left to right.\<close>

fun collect :: "(error + 'a) list \<Rightarrow> error + 'a list" where
  "collect [] = Inr []"
| "collect (m # ms) = bindE m (\<lambda>x. bindE (collect ms) (\<lambda>xs. Inr (x # xs)))"

text \<open>
  \<^verbatim>\<open>self.myCmdRunner.NAME(arguments)\<close>: the method is looked up, then the arguments are
  evaluated, then the method is called.
\<close>

definition call_method ::
  "reader \<Rightarrow> EEMSCmdRunnerBase \<Rightarrow> string \<Rightarrow> (error + pval) list \<Rightarrow> error + EEMSCmdRunnerBase" where
  "call_method ReadMulti st nm args =
     (case runner_method ReadMulti nm of
        None \<Rightarrow> Inl (AttributeError nm)
      | Some m \<Rightarrow> bindE (collect args) (\<lambda>vs. m vs st))"

subsubsection \<open>\<^verbatim>\<open>RunProgram\<close>\<close>

text \<open>The dispatch on the name of the current command.\<close>

definition dispatch ::
  "reader \<Rightarrow> EEMSCmdRunnerBase \<Rightarrow> EEMSCmd \<Rightarrow> (string \<rightharpoonup> pval) \<Rightarrow> error + EEMSCmdRunnerBase" where
  "dispatch ReadMulti st c cmdParams =
     (let cmdNm = GetCommandName c;
          p = param cmdParams;
          rsltName = map_sum id PStr (GetResultName c);
          call = call_method ReadMulti st
      in
      if cmdNm = ''READ'' then
        call ''Read'' [p ''InFileName'', p ''InFieldName'', p ''OutFileName'', p ''NewFieldName'']
      else if cmdNm = ''READMULTI'' then
        call ''ReadMulti''
          [p ''InFileName'', p ''InFieldNames'', p ''OutFileName'', p ''NewFieldNames'']
      else if cmdNm = ''CVTTOFUZZY'' then
        call ''CvtToFuzzy''
          [p ''InFieldName'', p ''TrueThreshold'', p ''FalseThreshold'', p ''OutFileName'', rsltName]
      else if cmdNm = ''CVTTOFUZZYCURVE'' then
        call ''CvtToFuzzyCurve''
          [p ''InFieldName'', p ''RawValues'', p ''FuzzyValues'', p ''OutFileName'', rsltName]
      else if cmdNm = ''CVTTOFUZZYCAT'' then
        call ''CvtToFuzzyCat''
          [p ''InFieldName'', p ''RawValues'', p ''FuzzyValues'', p ''DefaultFuzzyValue'',
           p ''OutFileName'', rsltName]
      else if cmdNm = ''MEANTOMID'' then
        call ''MeanToMid''
          [p ''InFieldName'', p ''IgnoreZeros'', p ''FuzzyValues'', p ''OutFileName'', rsltName]
      else if cmdNm = ''COPYFIELD'' then
        call ''CopyField'' [p ''InFieldName'', p ''OutFileName'', rsltName]
      else if cmdNm = ''NOT'' then
        call ''FuzzyNot'' [p ''InFieldName'', p ''OutFileName'', rsltName]
      else if cmdNm = ''OR'' then
        call ''FuzzyOr'' [p ''InFieldNames'', p ''OutFileName'', rsltName]
      else if cmdNm = ''AND'' then
        call ''FuzzyAnd'' [p ''InFieldNames'', p ''OutFileName'', rsltName]
      else if cmdNm = ''EMDSAND'' then
        call ''FuzzyEMDSAnd'' [p ''InFieldNames'', p ''OutFileName'', rsltName]
      else if cmdNm = ''ORNEG'' then
        call ''FuzzyOrNeg'' [p ''InFieldNames'', p ''OutFileName'', rsltName]
      else if cmdNm = ''XOR'' then
        call ''FuzzyXOr'' [p ''InFieldNames'', p ''OutFileName'', rsltName]
      else if cmdNm = ''SUM'' then
        call ''SumFlds'' [p ''InFieldNames'', p ''OutFileName'', rsltName]
      else if cmdNm = ''MIN'' then
        call ''MinFlds'' [p ''InFieldNames'', p ''OutFileName'', rsltName]
      else if cmdNm = ''MAX'' then
        call ''MaxFlds'' [p ''InFieldNames'', p ''OutFileName'', rsltName]
      else if cmdNm = ''MEAN'' then
        call ''MeanFlds'' [p ''InFieldNames'', p ''OutFileName'', rsltName]
      else if cmdNm = ''UNION'' then
        call ''FuzzyUnion'' [p ''InFieldNames'', p ''OutFileName'', rsltName]
      else if cmdNm = ''DIF'' then
        call ''DifFlds''
          [p ''StartingFieldName'', p ''ToSubtractFieldName'', p ''OutFileName'', rsltName]
      else if cmdNm = ''SELECTEDUNION'' then
        call ''FuzzySelectedUnion''
          [p ''InFieldNames'', p ''TruestOrFalsest'', p ''NumberToConsider'', p ''OutFileName'',
           rsltName]
      else if cmdNm = ''WTDUNION'' then
        call ''FuzzyWeightedUnion'' [p ''InFieldNames'', p ''Weights'', p ''OutFileName'', rsltName]
      else if cmdNm = ''WTDEMDSAND'' then
        call ''FuzzyEMDSWeightedAnd'' [p ''InFieldNames'', p ''Weights'', p ''OutFileName'', rsltName]
      else if cmdNm = ''WTDMEAN'' then
        call ''WeightedMean'' [p ''InFieldNames'', p ''Weights'', p ''OutFileName'', rsltName]
      else if cmdNm = ''WTDSUM'' then
        call ''WeightedSum'' [p ''InFieldNames'', p ''Weights'', p ''OutFileName'', rsltName]
      else if cmdNm = ''CALLEXTERN'' then
        call ''CallExtern'' [rsltName]
      else if cmdNm = ''SCORERANGEBENEFIT'' then
        call ''ScoreRangeBenefit'' [p ''InFieldName'', p ''OutFileName'', rsltName]
      else if cmdNm = ''SCORERANGECOST'' then
        call ''ScoreRangeCost'' [p ''InFieldName'', p ''OutFileName'', rsltName]
      else Inl (RunError (UnableToInterpret (GetCommandString c))))"

text \<open>One turn of the work loop, up to the call of \<^verbatim>\<open>NextCmd\<close>.\<close>

definition run_cmd :: "reader \<Rightarrow> EEMSInterpreter \<Rightarrow> EEMSCmd \<Rightarrow> error + EEMSCmdRunnerBase" where
  "run_cmd ReadMulti I c =
     bindE (cmd_params I c) (\<lambda>cmdParams. dispatch ReadMulti (myCmdRunner I) c cmdParams)"

lemma NextCmd_True:
  assumes "NextCmd p = Inr (True, p')"
  shows "\<exists>i. crntCmdNdx p = Some i \<and> crntCmdNdx p' = Some (i + 1) \<and>
             i + 1 < int (length (orderedCmds p)) \<and> orderedCmds p' = orderedCmds p"
  using assms by (auto simp: NextCmd_def split: option.splits if_splits)

text \<open>The work loop over all commands, from the current one on.\<close>

function run_loop :: "reader \<Rightarrow> EEMSInterpreter \<Rightarrow> error + EEMSInterpreter" where
  "run_loop ReadMulti I =
     (case GetCrntCmd (myProg I) of
        Inl e \<Rightarrow> Inl e
      | Inr c \<Rightarrow>
          (case run_cmd ReadMulti I c of
             Inl e \<Rightarrow> Inl e
           | Inr st' \<Rightarrow>
               (case NextCmd (myProg I) of
                  Inl e \<Rightarrow> Inl e
                | Inr (again, p') \<Rightarrow>
                    if again then run_loop ReadMulti (I\<lparr>myProg := p', myCmdRunner := st'\<rparr>)
                    else Inr (I\<lparr>myProg := p', myCmdRunner := st'\<rparr>))))"
  by pat_completeness auto
termination
proof (relation "measure (\<lambda>(r, I). nat (int (length (orderedCmds (myProg I))) -
                   (case crntCmdNdx (myProg I) of Some i \<Rightarrow> i | None \<Rightarrow> 0)))")
  show "wf (measure (\<lambda>(r, I). nat (int (length (orderedCmds (myProg I))) -
                   (case crntCmdNdx (myProg I) of Some i \<Rightarrow> i | None \<Rightarrow> 0))))"
    by simp
next
  fix ReadMulti :: reader and I :: EEMSInterpreter and c st' x again p'
  assume "NextCmd (myProg I) = Inr x" "(again, p') = x" "again"
  then have "NextCmd (myProg I) = Inr (True, p')" by auto
  from NextCmd_True[OF this] show
    "((ReadMulti, I\<lparr>myProg := p', myCmdRunner := st'\<rparr>), (ReadMulti, I))
      \<in> measure (\<lambda>(r, I). nat (int (length (orderedCmds (myProg I))) -
                   (case crntCmdNdx (myProg I) of Some i \<Rightarrow> i | None \<Rightarrow> 0)))"
    by auto
qed

definition RunProgram :: "reader \<Rightarrow> EEMSInterpreter \<Rightarrow> error + EEMSInterpreter" where
  "RunProgram ReadMulti I =
     bindE (run_loop ReadMulti I) (\<lambda>I'. Inr (I'\<lparr>myCmdRunner := Finish (myCmdRunner I')\<rparr>))"

subsection \<open>Ranges, the line through two points, and example registries\<close>

text \<open>Every cell that is not masked lies in the closed interval from \<open>-1\<close> to \<open>1\<close>.\<close>

definition fuzzy_range :: "marray \<Rightarrow> bool" where
  "fuzzy_range a = list_all (\<lambda>x. case x of None \<Rightarrow> True | Some v \<Rightarrow> - 1 \<le> v \<and> v \<le> 1) a"

text \<open>
  In the words of the specification: the straight line through the points \<open>(x1, y1)\<close> and
  \<open>(x2, y2)\<close>, evaluated at \<open>x\<close>, and the clamp to the fuzzy interval.
\<close>

definition line_through :: "real \<Rightarrow> real \<Rightarrow> real \<Rightarrow> real \<Rightarrow> real \<Rightarrow> real" where
  "line_through x1 y1 x2 y2 x = y1 + (x - x1) * (y2 - y1) / (x2 - x1)"

definition clamp_fuzzy :: "real \<Rightarrow> real" where
  "clamp_fuzzy y = max (- 1) (min 1 y)"

text \<open>
  Command runners without fields, on Python 2 and on Python 3; in the examples the data under
  a masked cell is \<open>0\<close>.
\<close>

definition py2_runner :: EEMSCmdRunnerBase where
  "py2_runner = new_runner Python2 (\<lambda>nm i. 0)"

definition py3_runner :: EEMSCmdRunnerBase where
  "py3_runner = new_runner Python3 (\<lambda>nm i. 0)"

text \<open>A registry with the raw field \<open>A = [0, 50, 100]\<close>.\<close>

definition raw_state :: EEMSCmdRunnerBase where
  "raw_state =
     projr (AddFieldToEEMSFlds py3_runner (PStr ''NONE'') ''A'' [Some 0, Some 50, Some 100])"

text \<open>
  A registry on Python 2 with the fuzzy fields \<open>X = [1, 1/2, -1, masked]\<close> and
  \<open>Y = [0, 1/4, -1, 1]\<close>, and the same registry on Python 3.
\<close>

definition xy_state :: EEMSCmdRunnerBase where
  "xy_state =
     projr (bindE (AddFieldToEEMSFlds py2_runner (PStr ''NONE'') ''X''
                     [Some 1, Some (1 / 2), Some (- 1), None])
        (\<lambda>s. AddFieldToEEMSFlds s (PStr ''NONE'') ''Y'' [Some 0, Some (1 / 4), Some (- 1), Some 1]))"

definition xy_state3 :: EEMSCmdRunnerBase where
  "xy_state3 = xy_state\<lparr>interpreter := Python3\<rparr>"

text \<open>
  A registry on Python 2 with the fuzzy fields \<open>P = [1, 1/2, -1]\<close> and \<open>Q = [0, 1/4, -1]\<close>,
  without a masked cell, and the same registry on Python 3.
\<close>

definition pq_state :: EEMSCmdRunnerBase where
  "pq_state =
     projr (bindE (AddFieldToEEMSFlds py2_runner (PStr ''NONE'') ''P''
                     [Some 1, Some (1 / 2), Some (- 1)])
        (\<lambda>s. AddFieldToEEMSFlds s (PStr ''NONE'') ''Q'' [Some 0, Some (1 / 4), Some (- 1)]))"

definition pq_state3 :: EEMSCmdRunnerBase where
  "pq_state3 = pq_state\<lparr>interpreter := Python3\<rparr>"

definition pq_xor_R :: EEMSCmdRunnerBase where
  "pq_xor_R = projr (FuzzyXOr pq_state [''P'', ''Q''] (PStr ''NONE'') ''R'')"

text \<open>A registry with the raw field \<open>A = [1, 2, 0, 3, 4, 6]\<close>.\<close>

definition stats_state :: EEMSCmdRunnerBase where
  "stats_state =
     projr (AddFieldToEEMSFlds py3_runner (PStr ''NONE'') ''A''
              [Some 1, Some 2, Some 0, Some 3, Some 4, Some 6])"

text \<open>
  The statements \<^verbatim>\<open>READMULTI(InFileName=in,InFieldNames=[X,Y])\<close> and
  \<^verbatim>\<open>W = WTDEMDSAND(InFieldNames=[X,Y],Weights=[1,3])\<close>, a reader that serves the fields of a
  table held in memory, and the interpreter of the two statements.
\<close>

definition readmulti_XY :: EEMSCmd where
  "readmulti_XY = projr (EEMSCmd_init ''READMULTI(InFileName=in,InFieldNames=[X,Y])'' None
      ''READMULTI'' [(''InFileName'', ''in''), (''InFieldNames'', ''[X,Y]'')])"

definition wtdemdsand_W :: EEMSCmd where
  "wtdemdsand_W = projr (EEMSCmd_init ''W = WTDEMDSAND(InFieldNames=[X,Y],Weights=[1,3])''
      (Some ''W'') ''WTDEMDSAND'' [(''InFieldNames'', ''[X,Y]''), (''Weights'', ''[1,3]'')])"

fun add_from_table ::
  "(string \<times> marray) list \<Rightarrow> string list \<Rightarrow> pval \<Rightarrow> EEMSCmdRunnerBase
   \<Rightarrow> error + EEMSCmdRunnerBase" where
  "add_from_table tbl [] outFileName st = Inr st"
| "add_from_table tbl (nm # nms) outFileName st =
     (case map_of tbl nm of
        None \<Rightarrow> Inl (KeyError nm)
      | Some d \<Rightarrow>
          bindE (AddFieldToEEMSFlds st outFileName nm d) (add_from_table tbl nms outFileName))"

definition table_reader :: "(string \<times> marray) list \<Rightarrow> reader" where
  "table_reader tbl inFileName inFieldNames outFileName newFieldNames st =
     bindE (to_names inFieldNames) (\<lambda>nms. add_from_table tbl nms outFileName st)"

definition xy_table :: "(string \<times> marray) list" where
  "xy_table =
     [(''X'', [Some 1, Some (1 / 2), Some (- 1), None]),
      (''Y'', [Some 0, Some (1 / 4), Some (- 1), Some 1])]"

definition wtd_interpreter :: EEMSInterpreter where
  "wtd_interpreter =
     projr (EEMSInterpreter_init ''wtd.eem'' [readmulti_XY, wtdemdsand_W] py3_runner)"

text \<open>
  The registries after each fuzzy operator has run once over \<open>X\<close> and \<open>Y\<close> on Python 2,
  and after SELECTEDUNION has run over \<open>Y\<close> alone on Python 3.
\<close>

definition not_R :: EEMSCmdRunnerBase where
  "not_R = projr (FuzzyNot xy_state ''X'' (PStr ''NONE'') ''R'')"

definition and_R :: EEMSCmdRunnerBase where
  "and_R = projr (FuzzyAnd xy_state [''X'', ''Y''] (PStr ''NONE'') ''R'')"

definition or_R :: EEMSCmdRunnerBase where
  "or_R = projr (FuzzyOr xy_state [''X'', ''Y''] (PStr ''NONE'') ''R'')"

definition union_R :: EEMSCmdRunnerBase where
  "union_R = projr (FuzzyUnion xy_state [''X'', ''Y''] (PStr ''NONE'') ''R'')"

definition emdsand_R :: EEMSCmdRunnerBase where
  "emdsand_R = projr (FuzzyEMDSAnd xy_state [''X'', ''Y''] (PStr ''NONE'') ''R'')"

definition wtdunion_R :: EEMSCmdRunnerBase where
  "wtdunion_R = projr (FuzzyWeightedUnion xy_state [''X'', ''Y''] [1, 3] (PStr ''NONE'') ''R'')"

definition wtdemdsand_R :: EEMSCmdRunnerBase where
  "wtdemdsand_R =
     projr (FuzzyEMDSWeighteddAnd xy_state [''X'', ''Y''] [1, 3] (PStr ''NONE'') ''R'')"

definition xor_R :: EEMSCmdRunnerBase where
  "xor_R = projr (FuzzyXOr xy_state [''X'', ''Y''] (PStr ''NONE'') ''R'')"

definition selunion_R :: EEMSCmdRunnerBase where
  "selunion_R = projr (FuzzySelectedUnion xy_state [''X'', ''Y''] ''Truest'' 1 (PStr ''NONE'') ''R'')"

definition selunion_one_R :: EEMSCmdRunnerBase where
  "selunion_one_R = projr (FuzzySelectedUnion xy_state3 [''Y''] ''Truest'' 1 (PStr ''NONE'') ''R'')"

text \<open>The registries of the conversion example: \<open>B\<close> from \<open>A\<close>, then \<open>C\<close> from \<open>B\<close>.\<close>

definition cvt_R :: EEMSCmdRunnerBase where
  "cvt_R = projr (CvtToFuzzy raw_state ''A'' 100 0 (PStr ''NONE'') ''B'')"

definition cvt_not_R :: EEMSCmdRunnerBase where
  "cvt_not_R = projr (FuzzyNot cvt_R ''B'' (PStr ''NONE'') ''C'')"

definition meantomid_R :: EEMSCmdRunnerBase where
  "meantomid_R =
     projr (MeanToMid stats_state ''A'' True [- 1, - (1 / 2), 0, 1 / 2, 1] (PStr ''NONE'') ''R'')"

text \<open>
  In the words of the specification, for the values of one cell: the truest value is the
  largest, the second truest the largest of the others, and a truest value of \<open>-1\<close> (fully
  false) gives \<open>-1\<close>.
\<close>

definition xor_by_words :: "real list \<Rightarrow> real" where
  "xor_by_words vs =
     (let truest = Max (set vs);
          second = Max (set (remove1 truest vs))
      in if truest = - 1 then - 1
         else truest - (truest - second) * (second - (- 1)) / (truest - (- 1)))"

section \<open>Properties\<close>

subsection \<open>Sequencing\<close>


lemma bindE_simps [simp]:
  "bindE (Inl e) f = Inl e" "bindE (Inr x) f = f x"
  by (simp_all add: bindE_def)

lemma seqE_simps [simp]:
  "seqE (Inl e) k = Inl e" "seqE (Inr u) k = k"
  by (simp_all add: seqE_def)

lemma bindE_eq_Inr: "bindE m f = Inr y \<longleftrightarrow> (\<exists>x. m = Inr x \<and> f x = Inr y)"
  by (cases m) simp_all

lemma seqE_eq_Inr: "seqE m k = Inr y \<longleftrightarrow> (m = Inr () \<and> k = Inr y)"
  by (cases m) simp_all

subsection \<open>Facts about the table\<close>

lemmas table_defs = cmd_table_def mk_desc_def out_only_def one_field_def many_fields_def
    weighted_fields_def field_result_def


lemma table_result:
  "(n, d) \<in> set cmd_table \<Longrightarrow>
     (if n \<in> set [''READ'', ''READMULTI''] then descResult d = None
      else descResult d = Some ''Field Name'')"
  unfolding table_defs
  by (elim disjE | simp)+


lemma table_reads:
  "(n, d) \<in> set cmd_table \<Longrightarrow>
     (n = ''READ'' \<longrightarrow> ''InFieldName'' \<in> set (map fst (RequiredParams d))) \<and>
     (n = ''READMULTI'' \<longrightarrow> ''InFieldNames'' \<in> set (map fst (RequiredParams d)))"
  unfolding table_defs
  by (elim disjE | simp)+


subsection \<open>Constructed commands\<close>

lemma constructedD:
  assumes "constructed c"
  shows "InitCmdDesc (cmdNm c) = Some (cmdDesc c)" and "ValidateCmd c = Inr ()"
proof -
  from assms obtain d where d: "InitCmdDesc (cmdNm c) = Some d"
    and v: "seqE (ValidateCmd \<lparr>cmdStr = cmdStr c, rslt = rslt c, cmdNm = cmdNm c,
                    params = params c, cmdDesc = d\<rparr>)
              (Inr \<lparr>cmdStr = cmdStr c, rslt = rslt c, cmdNm = cmdNm c,
                    params = params c, cmdDesc = d\<rparr>) = Inr c"
    by (auto simp: constructed_def EEMSCmd_init_def Let_def split: option.splits)
  from v have eq: "\<lparr>cmdStr = cmdStr c, rslt = rslt c, cmdNm = cmdNm c,
                    params = params c, cmdDesc = d\<rparr> = c"
    and ok: "ValidateCmd \<lparr>cmdStr = cmdStr c, rslt = rslt c, cmdNm = cmdNm c,
                    params = params c, cmdDesc = d\<rparr> = Inr ()"
    by (auto simp: seqE_eq_Inr)
  from eq have "cmdDesc c = d" by (cases c) simp
  with d show "InitCmdDesc (cmdNm c) = Some (cmdDesc c)" by simp
  from ok eq show "ValidateCmd c = Inr ()" by simp
qed

lemma constructed_table:
  assumes "constructed c"
  obtains d0 where "(cmdNm c, d0) \<in> set cmd_table"
    and "RequiredParams (cmdDesc c) = RequiredParams d0"
    and "OptionalParams (cmdDesc c) = OptionalParams d0"
    and "descResult (cmdDesc c) = descResult d0"
proof -
  from constructedD(1)[OF assms] obtain d0 where
    m: "map_of cmd_table (cmdNm c) = Some d0" and e: "cmdDesc c = d0\<lparr>descName := cmdNm c\<rparr>"
    by (auto simp: InitCmdDesc_def)
  from m have "(cmdNm c, d0) \<in> set cmd_table" by (rule map_of_SomeD)
  with e that show thesis by simp
qed

lemma constructed_checks:
  assumes "constructed c"
  shows "check_result c = Inr ()" "check_belong c = Inr ()" "check_required c = Inr ()"
    "check_values c (params c) = Inr ()"
  using constructedD(2)[OF assms]
  by (auto simp: ValidateCmd_def seqE_eq_Inr)

lemma constructed_read_no_result:
  assumes "constructed c" "IsReadCmd c"
  shows "rslt c = None"
proof -
  from assms(1) obtain d0 where t: "(cmdNm c, d0) \<in> set cmd_table"
    and r: "descResult (cmdDesc c) = descResult d0"
    by (rule constructed_table)
  from table_result[OF t] assms(2) r have "descResult (cmdDesc c) = None"
    by (simp add: IsReadCmd_def)
  with constructed_checks(1)[OF assms(1)] show ?thesis
    by (auto simp: check_result_def split: option.splits)
qed

lemma constructed_nonread_result:
  assumes "constructed c" "\<not> IsReadCmd c"
  shows "\<exists>r. rslt c = Some r"
proof -
  from assms(1) obtain d0 where t: "(cmdNm c, d0) \<in> set cmd_table"
    and r: "descResult (cmdDesc c) = descResult d0"
    by (rule constructed_table)
  from table_result[OF t] assms(2) r have "descResult (cmdDesc c) = Some ''Field Name''"
    by (simp add: IsReadCmd_def)
  with constructed_checks(1)[OF assms(1)] show ?thesis
    by (auto simp: check_result_def split: option.splits)
qed













subsection \<open>Loading: which command defines which field\<close>

text \<open>The names that \<^verbatim>\<open>__AddCmd\<close> enters into \<^verbatim>\<open>allDefinedFieldNms\<close> for a command.\<close>

definition defined_names :: "EEMSCmd \<Rightarrow> string list" where
  "defined_names c =
     (case rslt c of
        Some r \<Rightarrow> [r]
      | None \<Rightarrow>
          if IsReadCmd c then (case GetReadFieldNms c of Inr ns \<Rightarrow> ns | Inl e \<Rightarrow> []) else [])"

text \<open>
  The names that a sweep appends to \<^verbatim>\<open>dpndsInOrderedCmds\<close> when it moves a command.
\<close>

definition provided_names :: "EEMSCmd \<Rightarrow> string list" where
  "provided_names c =
     (if IsReadCmd c then (case GetReadFieldNms c of Inr ns \<Rightarrow> ns | Inl e \<Rightarrow> [])
      else (case rslt c of Some r \<Rightarrow> [r] | None \<Rightarrow> []))"

text \<open>The fields a command depends on, as a set.\<close>

definition deps_of :: "EEMSCmd \<Rightarrow> string set" where
  "deps_of c = (case GetDependFieldNms c of Inr ds \<Rightarrow> set ds | Inl e \<Rightarrow> {})"

text \<open>
  Every command of the list depends only on names provided by commands that stand before it.
\<close>

definition deps_before :: "EEMSCmd list \<Rightarrow> bool" where
  "deps_before os =
     (\<forall>xs c ys. os = xs @ c # ys \<longrightarrow> deps_of c \<subseteq> set (concat (map provided_names xs)))"

lemma constructed_defined_provided:
  "constructed c \<Longrightarrow> defined_names c = provided_names c"
  using constructed_read_no_result[of c] constructed_nonread_result[of c]
  by (cases "IsReadCmd c") (auto simp: defined_names_def provided_names_def)

lemma register_read_char:
  "register_read c ns defs = Inr defs' \<Longrightarrow>
     distinct ns \<and> (\<forall>n\<in>set ns. defs n = None) \<and>
     defs' = (\<lambda>f. if f \<in> set ns then Some c else defs f)"
proof (induction ns arbitrary: defs)
  case Nil
  then show ?case by simp
next
  case (Cons n ns)
  from Cons.prems have none: "defs n = None"
    and rest: "register_read c ns (defs(n \<mapsto> c)) = Inr defs'"
    by (auto split: option.splits)
  from Cons.IH[OF rest] have d: "distinct ns"
    and fresh: "\<forall>m\<in>set ns. (defs(n \<mapsto> c)) m = None"
    and eq: "defs' = (\<lambda>f. if f \<in> set ns then Some c else (defs(n \<mapsto> c)) f)"
    by auto
  from fresh have nn: "n \<notin> set ns" by (auto split: if_splits)
  from fresh have f2: "\<forall>m\<in>set ns. defs m = None" by (auto split: if_splits)
  from eq have "defs' = (\<lambda>f. if f \<in> set (n # ns) then Some c else defs f)"
    by (auto simp: fun_eq_iff)
  with d nn none f2 show ?case by simp
qed

lemma AddCmd_char:
  assumes "AddCmd p c = Inr p'"
  shows "unorderedCmds p' = unorderedCmds p @ [c]" "orderedCmds p' = orderedCmds p"
    "distinct (defined_names c)" "\<forall>n\<in>set (defined_names c). allDefinedFieldNms p n = None"
    "allDefinedFieldNms p' = (\<lambda>f. if f \<in> set (defined_names c) then Some c
                                   else allDefinedFieldNms p f)"
proof -
  from assms obtain defs where
    defs: "(if HasResultName c then
          bindE (GetResultName c) (\<lambda>rsltNm.
            case allDefinedFieldNms p rsltNm of
              Some c' \<Rightarrow> Inl (ProgError (DuplicateDefinition (cmdStr c) (GetCommandString c')))
            | None \<Rightarrow> Inr ((allDefinedFieldNms p)(rsltNm \<mapsto> c)))
        else if IsReadCmd c then
          bindE (GetReadFieldNms c) (\<lambda>nms. register_read c nms (allDefinedFieldNms p))
        else Inr (allDefinedFieldNms p)) = Inr defs"
    and p': "p' = p\<lparr>allDefinedFieldNms := defs, unorderedCmds := unorderedCmds p @ [c]\<rparr>"
    by (auto simp: AddCmd_def bindE_eq_Inr)
  from p' show "unorderedCmds p' = unorderedCmds p @ [c]" "orderedCmds p' = orderedCmds p"
    by simp_all
  have "distinct (defined_names c) \<and> (\<forall>n\<in>set (defined_names c). allDefinedFieldNms p n = None)
      \<and> defs = (\<lambda>f. if f \<in> set (defined_names c) then Some c else allDefinedFieldNms p f)"
  proof (cases "rslt c")
    case (Some r)
    with defs have "allDefinedFieldNms p r = None" and "defs = (allDefinedFieldNms p)(r \<mapsto> c)"
      by (auto simp: HasResultName_def GetResultName_def split: option.splits)
    with Some show ?thesis
      by (auto simp: defined_names_def fun_eq_iff)
  next
    case None
    show ?thesis
    proof (cases "IsReadCmd c")
      case True
      with None defs obtain nms where n: "GetReadFieldNms c = Inr nms"
        and r: "register_read c nms (allDefinedFieldNms p) = Inr defs"
        by (auto simp: HasResultName_def bindE_eq_Inr)
      from register_read_char[OF r] n None True show ?thesis
        by (simp add: defined_names_def)
    next
      case False
      with None defs show ?thesis
        by (auto simp: HasResultName_def defined_names_def)
    qed
  qed
  with p' show "distinct (defined_names c)"
    "\<forall>n\<in>set (defined_names c). allDefinedFieldNms p n = None"
    "allDefinedFieldNms p' = (\<lambda>f. if f \<in> set (defined_names c) then Some c
                                   else allDefinedFieldNms p f)"
    by simp_all
qed

lemma add_all_char:
  "add_all p cs = Inr p' \<Longrightarrow>
     unorderedCmds p' = unorderedCmds p @ cs \<and> orderedCmds p' = orderedCmds p \<and>
     distinct (concat (map defined_names cs)) \<and>
     (\<forall>n\<in>set (concat (map defined_names cs)). allDefinedFieldNms p n = None) \<and>
     (\<forall>f c. allDefinedFieldNms p' f = Some c \<longrightarrow>
        allDefinedFieldNms p f = Some c \<or> (c \<in> set cs \<and> f \<in> set (defined_names c))) \<and>
     (\<forall>f. allDefinedFieldNms p' f = None \<longleftrightarrow>
        allDefinedFieldNms p f = None \<and> f \<notin> set (concat (map defined_names cs)))"
proof (induction cs arbitrary: p)
  case Nil
  then show ?case by simp
next
  case (Cons c cs)
  from Cons.prems obtain q where q: "AddCmd p c = Inr q" and r: "add_all q cs = Inr p'"
    by (auto simp: bindE_eq_Inr)
  note A = AddCmd_char[OF q]
  note I = Cons.IH[OF r]
  from I A have 1: "unorderedCmds p' = unorderedCmds p @ c # cs" "orderedCmds p' = orderedCmds p"
    by simp_all
  from I have fresh_q: "\<forall>n\<in>set (concat (map defined_names cs)). allDefinedFieldNms q n = None"
    by blast
  have disj: "set (defined_names c) \<inter> set (concat (map defined_names cs)) = {}"
  proof (rule ccontr)
    assume "set (defined_names c) \<inter> set (concat (map defined_names cs)) \<noteq> {}"
    then obtain n where n1: "n \<in> set (defined_names c)"
      and n2: "n \<in> set (concat (map defined_names cs))" by blast
    from fresh_q n2 have "allDefinedFieldNms q n = None" by blast
    with A(5) n1 show False by simp
  qed
  from I A(3) disj have 2: "distinct (concat (map defined_names (c # cs)))"
    by simp
  have 3: "\<forall>n\<in>set (concat (map defined_names (c # cs))). allDefinedFieldNms p n = None"
  proof
    fix n assume "n \<in> set (concat (map defined_names (c # cs)))"
    then consider "n \<in> set (defined_names c)" | "n \<in> set (concat (map defined_names cs))"
      by auto
    then show "allDefinedFieldNms p n = None"
    proof cases
      case 1
      with A(4) show ?thesis by blast
    next
      case 2
      with fresh_q have "allDefinedFieldNms q n = None" by blast
      with A(5) show ?thesis by (auto split: if_splits)
    qed
  qed
  have 4: "\<forall>f c'. allDefinedFieldNms p' f = Some c' \<longrightarrow>
        allDefinedFieldNms p f = Some c' \<or> (c' \<in> set (c # cs) \<and> f \<in> set (defined_names c'))"
  proof (intro allI impI)
    fix f c' assume "allDefinedFieldNms p' f = Some c'"
    with I have "allDefinedFieldNms q f = Some c' \<or> (c' \<in> set cs \<and> f \<in> set (defined_names c'))"
      by blast
    with A(5) show "allDefinedFieldNms p f = Some c' \<or>
        (c' \<in> set (c # cs) \<and> f \<in> set (defined_names c'))"
      by (auto split: if_splits)
  qed
  have 5: "\<forall>f. allDefinedFieldNms p' f = None \<longleftrightarrow>
        allDefinedFieldNms p f = None \<and> f \<notin> set (concat (map defined_names (c # cs)))"
  proof
    fix f
    from I have "allDefinedFieldNms p' f = None \<longleftrightarrow>
        allDefinedFieldNms q f = None \<and> f \<notin> set (concat (map defined_names cs))" by blast
    with A(5) show "allDefinedFieldNms p' f = None \<longleftrightarrow>
        allDefinedFieldNms p f = None \<and> f \<notin> set (concat (map defined_names (c # cs)))"
      by (auto split: if_splits)
  qed
  from 1 2 3 4 5 show ?case by blast
qed


subsection \<open>Ordering: one sweep and the loop\<close>

declare order_loop.simps [simp del]

text \<open>The command at an index moved from the unordered to the ordered list.\<close>

definition move_cmd :: "nat \<Rightarrow> EEMSProgram \<Rightarrow> EEMSProgram" where
  "move_cmd ndx p =
     p\<lparr>orderedCmds := orderedCmds p @ [unorderedCmds p ! ndx],
       unorderedCmds := pop ndx (unorderedCmds p)\<rparr>"

text \<open>
  A command that a sweep moves: a read command, or a command all of whose dependencies
  are among the names provided so far.
\<close>

definition eligible :: "string list \<Rightarrow> EEMSCmd \<Rightarrow> bool" where
  "eligible d c =
     (IsReadCmd c \<or>
      (case GetDependFieldNms c of
         Inr deps \<Rightarrow> list_all (\<lambda>x. x \<in> set d) deps
       | Inl e \<Rightarrow> False))"

lemma deps_of_read: "IsReadCmd c \<Longrightarrow> deps_of c = {}"
  by (simp add: deps_of_def GetDependFieldNms_def)

lemma sweep_Cons_cases:
  assumes "sweep (ndx # ndxs) (p, d) = Inr (p', d')"
  obtains (moved) "ndx < length (unorderedCmds p)" "eligible d (unorderedCmds p ! ndx)"
      "deps_of (unorderedCmds p ! ndx) \<subseteq> set d"
      "sweep ndxs (move_cmd ndx p, d @ provided_names (unorderedCmds p ! ndx)) = Inr (p', d')"
    | (kept) "ndx < length (unorderedCmds p)" "\<not> eligible d (unorderedCmds p ! ndx)"
      "sweep ndxs (p, d) = Inr (p', d')"
proof -
  let ?c = "unorderedCmds p ! ndx"
  from assms have inb: "ndx < length (unorderedCmds p)"
    by (auto split: if_splits)
  then have "sweep (ndx # ndxs) (p, d) =
    (if IsReadCmd ?c then
       bindE (GetReadFieldNms ?c) (\<lambda>nms. sweep ndxs (move_cmd ndx p, d @ nms))
     else bindE (GetDependFieldNms ?c) (\<lambda>deps.
       if list_all (\<lambda>x. x \<in> set d) deps then
         bindE (GetResultName ?c) (\<lambda>r. sweep ndxs (move_cmd ndx p, d @ [r]))
       else sweep ndxs (p, d)))"
    unfolding move_cmd_def by (simp add: Let_def)
  with assms have eq: "(if IsReadCmd ?c then
       bindE (GetReadFieldNms ?c) (\<lambda>nms. sweep ndxs (move_cmd ndx p, d @ nms))
     else bindE (GetDependFieldNms ?c) (\<lambda>deps.
       if list_all (\<lambda>x. x \<in> set d) deps then
         bindE (GetResultName ?c) (\<lambda>r. sweep ndxs (move_cmd ndx p, d @ [r]))
       else sweep ndxs (p, d))) = Inr (p', d')"
    by simp
  show thesis
  proof (cases "IsReadCmd ?c")
    case True
    with eq inb obtain nms where n: "GetReadFieldNms ?c = Inr nms"
      and s: "sweep ndxs (move_cmd ndx p, d @ nms) = Inr (p', d')"
      by (auto simp: bindE_eq_Inr)
    from True n have "provided_names ?c = nms" by (simp add: provided_names_def)
    with s True inb show thesis
      by (intro moved) (simp_all add: eligible_def deps_of_read)
  next
    case False
    with eq inb obtain deps where deps: "GetDependFieldNms ?c = Inr deps"
      and rest: "(if list_all (\<lambda>x. x \<in> set d) deps then
                  bindE (GetResultName ?c) (\<lambda>r. sweep ndxs (move_cmd ndx p, d @ [r]))
                else sweep ndxs (p, d)) = Inr (p', d')"
      by (auto simp: bindE_eq_Inr)
    show thesis
    proof (cases "list_all (\<lambda>x. x \<in> set d) deps")
      case True
      with rest obtain r where r: "GetResultName ?c = Inr r"
        and s: "sweep ndxs (move_cmd ndx p, d @ [r]) = Inr (p', d')"
        by (auto simp: bindE_eq_Inr)
      from r have "rslt ?c = Some r" by (auto simp: GetResultName_def split: option.splits)
      with False have "provided_names ?c = [r]" by (simp add: provided_names_def)
      with s True deps inb show thesis
        by (intro moved) (auto simp: eligible_def deps_of_def list_all_iff)
    next
      case nall: False
      with rest False deps inb show thesis
        by (intro kept) (simp_all add: eligible_def)
    qed
  qed
qed

lemma mset_pop: "ndx < length xs \<Longrightarrow> add_mset (xs ! ndx) (mset (pop ndx xs)) = mset xs"
proof -
  assume a: "ndx < length xs"
  then have "xs = take ndx xs @ xs ! ndx # drop (Suc ndx) xs" by (rule id_take_nth_drop)
  then have "mset xs = mset (take ndx xs @ xs ! ndx # drop (Suc ndx) xs)" by simp
  then show ?thesis by (simp add: pop_def)
qed

lemma deps_before_snoc:
  assumes "deps_before os" "deps_of c \<subseteq> set (concat (map provided_names os))"
  shows "deps_before (os @ [c])"
  unfolding deps_before_def
proof (intro allI impI)
  fix xs x ys assume e: "os @ [c] = xs @ x # ys"
  show "deps_of x \<subseteq> set (concat (map provided_names xs))"
  proof (cases ys rule: rev_cases)
    case Nil
    with e have "xs = os" "x = c" by simp_all
    with assms(2) show ?thesis by simp
  next
    case (snoc ys' y)
    with e have "os = xs @ x # ys'" by simp
    with assms(1) show ?thesis by (auto simp: deps_before_def)
  qed
qed

text \<open>
  The invariant of the ordering loop: the names provided so far are those of the ordered
  commands, and the ordered list has every dependency before its use.
\<close>

definition sched_inv :: "EEMSProgram \<times> string list \<Rightarrow> bool" where
  "sched_inv s =
     (snd s = concat (map provided_names (orderedCmds (fst s))) \<and>
      deps_before (orderedCmds (fst s)))"

lemma sweep_inv:
  "sweep ndxs (p, d) = Inr (p', d') \<Longrightarrow> sched_inv (p, d) \<Longrightarrow>
     sched_inv (p', d') \<and>
     mset (orderedCmds p') + mset (unorderedCmds p') = mset (orderedCmds p) + mset (unorderedCmds p) \<and>
     allDefinedFieldNms p' = allDefinedFieldNms p"
proof (induction ndxs arbitrary: p d)
  case Nil
  then show ?case by simp
next
  case (Cons ndx ndxs)
  from Cons.prems(1) show ?case
  proof (cases rule: sweep_Cons_cases)
    case moved
    let ?c = "unorderedCmds p ! ndx"
    from Cons.prems(2) moved(3) have "sched_inv (move_cmd ndx p, d @ provided_names ?c)"
      by (simp add: sched_inv_def move_cmd_def deps_before_snoc)
    from Cons.IH[OF moved(4) this] mset_pop[OF moved(1)] show ?thesis
      by (simp add: move_cmd_def)
  next
    case kept
    from Cons.IH[OF kept(3) Cons.prems(2)] show ?thesis .
  qed
qed

lemma order_loop_inv:
  "order_loop (p, d) = Inr (p', d') \<Longrightarrow> sched_inv (p, d) \<Longrightarrow>
     sched_inv (p', d') \<and> unorderedCmds p' = [] \<and>
     mset (orderedCmds p') = mset (orderedCmds p) + mset (unorderedCmds p) \<and>
     allDefinedFieldNms p' = allDefinedFieldNms p"
proof (induction "(p, d)" arbitrary: p d rule: order_loop.induct)
  case (1 p d)
  show ?case
  proof (cases "length (unorderedCmds p) > 0")
    case False
    with "1.prems" show ?thesis by (simp add: order_loop.simps[of p d])
  next
    case True
    with "1.prems"(1) obtain q e where
      sw: "sweep (rev [0..<length (unorderedCmds p)]) (p, d) = Inr (q, e)"
      and ne: "length (unorderedCmds p) \<noteq> length (unorderedCmds q)"
      and rec: "order_loop (q, e) = Inr (p', d')"
      by (auto simp: order_loop.simps[of p d] split: sum.splits if_splits)
    note S = sweep_inv[OF sw "1.prems"(2)]
    from "1.hyps"[OF True sw refl ne rec] S
    show ?thesis by (simp add: ac_simps)
  qed
qed


lemma distinct_concat_nth:
  "distinct (concat (map g xs)) \<Longrightarrow> i < length xs \<Longrightarrow> k < length xs \<Longrightarrow>
   f \<in> set (g (xs ! i)) \<Longrightarrow> f \<in> set (g (xs ! k)) \<Longrightarrow> i = k"
proof (induction xs arbitrary: i k)
  case Nil
  then show ?case by simp
next
  case (Cons x xs)
  from Cons.prems(1) have d: "distinct (concat (map g xs))"
    and disj: "set (g x) \<inter> (\<Union>y\<in>set xs. set (g y)) = {}"
    by auto
  show ?case
  proof (cases i)
    case 0
    show ?thesis
    proof (cases k)
      case 0
      with \<open>i = 0\<close> show ?thesis by simp
    next
      case (Suc k')
      with Cons.prems(3,5) have "xs ! k' \<in> set xs" "f \<in> set (g (xs ! k'))" by simp_all
      moreover from \<open>i = 0\<close> Cons.prems(4) have "f \<in> set (g x)" by simp
      ultimately show ?thesis using disj by blast
    qed
  next
    case (Suc i')
    show ?thesis
    proof (cases k)
      case 0
      with Cons.prems(5) have "f \<in> set (g x)" by simp
      moreover from Suc Cons.prems(2,4) have "xs ! i' \<in> set xs" "f \<in> set (g (xs ! i'))"
        by simp_all
      ultimately show ?thesis using disj by blast
    next
      case k: (Suc k')
      from Cons.IH[OF d, of i' k'] Suc k Cons.prems show ?thesis by simp
    qed
  qed
qed

lemma mset_concat_map_cong:
  assumes "mset xs = mset ys"
  shows "mset (concat (map g xs)) = mset (concat (map g ys))"
proof -
  have "\<And>zs. mset (concat (map g zs)) = (\<Sum>z\<in>#mset zs. mset (g z))"
    by (induct_tac zs) simp_all
  with assms show ?thesis by simp
qed

lemma concat_map_cong_set:
  "(\<And>x. x \<in> set xs \<Longrightarrow> g x = h x) \<Longrightarrow> concat (map g xs) = concat (map h xs)"
  by (induction xs) simp_all

subsection \<open>The shape of one sweep\<close>

lemma eligible_mono: "eligible d c \<Longrightarrow> eligible (d @ e) c"
  by (auto simp: eligible_def list_all_iff split: sum.splits)

lemma rev_upt_Suc: "rev [0..<Suc n] = n # rev [0..<n]"
  by simp

lemma pop_append_length: "pop (length xs) (xs @ c # ys) = xs @ ys"
  by (simp add: pop_def)

lemma sweep_rev_char:
  "unorderedCmds p = xs @ ys \<Longrightarrow> sweep (rev [0..<length xs]) (p, d) = Inr (p', d') \<Longrightarrow>
     \<exists>moved kept. orderedCmds p' = orderedCmds p @ rev moved \<and> unorderedCmds p' = kept @ ys \<and>
        subseq moved xs \<and> subseq kept xs \<and> mset moved + mset kept = mset xs"
proof (induction xs arbitrary: p d ys rule: rev_induct)
  case Nil
  then show ?case by auto
next
  case (snoc c xs)
  from snoc.prems(2) have sw: "sweep (length xs # rev [0..<length xs]) (p, d) = Inr (p', d')"
    by simp
  from snoc.prems(1) have nth: "unorderedCmds p ! length xs = c"
    by (simp add: nth_append)
  from sw show ?case
  proof (cases rule: sweep_Cons_cases)
    case moved
    from snoc.prems(1) have u: "unorderedCmds (move_cmd (length xs) p) = xs @ ys"
      by (simp add: move_cmd_def pop_append_length)
    from snoc.IH[OF u moved(4)] nth obtain mv kp where
      o: "orderedCmds p' = (orderedCmds p @ [c]) @ rev mv" and k: "unorderedCmds p' = kp @ ys"
      and s1: "subseq mv xs" and s2: "subseq kp xs" and m: "mset mv + mset kp = mset xs"
      by (auto simp: move_cmd_def)
    from s1 have "subseq (mv @ [c]) (xs @ [c])"
      by (intro list_emb_append_mono) simp_all
    moreover from s2 have "subseq kp (xs @ [c])"
      using list_emb_append_mono[of "(=)" kp xs "[]" "[c]"] by simp
    moreover from o have "orderedCmds p' = orderedCmds p @ rev (mv @ [c])" by simp
    moreover from m have "mset (mv @ [c]) + mset kp = mset (xs @ [c])" by simp
    ultimately show ?thesis using k by blast
  next
    case kept
    from snoc.prems(1) have u: "unorderedCmds p = xs @ (c # ys)" by simp
    from snoc.IH[OF u kept(3)] obtain mv kp where
      o: "orderedCmds p' = orderedCmds p @ rev mv" and k: "unorderedCmds p' = kp @ c # ys"
      and s1: "subseq mv xs" and s2: "subseq kp xs" and m: "mset mv + mset kp = mset xs"
      by auto
    from s2 have "subseq (kp @ [c]) (xs @ [c])"
      by (intro list_emb_append_mono) simp_all
    moreover from s1 have "subseq mv (xs @ [c])"
      using list_emb_append_mono[of "(=)" mv xs "[]" "[c]"] by simp
    moreover from k have "unorderedCmds p' = (kp @ [c]) @ ys" by simp
    moreover from m have "mset mv + mset (kp @ [c]) = mset (xs @ [c])" by simp
    ultimately show ?thesis using o by blast
  qed
qed

lemma sweep_all_eligible:
  "unorderedCmds p = xs @ ys \<Longrightarrow> \<forall>c\<in>set xs. eligible d c \<Longrightarrow>
   sweep (rev [0..<length xs]) (p, d) = Inr (p', d') \<Longrightarrow>
     orderedCmds p' = orderedCmds p @ rev xs \<and> unorderedCmds p' = ys"
proof (induction xs arbitrary: p d ys rule: rev_induct)
  case Nil
  then show ?case by auto
next
  case (snoc c xs)
  from snoc.prems(3) have sw: "sweep (length xs # rev [0..<length xs]) (p, d) = Inr (p', d')"
    by simp
  from snoc.prems(1) have nth: "unorderedCmds p ! length xs = c"
    by (simp add: nth_append)
  from sw show ?case
  proof (cases rule: sweep_Cons_cases)
    case moved
    from snoc.prems(1) have u: "unorderedCmds (move_cmd (length xs) p) = xs @ ys"
      by (simp add: move_cmd_def pop_append_length)
    from snoc.prems(2) have e: "\<forall>x\<in>set xs. eligible (d @ provided_names (unorderedCmds p ! length xs)) x"
      by (simp add: eligible_mono)
    from snoc.IH[OF u e moved(4)] nth show ?thesis
      by (simp add: move_cmd_def)
  next
    case kept
    with nth snoc.prems(2) show ?thesis by simp
  qed
qed

lemma sweep_no_move:
  assumes "sweep (rev [0..<length (unorderedCmds p)]) (p, d) = Inr (p', d')"
    and "length (orderedCmds p') = length (orderedCmds p)"
  shows "unorderedCmds p' = unorderedCmds p"
proof -
  from sweep_rev_char[of p "unorderedCmds p" "[]" d p' d'] assms(1) obtain mv kp where
    o: "orderedCmds p' = orderedCmds p @ rev mv" and k: "unorderedCmds p' = kp"
    and s2: "subseq kp (unorderedCmds p)" and m: "mset mv + mset kp = mset (unorderedCmds p)"
    by auto
  from o assms(2) have "mv = []" by simp
  with m have "mset kp = mset (unorderedCmds p)" by simp
  then have "length kp = length (unorderedCmds p)" by (rule mset_eq_length)
  with s2 have "kp = unorderedCmds p" by (rule subseq_same_length)
  with k show ?thesis by simp
qed


subsection \<open>The dependency check and the messages\<close>





lemma message_lists_command:
  assumes "c \<in> set cs"
  shows "\<exists>a b. circular_logic_message cs = a @ ''  '' @ GetCommandString c @ ''\<newline>'' @ b"
proof -
  from assms obtain ys zs where "cs = ys @ c # zs" by (auto dest: split_list)
  then have "circular_logic_message cs =
      (error_banner @ ''Circular logic in the dependencies for this subset of commands:'' @
       concat (map (\<lambda>c. ''  '' @ GetCommandString c @ ''\<newline>'') ys)) @
      ''  '' @ GetCommandString c @ ''\<newline>'' @
      concat (map (\<lambda>c. ''  '' @ GetCommandString c @ ''\<newline>'') zs)"
    by (simp add: circular_logic_message_def)
  then show ?thesis by blast
qed

subsection \<open>The constructor and the checks across parameters\<close>

lemma EEMSCmd_init_Inr:
  assumes "EEMSCmd_init cs r n ps = Inr c"
  shows "cmdStr c = cs \<and> rslt c = r \<and> cmdNm c = n \<and> params c = ps \<and> ValidateCmd c = Inr ()"
  using assms
  by (auto simp: EEMSCmd_init_def Let_def seqE_eq_Inr split: option.splits)

lemma validated_checks:
  assumes "ValidateCmd c = Inr ()"
  shows "check_weights c = Inr ()" "check_number c = Inr ()" "check_curve c = Inr ()"
    "check_five c = Inr ()"
  using assms by (auto simp: ValidateCmd_def seqE_eq_Inr)

subsection \<open>The engine: clipped results and the guard\<close>

lemma fuzzy_range_clip: "fuzzy_range (clip_fuzzy a)"
  by (induction a) (auto simp: fuzzy_range_def clip_fuzzy_def ma_scalar_def split: option.splits)

lemma fuzzy_range_iff: "fuzzy_range a \<longleftrightarrow> (\<forall>v. Some v \<in> set a \<longrightarrow> - 1 \<le> v \<and> v \<le> 1)"
  by (auto simp: fuzzy_range_def list_all_iff split: option.splits)

lemma clip_fuzzy_id: "fuzzy_range a \<Longrightarrow> clip_fuzzy a = a"
  by (induction a) (auto simp: fuzzy_range_def clip_fuzzy_def ma_scalar_def split: option.splits)

lemma AddField_get:
  assumes "AddFieldToEEMSFlds st out r arr = Inr st'"
  shows "get_data st' r = Inr arr"
  using assms
  by (auto simp: AddFieldToEEMSFlds_def get_data_def split: option.splits if_splits)

lemma fold_min_le_init: "fold min vs (s::real) \<le> s"
proof (induction vs arbitrary: s)
  case Nil
  then show ?case by simp
next
  case (Cons a vs)
  have "fold min vs (min a s) \<le> min a s" by (rule Cons.IH)
  then show ?case by simp
qed

lemma fold_min_le: "x \<in> set vs \<Longrightarrow> fold min vs (s::real) \<le> x"
proof (induction vs arbitrary: s)
  case Nil
  then show ?case by simp
next
  case (Cons a vs)
  show ?case
  proof (cases "x = a")
    case True
    have "fold min vs (min a s) \<le> min a s" by (rule fold_min_le_init)
    with True show ?thesis by simp
  next
    case False
    with Cons.prems have "x \<in> set vs" by simp
    from Cons.IH[OF this] show ?thesis by simp
  qed
qed

lemma fold_max_ge_init: "(s::real) \<le> fold max vs s"
proof (induction vs arbitrary: s)
  case Nil
  then show ?case by simp
next
  case (Cons a vs)
  have "max a s \<le> fold max vs (max a s)" by (rule Cons.IH)
  then show ?case by simp
qed

lemma fold_max_ge: "x \<in> set vs \<Longrightarrow> x \<le> fold max vs (s::real)"
proof (induction vs arbitrary: s)
  case Nil
  then show ?case by simp
next
  case (Cons a vs)
  show ?case
  proof (cases "x = a")
    case True
    have "max a s \<le> fold max vs (max a s)" by (rule fold_max_ge_init)
    with True show ?thesis by simp
  next
    case False
    with Cons.prems have "x \<in> set vs" by simp
    from Cons.IH[OF this] show ?thesis by simp
  qed
qed

lemma Some_in_unmasked: "Some v \<in> set a \<Longrightarrow> v \<in> set (unmasked a)"
  by (force simp: unmasked_def)

lemma unmasked_mem: "v \<in> set (unmasked a) \<Longrightarrow> Some v \<in> set a"
  by (auto simp: unmasked_def)

lemma verify_range:
  assumes "VerifyFuzzyField st nm = Inr ()" "get_data st nm = Inr d"
  shows "fuzzy_range d"
proof -
  from assms obtain lo hi where lo: "ma_min d = Inr lo" and hi: "ma_max d = Inr hi"
    and ok: "\<not> ((case lo of Some l \<Rightarrow> l < - 1 | None \<Rightarrow> False) \<or>
                (case hi of Some h \<Rightarrow> h > 1 | None \<Rightarrow> False))"
    by (auto simp: VerifyFuzzyField_def bindE_eq_Inr split: if_splits)
  show ?thesis
    unfolding fuzzy_range_iff
  proof (intro allI impI)
    fix v assume "Some v \<in> set d"
    then have m: "v \<in> set (unmasked d)" by (rule Some_in_unmasked)
    then obtain u us where u: "unmasked d = u # us" by (cases "unmasked d") auto
    with lo hi have "lo = Some (fold min us u)" "hi = Some (fold max us u)"
      by (auto simp: ma_min_def ma_max_def split: if_splits)
    with ok have b: "- 1 \<le> fold min us u" "fold max us u \<le> 1" by auto
    from m u have "v = u \<or> v \<in> set us" by simp
    then have "fold min us u \<le> v \<and> v \<le> fold max us u"
      using fold_min_le[of v us u] fold_max_ge[of v us u] fold_min_le_init[of us u]
        fold_max_ge_init[of u us] by auto
    with b show "- 1 \<le> v \<and> v \<le> 1" by linarith
  qed
qed

lemma verify_all_mem:
  "verify_all st nms = Inr () \<Longrightarrow> nm \<in> set nms \<Longrightarrow> VerifyFuzzyField st nm = Inr ()"
  by (induction nms) (auto simp: seqE_eq_Inr)

text \<open>Every fuzzy operator ends by storing a clipped array.\<close>

lemma not_range:
  "FuzzyNot st nm out r = Inr st' \<Longrightarrow> \<exists>d. get_data st' r = Inr d \<and> fuzzy_range d"
  by (auto simp: FuzzyNot_def seqE_eq_Inr bindE_eq_Inr fuzzy_range_clip dest!: AddField_get)

lemma and_range:
  "FuzzyAnd st nms out r = Inr st' \<Longrightarrow> \<exists>d. get_data st' r = Inr d \<and> fuzzy_range d"
  by (auto simp: FuzzyAnd_def seqE_eq_Inr bindE_eq_Inr fuzzy_range_clip dest!: AddField_get)

lemma or_range:
  "FuzzyOr st nms out r = Inr st' \<Longrightarrow> \<exists>d. get_data st' r = Inr d \<and> fuzzy_range d"
  by (auto simp: FuzzyOr_def seqE_eq_Inr bindE_eq_Inr fuzzy_range_clip dest!: AddField_get)

lemma union_range:
  "FuzzyUnion st nms out r = Inr st' \<Longrightarrow> \<exists>d. get_data st' r = Inr d \<and> fuzzy_range d"
  by (auto simp: FuzzyUnion_def seqE_eq_Inr bindE_eq_Inr fuzzy_range_clip dest!: AddField_get)

lemma emdsand_range:
  "FuzzyEMDSAnd st nms out r = Inr st' \<Longrightarrow> \<exists>d. get_data st' r = Inr d \<and> fuzzy_range d"
  by (auto simp: FuzzyEMDSAnd_def seqE_eq_Inr bindE_eq_Inr fuzzy_range_clip dest!: AddField_get)

lemma wtdunion_range:
  "FuzzyWeightedUnion st nms ws out r = Inr st' \<Longrightarrow> \<exists>d. get_data st' r = Inr d \<and> fuzzy_range d"
  by (auto simp: FuzzyWeightedUnion_def seqE_eq_Inr bindE_eq_Inr fuzzy_range_clip dest!: AddField_get)

lemma wtdemdsand_range:
  "FuzzyEMDSWeighteddAnd st nms ws out r = Inr st' \<Longrightarrow> \<exists>d. get_data st' r = Inr d \<and> fuzzy_range d"
  by (auto simp: FuzzyEMDSWeighteddAnd_def seqE_eq_Inr bindE_eq_Inr fuzzy_range_clip dest!: AddField_get)

lemma xor_range:
  "FuzzyXOr st nms out r = Inr st' \<Longrightarrow> \<exists>d. get_data st' r = Inr d \<and> fuzzy_range d"
  by (auto simp: FuzzyXOr_def seqE_eq_Inr bindE_eq_Inr fuzzy_range_clip split: if_splits
      dest!: AddField_get)

lemma selunion_range:
  assumes "FuzzySelectedUnion st nms tf n out r = Inr st'"
  shows "\<exists>d. get_data st' r = Inr d \<and> fuzzy_range d"
proof (cases "length nms = 1")
  case True
  then obtain nm where nm: "nms = [nm]" by (cases nms) auto
  with assms have v: "VerifyFuzzyField st nm = Inr ()" and c: "CopyField st nm out r = Inr st'"
    by (auto simp: FuzzySelectedUnion_def seqE_eq_Inr)
  from c obtain d where d: "get_data st nm = Inr d" and a: "AddFieldToEEMSFlds st out r d = Inr st'"
    by (auto simp: CopyField_def bindE_eq_Inr)
  from verify_range[OF v d] AddField_get[OF a] show ?thesis by blast
next
  case False
  with assms show ?thesis
    by (auto simp: FuzzySelectedUnion_def seqE_eq_Inr bindE_eq_Inr fuzzy_range_clip
        split: if_splits dest!: AddField_get)
qed

lemma ok_collapse: "\<not> isl m \<Longrightarrow> m = Inr (projr m)"
  by (cases m) simp_all

text \<open>Clipping is the clamp of every cell.\<close>

lemma clip_fuzzy_eq: "clip_fuzzy a = map (map_option clamp_fuzzy) a"
  by (auto simp: clip_fuzzy_def ma_scalar_def clamp_fuzzy_def option.map_comp comp_def
      intro!: option.map_cong)

lemma clamp_fuzzy_id: "- 1 \<le> v \<Longrightarrow> v \<le> 1 \<Longrightarrow> clamp_fuzzy v = v"
  by (simp add: clamp_fuzzy_def)

lemma clip_fuzzy_map: "clip_fuzzy (ma_scalar g d) = map (map_option (\<lambda>x. clamp_fuzzy (g x))) d"
  by (auto simp: clip_fuzzy_def ma_scalar_def clamp_fuzzy_def option.map_comp comp_def
      intro!: option.map_cong)

lemma line_slope:
  assumes "t \<noteq> (f::real)"
  shows "x * ((- 1 - 1) / (f - t)) + (1 - (- 1 - 1) / (f - t) * t) = line_through f (- 1) t 1 x"
proof -
  define D where "D = t - f"
  have D: "D \<noteq> 0" and t: "t = f + D" using assms by (auto simp: D_def)
  have "x * ((- 1 - 1) / (- D)) + (1 - (- 1 - 1) / (- D) * (f + D)) = - 1 + (x - f) * (1 - - 1) / D"
    using D by (simp add: field_simps)
  then show ?thesis
    unfolding line_through_def t by simp
qed

text \<open>The exclusive or at one cell of the sorted stack.\<close>

lemma xor_formula_bounds:
  assumes "- 1 \<le> s" "s \<le> t" "- 1 < (t::real)"
  shows "s \<le> xor_formula t s \<and> xor_formula t s \<le> t"
proof -
  have p: "0 < t + 1" using assms by simp
  have "0 \<le> (t - s) * (s + 1)" using assms by simp
  then have a: "0 \<le> (t - s) * (s + 1) / (t + 1)" using p by simp
  have "(t - s) * (s + 1) \<le> (t - s) * (t + 1)"
    using assms by (intro mult_left_mono) simp_all
  then have b: "(t - s) * (s + 1) / (t + 1) \<le> t - s"
    using p by (simp add: pos_divide_le_eq)
  from a b show ?thesis by (simp add: xor_formula_def)
qed

lemma sorted_last_Max:
  assumes "sorted xs" "xs \<noteq> []"
  shows "last xs = Max (set xs)"
proof (rule sym, rule Max_eqI)
  show "finite (set xs)" by simp
  show "last xs \<in> set xs" using assms by simp
  fix y assume "y \<in> set xs"
  then obtain i where i: "i < length xs" "xs ! i = y" by (auto simp: in_set_conv_nth)
  with assms have "xs ! i \<le> xs ! (length xs - 1)"
    by (intro sorted_nth_mono) auto
  with i assms show "y \<le> last xs" by (simp add: last_conv_nth)
qed

lemma sort_last_Max:
  assumes "vs \<noteq> []"
  shows "sort vs ! (length vs - 1) = Max (set vs)"
proof -
  have "sort vs \<noteq> []" using assms by (metis length_sort length_0_conv)
  from sorted_last_Max[OF sorted_sort this] show ?thesis
    by (simp add: last_conv_nth \<open>sort vs \<noteq> []\<close>)
qed

lemma sort_second_Max:
  assumes "2 \<le> length (vs::real list)"
  shows "sort vs ! (length vs - 2) = Max (set (remove1 (Max (set vs)) vs))"
proof -
  let ?xs = "sort vs"
  have ne: "?xs \<noteq> []" using assms by (metis length_sort list.size(3) not_numeral_le_zero)
  have vne: "vs \<noteq> []" using assms by auto
  have t: "last ?xs = Max (set vs)"
    using sorted_last_Max[OF sorted_sort ne] by simp
  have split: "?xs = butlast ?xs @ [Max (set vs)]"
    using append_butlast_last_id[OF ne] t by simp
  have "mset vs = mset ?xs" by simp
  also have "\<dots> = mset (butlast ?xs) + {#Max (set vs)#}"
    by (subst split) simp
  finally have "mset (remove1 (Max (set vs)) vs) = mset (butlast ?xs)"
    by simp
  then have sets: "set (remove1 (Max (set vs)) vs) = set (butlast ?xs)"
    by (rule mset_eq_setD)
  have bne: "butlast ?xs \<noteq> []" using assms by (metis One_nat_def Suc_1 length_butlast length_sort list.size(3) not_less_eq_eq diff_is_0_eq' le_numeral_extra(4) not_one_le_zero zero_less_diff less_le_trans zero_less_one nat_less_le)
  have "sorted (butlast ?xs)" by (simp add: sorted_butlast ne)
  from sorted_last_Max[OF this bne] have "last (butlast ?xs) = Max (set (butlast ?xs))" .
  moreover have "last (butlast ?xs) = ?xs ! (length vs - 2)"
    using bne assms by (simp add: last_conv_nth nth_butlast numeral_2_eq_2)
  ultimately show ?thesis using sets by simp
qed

lemma xor_cell_words:
  assumes n: "2 \<le> length vs" and rng: "\<forall>v\<in>set vs. - 1 \<le> v \<and> v \<le> 1"
  shows "map_option clamp_fuzzy (xor_cell (sort vs)) = Some (xor_by_words vs)"
proof -
  let ?xs = "sort vs"
  have vne: "vs \<noteq> []" using n by auto
  define t where "t = Max (set vs)"
  define s where "s = Max (set (remove1 t vs))"
  have tx: "?xs ! (length vs - 1) = t"
    using sort_last_Max[OF vne] by (simp add: t_def)
  have sx: "?xs ! (length vs - 2) = s"
    using sort_second_Max[of vs] n by (simp add: s_def t_def)
  have tin: "t \<in> set vs" unfolding t_def using vne by (intro Max_in) auto
  have rne: "remove1 t vs \<noteq> []"
  proof
    assume "remove1 t vs = []"
    then have "length (remove1 t vs) = 0" by simp
    with tin n show False by (simp add: length_remove1)
  qed
  have sin: "s \<in> set (remove1 t vs)" unfolding s_def using rne by (intro Max_in) auto
  then have sin': "s \<in> set vs" using set_remove1_subset[of t vs] by blast
  have st: "s \<le> t" unfolding t_def using sin' by (intro Max_ge) auto
  have cell: "xor_cell ?xs = (if t \<noteq> - 1 then Some (xor_formula t s) else Some (- 1))"
    using tx sx by (simp add: xor_cell_def Let_def)
  have words: "xor_by_words vs = (if t = - 1 then - 1 else xor_formula t s)"
    unfolding xor_by_words_def Let_def s_def t_def xor_formula_def by (rule refl)
  show ?thesis
  proof (cases "t = - 1")
    case True
    then show ?thesis
      unfolding words cell by (simp add: clamp_fuzzy_def)
  next
    case False
    with rng tin have "- 1 < t" by force
    from xor_formula_bounds[OF _ st this] rng sin' tin
    have "- 1 \<le> xor_formula t s" "xor_formula t s \<le> 1" by auto
    then have "clamp_fuzzy (xor_formula t s) = xor_formula t s" by (rule clamp_fuzzy_id)
    with False show ?thesis
      unfolding words cell by simp
  qed
qed

text \<open>The stack holds the values that the fields show, where they show one.\<close>

lemma raw_data_length: "length (raw_data st nm d) = length d"
  by (simp add: raw_data_def)

lemma raw_data_nth: "j < length d \<Longrightarrow> d ! j = Some v \<Longrightarrow> raw_data st nm d ! j = v"
  by (simp add: raw_data_def)

lemma raw_column:
  assumes len: "length nms = length rows"
    and js: "\<forall>d\<in>set rows. j < length d"
    and none: "None \<notin> set (map (\<lambda>d. d ! j) rows)"
  shows "map (\<lambda>r. r ! j) (map (\<lambda>(nm, d). raw_data st nm d) (zip nms rows))
           = map (\<lambda>d. the (d ! j)) rows"
proof (rule nth_equalityI)
  show "length (map (\<lambda>r. r ! j) (map (\<lambda>(nm, d). raw_data st nm d) (zip nms rows)))
          = length (map (\<lambda>d. the (d ! j)) rows)"
    using len by simp
next
  fix i
  assume "i < length (map (\<lambda>r. r ! j) (map (\<lambda>(nm, d). raw_data st nm d) (zip nms rows)))"
  then have i: "i < length rows" using len by simp
  then have mem: "rows ! i \<in> set rows" by simp
  with js have j: "j < length (rows ! i)" by blast
  from none mem have "rows ! i ! j \<noteq> None" by force
  then obtain v where v: "rows ! i ! j = Some v" by blast
  from raw_data_nth[OF j v] have "raw_data st (nms ! i) (rows ! i) ! j = v" .
  with i len v
  show "map (\<lambda>r. r ! j) (map (\<lambda>(nm, d). raw_data st nm d) (zip nms rows)) ! i
          = map (\<lambda>d. the (d ! j)) rows ! i"
    by simp
qed

lemma get_all_rows:
  "get_all st nms = Inr rows \<Longrightarrow>
     length rows = length nms \<and> (\<forall>row\<in>set rows. \<exists>nm\<in>set nms. get_data st nm = Inr row)"
proof (induction nms arbitrary: rows)
  case Nil
  then show ?case by simp
next
  case (Cons nm nms)
  from Cons.prems obtain d ds where d: "get_data st nm = Inr d"
    and ds: "get_all st nms = Inr ds" and rows: "rows = d # ds"
    by (auto simp: bindE_eq_Inr)
  from Cons.IH[OF ds] d rows show ?case by auto
qed

section \<open>The claims\<close>

text \<open>
  Claim C1. For every successfully loaded program (of constructed commands) the execution
  order holds every command of the program, and every command that defines a field stands
  before every command that references the field. In particular, when \<open>A\<close> is defined by a
  read command, \<open>B\<close> by a command that reads \<open>A\<close> and a third command reads \<open>B\<close>, the
  three stand in this order.
\<close>

theorem schedule_respects_dependencies:
  assumes con: "\<forall>c\<in>set cmds. constructed c"
    and init: "EEMSProgram_init fNm cmds = Inr p"
  shows "mset (orderedCmds p) = mset cmds \<and>
     (\<forall>i j f deps. i < length (orderedCmds p) \<and> j < length (orderedCmds p) \<and>
          allDefinedFieldNms p f = Some (orderedCmds p ! i) \<and>
          GetDependFieldNms (orderedCmds p ! j) = Inr deps \<and> f \<in> set deps \<longrightarrow> i < j) \<and>
     (\<forall>iA iB iC A B depsB depsC.
          iA < length (orderedCmds p) \<and> iB < length (orderedCmds p) \<and>
          iC < length (orderedCmds p) \<and> IsReadCmd (orderedCmds p ! iA) \<and>
          allDefinedFieldNms p A = Some (orderedCmds p ! iA) \<and>
          allDefinedFieldNms p B = Some (orderedCmds p ! iB) \<and>
          GetDependFieldNms (orderedCmds p ! iB) = Inr depsB \<and> A \<in> set depsB \<and>
          GetDependFieldNms (orderedCmds p ! iC) = Inr depsC \<and> B \<in> set depsC
          \<longrightarrow> iA < iB \<and> iB < iC)"
proof -
  from init obtain p0 where add: "add_all empty_program cmds = Inr p0"
    and ord: "OrderCmds p0 = Inr p"
    by (auto simp: EEMSProgram_init_def bindE_eq_Inr split: if_splits)
  from add_all_char[OF add] have u0: "unorderedCmds p0 = cmds"
    and dist: "distinct (concat (map defined_names cmds))"
    and defs: "\<forall>f c. allDefinedFieldNms p0 f = Some c \<longrightarrow> c \<in> set cmds \<and> f \<in> set (defined_names c)"
    by (auto simp: empty_program_def)
  from ord obtain p1 d1 where loop: "order_loop (p0\<lparr>orderedCmds := []\<rparr>, []) = Inr (p1, d1)"
    and p: "p = p1\<lparr>crntCmdNdx := Some 0\<rparr>"
    by (auto simp: OrderCmds_def seqE_eq_Inr bindE_eq_Inr)
  have "sched_inv (p0\<lparr>orderedCmds := []\<rparr>, [])"
    by (simp add: sched_inv_def deps_before_def)
  from order_loop_inv[OF loop this] u0 p
  have inv: "deps_before (orderedCmds p)" and ms: "mset (orderedCmds p) = mset cmds"
    and same: "allDefinedFieldNms p = allDefinedFieldNms p0"
    by (simp_all add: sched_inv_def)
  from ms have sets: "set (orderedCmds p) = set cmds" by (rule mset_eq_setD)
  from con have "concat (map defined_names cmds) = concat (map provided_names cmds)"
    by (intro concat_map_cong_set constructed_defined_provided) simp
  with dist have "distinct (concat (map provided_names cmds))" by simp
  moreover from ms have "mset (concat (map provided_names (orderedCmds p))) =
      mset (concat (map provided_names cmds))" by (rule mset_concat_map_cong)
  ultimately have dp: "distinct (concat (map provided_names (orderedCmds p)))"
    by (metis mset_eq_imp_distinct_iff)
  have gen: "i < j" if i: "i < length (orderedCmds p)" and j: "j < length (orderedCmds p)"
    and df: "allDefinedFieldNms p f = Some (orderedCmds p ! i)"
    and dj: "GetDependFieldNms (orderedCmds p ! j) = Inr deps" and f: "f \<in> set deps"
  for i j f deps
  proof -
    let ?os = "orderedCmds p"
    from df same defs have "?os ! i \<in> set cmds" "f \<in> set (defined_names (?os ! i))"
      by auto
    with con have fi: "f \<in> set (provided_names (?os ! i))"
      by (simp add: constructed_defined_provided)
    from j have "?os = take j ?os @ ?os ! j # drop (Suc j) ?os" by (rule id_take_nth_drop)
    with inv have "deps_of (?os ! j) \<subseteq> set (concat (map provided_names (take j ?os)))"
      unfolding deps_before_def by blast
    with dj f have "f \<in> set (concat (map provided_names (take j ?os)))"
      by (auto simp: deps_of_def)
    then obtain c where c: "c \<in> set (take j ?os)" and fc: "f \<in> set (provided_names c)"
      by auto
    from c obtain k where k: "k < length (take j ?os)" and ck: "take j ?os ! k = c"
      by (auto simp: in_set_conv_nth)
    from k j have kj: "k < j" by simp
    with ck have "?os ! k = c" by simp
    with fc have fk: "f \<in> set (provided_names (?os ! k))" by simp
    from kj j have "k < length ?os" by simp
    from distinct_concat_nth[OF dp i this fi fk] kj show ?thesis by simp
  qed
  have chain: "iA < iB \<and> iB < iC"
    if "iA < length (orderedCmds p)" "iB < length (orderedCmds p)" "iC < length (orderedCmds p)"
      "allDefinedFieldNms p A = Some (orderedCmds p ! iA)"
      "allDefinedFieldNms p B = Some (orderedCmds p ! iB)"
      "GetDependFieldNms (orderedCmds p ! iB) = Inr depsB" "A \<in> set depsB"
      "GetDependFieldNms (orderedCmds p ! iC) = Inr depsC" "B \<in> set depsC"
    for iA iB iC A B depsB depsC
    using gen[of iA iB A depsB] gen[of iB iC B depsC] that by simp
  from ms gen chain show ?thesis by blast
qed

theorem schedule_respects_dependencies_witness:
  "constructed not_C \<and> constructed cvt_B \<and> constructed read_A \<and>
   EEMSProgram_init ''chain.eem'' chain_cmds = Inr chain_program \<and>
   mset (orderedCmds chain_program) = mset chain_cmds \<and>
   orderedCmds chain_program = [read_A, cvt_B, not_C]"
proof -
  have h1: "\<forall>c\<in>set chain_cmds. constructed c"
    by code_simp
  have "\<not> isl (EEMSProgram_init ''chain.eem'' chain_cmds)"
    by code_simp
  then have h2: "EEMSProgram_init ''chain.eem'' chain_cmds = Inr chain_program"
    by (simp add: chain_program_def)
  from schedule_respects_dependencies[OF h1 h2]
  have "mset (orderedCmds chain_program) = mset chain_cmds" by blast
  moreover have "orderedCmds chain_program = [read_A, cvt_B, not_C]"
    by code_simp
  ultimately show ?thesis using h1 h2 by (simp add: chain_cmds_def)
qed


text \<open>
  Claim C3. In the ordering loop, when commands remain and one full sweep moves none of them
  into the ordered list, the loop fails with the circular-dependency error, whose message
  lists the statement of every remaining command, each on a line of its own. In particular
  the program of \<^verbatim>\<open>D = OR(InFieldNames=[E])\<close> and \<^verbatim>\<open>E = OR(InFieldNames=[D])\<close> fails to load
  with the cycle error that names both statements.
\<close>

theorem cycle_error_lists_remaining_commands:
  assumes "unorderedCmds p \<noteq> []"
    and "sweep (rev [0..<length (unorderedCmds p)]) (p, d) = Inr (p', d')"
    and "length (orderedCmds p') = length (orderedCmds p)"
  shows "order_loop (p, d) =
           Inl (ProgError (CircularLogic (circular_logic_message (unorderedCmds p)))) \<and>
         (\<forall>c\<in>set (unorderedCmds p).
            \<exists>a b. circular_logic_message (unorderedCmds p) =
                    a @ ''  '' @ GetCommandString c @ ''\<newline>'' @ b) \<and>
         map_sum id orderedCmds (EEMSProgram_init ''cycle.eem'' [or_D, or_E]) =
           Inl (ProgError (CircularLogic
             (''\<newline>********************ERROR********************\<newline>'' @
              ''Circular logic in the dependencies for this subset of commands:'' @
              ''  D = OR(InFieldNames=[E])\<newline>'' @
              ''  E = OR(InFieldNames=[D])\<newline>'')))"
proof -
  from sweep_no_move[OF assms(2,3)] have same: "unorderedCmds p' = unorderedCmds p" .
  from assms(1) have "length (unorderedCmds p) > 0" by simp
  with assms(2) same have "order_loop (p, d) =
      Inl (ProgError (CircularLogic (circular_logic_message (unorderedCmds p))))"
    by (simp add: order_loop.simps[of p d])
  moreover have "\<forall>c\<in>set (unorderedCmds p).
            \<exists>a b. circular_logic_message (unorderedCmds p) =
                    a @ ''  '' @ GetCommandString c @ ''\<newline>'' @ b"
    using message_lists_command by blast
  moreover have "map_sum id orderedCmds (EEMSProgram_init ''cycle.eem'' [or_D, or_E]) =
           Inl (ProgError (CircularLogic
             (''\<newline>********************ERROR********************\<newline>'' @
              ''Circular logic in the dependencies for this subset of commands:'' @
              ''  D = OR(InFieldNames=[E])\<newline>'' @
              ''  E = OR(InFieldNames=[D])\<newline>'')))"
    by code_simp
  ultimately show ?thesis by blast
qed

theorem cycle_error_lists_remaining_commands_witness:
  "constructed or_D \<and> constructed or_E \<and> unorderedCmds cycle_state = [or_D, or_E] \<and>
   sweep (rev [0..<length (unorderedCmds cycle_state)]) (cycle_state, []) = Inr cycle_swept \<and>
   length (orderedCmds (fst cycle_swept)) = length (orderedCmds cycle_state) \<and>
   order_loop (cycle_state, []) =
     Inl (ProgError (CircularLogic (circular_logic_message [or_D, or_E])))"
proof -
  have c: "constructed or_D \<and> constructed or_E" by code_simp
  have u: "unorderedCmds cycle_state = [or_D, or_E]" by code_simp
  then have h1: "unorderedCmds cycle_state \<noteq> []" by simp
  have "\<not> isl (sweep (rev [0..<length (unorderedCmds cycle_state)]) (cycle_state, []))"
    by code_simp
  then have h2: "sweep (rev [0..<length (unorderedCmds cycle_state)]) (cycle_state, []) =
      Inr (fst cycle_swept, snd cycle_swept)"
    by (simp add: cycle_swept_def)
  have h3: "length (orderedCmds (fst cycle_swept)) = length (orderedCmds cycle_state)"
    by code_simp
  from cycle_error_lists_remaining_commands[OF h1 h2 h3] u
  have "order_loop (cycle_state, []) =
     Inl (ProgError (CircularLogic (circular_logic_message [or_D, or_E])))" by simp
  with c u h2 h3 show ?thesis by simp
qed



text \<open>
  Claim C5 as stated fails: of two read commands, both eligible in the first sweep, the
  second of the program text is ordered first.
\<close>

theorem declaration_order_counterexample:
  "map_sum id orderedCmds (EEMSProgram_init ''reads.eem'' [read_A, read_B]) = Inr [read_B, read_A] \<and>
   [read_B, read_A] \<noteq> [read_A, read_B]"
  by code_simp

text \<open>
  Claim C5, as amended. The commands that one sweep moves are appended to the ordered list in
  the reverse of their order in the list of commands not yet ordered (which keeps the order
  of the program text): the sweep walks that list from its last index down to the first.
  When every command not yet ordered is eligible at the start of the sweep, the sweep appends
  the whole list, reversed.
\<close>

theorem sweep_appends_in_reverse_declaration_order:
  assumes "sweep (rev [0..<length (unorderedCmds p)]) (p, d) = Inr (p', d')"
  shows "(\<exists>moved. orderedCmds p' = orderedCmds p @ rev moved \<and>
            subseq moved (unorderedCmds p) \<and> subseq (unorderedCmds p') (unorderedCmds p) \<and>
            mset moved + mset (unorderedCmds p') = mset (unorderedCmds p)) \<and>
         ((\<forall>c\<in>set (unorderedCmds p). eligible d c) \<longrightarrow>
            orderedCmds p' = orderedCmds p @ rev (unorderedCmds p) \<and> unorderedCmds p' = [])"
proof -
  from sweep_rev_char[of p "unorderedCmds p" "[]" d p' d'] assms
  have "\<exists>moved. orderedCmds p' = orderedCmds p @ rev moved \<and>
            subseq moved (unorderedCmds p) \<and> subseq (unorderedCmds p') (unorderedCmds p) \<and>
            mset moved + mset (unorderedCmds p') = mset (unorderedCmds p)"
    by auto
  moreover have "orderedCmds p' = orderedCmds p @ rev (unorderedCmds p) \<and> unorderedCmds p' = []"
    if "\<forall>c\<in>set (unorderedCmds p). eligible d c"
    using sweep_all_eligible[of p "unorderedCmds p" "[]" d p' d'] that assms by simp
  ultimately show ?thesis by blast
qed

theorem sweep_appends_in_reverse_declaration_order_witness:
  "unorderedCmds reads_state = [read_A, read_B] \<and> orderedCmds reads_state = [] \<and>
   eligible [] read_A \<and> eligible [] read_B \<and>
   sweep (rev [0..<length (unorderedCmds reads_state)]) (reads_state, []) = Inr reads_swept \<and>
   orderedCmds (fst reads_swept) = [read_B, read_A] \<and> unorderedCmds (fst reads_swept) = []"
proof -
  have u: "unorderedCmds reads_state = [read_A, read_B]" "orderedCmds reads_state = []"
    by code_simp+
  have e: "eligible [] read_A" "eligible [] read_B" by code_simp+
  have "\<not> isl (sweep (rev [0..<length (unorderedCmds reads_state)]) (reads_state, []))"
    by code_simp
  then have h: "sweep (rev [0..<length (unorderedCmds reads_state)]) (reads_state, []) =
      Inr (fst reads_swept, snd reads_swept)"
    by (simp add: reads_swept_def)
  from sweep_appends_in_reverse_declaration_order[OF h] u e
  have "orderedCmds (fst reads_swept) = [read_B, read_A] \<and> unorderedCmds (fst reads_swept) = []"
    by simp
  with u e h show ?thesis by simp
qed

text \<open>
  Claim C6. Construction enforces the cardinality checks across parameters: a weighted
  command (\<^verbatim>\<open>WTDUNION\<close>, \<^verbatim>\<open>WTDMEAN\<close>, \<^verbatim>\<open>WTDSUM\<close>, \<^verbatim>\<open>WTDEMDSAND\<close>) whose lists
  \<^verbatim>\<open>InFieldNames\<close> and \<^verbatim>\<open>Weights\<close> have different lengths fails at construction, and so does a
  \<^verbatim>\<open>SELECTEDUNION\<close> whose \<^verbatim>\<open>NumberToConsider\<close> exceeds the length of \<^verbatim>\<open>InFieldNames\<close>. With a
  result name, \<^verbatim>\<open>WTDMEAN\<close> with two field names and one weight fails with the error of the
  count mismatch, and \<^verbatim>\<open>SELECTEDUNION\<close> with \<^verbatim>\<open>NumberToConsider=3\<close> over two field names fails
  with the error of the number to consider.
\<close>

theorem cardinality_checks_fail_construction:
  "(n \<in> set [''WTDUNION'', ''WTDMEAN'', ''WTDSUM'', ''WTDEMDSAND''] \<and>
    map_of ps ''InFieldNames'' = Some a \<and> map_of ps ''Weights'' = Some b \<and>
    ListFromListParam a = Some names \<and> ListFromListParam b = Some ws \<and>
    length names \<noteq> length ws
    \<longrightarrow> isl (EEMSCmd_init cs r n ps)) \<and>
   (n = ''SELECTEDUNION'' \<and> map_of ps ''NumberToConsider'' = Some v \<and> py_int v = Some k \<and>
    map_of ps ''InFieldNames'' = Some a \<and> ListFromListParam a = Some names \<and>
    k > int (length names)
    \<longrightarrow> isl (EEMSCmd_init cs r n ps)) \<and>
   EEMSCmd_init wtdmean_text (Some ''R'') ''WTDMEAN'' wtdmean_params =
     Inl (CmdError (FieldsWeightsCountMismatch 2 1 wtdmean_text)) \<and>
   EEMSCmd_init selunion_text (Some ''R'') ''SELECTEDUNION'' selunion_params =
     Inl (CmdError (NumberToConsiderTooLarge 3 2 selunion_text))"
proof (intro conjI impI)
  assume h: "n \<in> set [''WTDUNION'', ''WTDMEAN'', ''WTDSUM'', ''WTDEMDSAND''] \<and>
    map_of ps ''InFieldNames'' = Some a \<and> map_of ps ''Weights'' = Some b \<and>
    ListFromListParam a = Some names \<and> ListFromListParam b = Some ws \<and>
    length names \<noteq> length ws"
  show "isl (EEMSCmd_init cs r n ps)"
  proof (cases "EEMSCmd_init cs r n ps")
    case (Inl e)
    then show ?thesis by simp
  next
    case (Inr c)
    from EEMSCmd_init_Inr[OF Inr] have c: "cmdNm c = n" "params c = ps"
      and v: "ValidateCmd c = Inr ()" by simp_all
    from h c have "check_weights c =
        Inl (CmdError (FieldsWeightsCountMismatch (length names) (length ws) (cmdStr c)))"
      by (simp add: check_weights_def get_list_def get_raw_def)
    with validated_checks(1)[OF v] show ?thesis by simp
  qed
next
  assume h: "n = ''SELECTEDUNION'' \<and> map_of ps ''NumberToConsider'' = Some v \<and> py_int v = Some k \<and>
    map_of ps ''InFieldNames'' = Some a \<and> ListFromListParam a = Some names \<and>
    k > int (length names)"
  show "isl (EEMSCmd_init cs r n ps)"
  proof (cases "EEMSCmd_init cs r n ps")
    case (Inl e)
    then show ?thesis by simp
  next
    case (Inr c)
    from EEMSCmd_init_Inr[OF Inr] have c: "cmdNm c = n" "params c = ps"
      and v: "ValidateCmd c = Inr ()" by simp_all
    from h c have "check_number c =
        Inl (CmdError (NumberToConsiderTooLarge k (length names) (cmdStr c)))"
      by (simp add: check_number_def get_list_def get_raw_def)
    with validated_checks(2)[OF v] show ?thesis by simp
  qed
next
  show "EEMSCmd_init wtdmean_text (Some ''R'') ''WTDMEAN'' wtdmean_params =
     Inl (CmdError (FieldsWeightsCountMismatch 2 1 wtdmean_text))"
    by code_simp
next
  show "EEMSCmd_init selunion_text (Some ''R'') ''SELECTEDUNION'' selunion_params =
     Inl (CmdError (NumberToConsiderTooLarge 3 2 selunion_text))"
    by code_simp
qed

theorem cardinality_checks_fail_construction_witness:
  "map_of wtdmean_params ''InFieldNames'' = Some ''[X,Y]'' \<and>
   map_of wtdmean_params ''Weights'' = Some ''[1]'' \<and>
   ListFromListParam ''[X,Y]'' = Some [''X'', ''Y''] \<and> ListFromListParam ''[1]'' = Some [''1''] \<and>
   isl (EEMSCmd_init wtdmean_text None ''WTDMEAN'' wtdmean_params) \<and>
   map_of selunion_params ''NumberToConsider'' = Some ''3'' \<and> py_int ''3'' = Some 3 \<and>
   map_of selunion_params ''InFieldNames'' = Some ''[X,Y]'' \<and>
   isl (EEMSCmd_init selunion_text None ''SELECTEDUNION'' selunion_params)"
proof -
  have a: "map_of wtdmean_params ''InFieldNames'' = Some ''[X,Y]''"
    "map_of wtdmean_params ''Weights'' = Some ''[1]''"
    "map_of selunion_params ''NumberToConsider'' = Some ''3''"
    "map_of selunion_params ''InFieldNames'' = Some ''[X,Y]''"
    by (simp_all add: wtdmean_params_def selunion_params_def)
  have b: "ListFromListParam ''[X,Y]'' = Some [''X'', ''Y'']"
    "ListFromListParam ''[1]'' = Some [''1'']" "py_int ''3'' = Some 3"
    by code_simp+
  from cardinality_checks_fail_construction[of "''WTDMEAN''" wtdmean_params "''[X,Y]''" "''[1]''"
      "[''X'', ''Y'']" "[''1'']" wtdmean_text None "''3''" 3] a b
  have 1: "isl (EEMSCmd_init wtdmean_text None ''WTDMEAN'' wtdmean_params)" by simp
  from cardinality_checks_fail_construction[of "''SELECTEDUNION''" selunion_params "''[X,Y]''" "''[1]''"
      "[''X'', ''Y'']" "[''1'']" selunion_text None "''3''" 3] a b
  have 2: "isl (EEMSCmd_init selunion_text None ''SELECTEDUNION'' selunion_params)" by simp
  from a b 1 2 show ?thesis by simp
qed

subsection \<open>The engine and the interpreter\<close>

text \<open>
  Claim C2. Whenever one of the fuzzy operators NOT, AND, OR, UNION, EMDSAND, the weighted
  union, the weighted EMDS AND (the method \<^verbatim>\<open>FuzzyEMDSWeighteddAnd\<close>), XOR or SELECTEDUNION
  returns, which it does only after the range guard has accepted every input field, the
  field it has stored has every cell that is not masked in the closed interval from \<open>-1\<close>
  to \<open>1\<close>. This holds on both Pythons and whatever the arrays hold under their masks: XOR
  and SELECTEDUNION stack that data, and clip their result at the end.
\<close>

theorem fuzzy_operators_stay_in_range:
  "(FuzzyNot st nm out r = Inr s1 \<longrightarrow> (\<exists>d. get_data s1 r = Inr d \<and> fuzzy_range d)) \<and>
   (FuzzyAnd st nms out r = Inr s2 \<longrightarrow> (\<exists>d. get_data s2 r = Inr d \<and> fuzzy_range d)) \<and>
   (FuzzyOr st nms out r = Inr s3 \<longrightarrow> (\<exists>d. get_data s3 r = Inr d \<and> fuzzy_range d)) \<and>
   (FuzzyUnion st nms out r = Inr s4 \<longrightarrow> (\<exists>d. get_data s4 r = Inr d \<and> fuzzy_range d)) \<and>
   (FuzzyEMDSAnd st nms out r = Inr s5 \<longrightarrow> (\<exists>d. get_data s5 r = Inr d \<and> fuzzy_range d)) \<and>
   (FuzzyWeightedUnion st nms ws out r = Inr s6 \<longrightarrow>
      (\<exists>d. get_data s6 r = Inr d \<and> fuzzy_range d)) \<and>
   (FuzzyEMDSWeighteddAnd st nms ws out r = Inr s7 \<longrightarrow>
      (\<exists>d. get_data s7 r = Inr d \<and> fuzzy_range d)) \<and>
   (FuzzyXOr st nms out r = Inr s8 \<longrightarrow> (\<exists>d. get_data s8 r = Inr d \<and> fuzzy_range d)) \<and>
   (FuzzySelectedUnion st nms tf n out r = Inr s9 \<longrightarrow>
      (\<exists>d. get_data s9 r = Inr d \<and> fuzzy_range d))"
  by (intro conjI impI;
      (erule not_range | erule and_range | erule or_range | erule union_range
       | erule emdsand_range | erule wtdunion_range | erule wtdemdsand_range | erule xor_range
       | erule selunion_range))

text \<open>
  The nine operators run over the fields \<open>X\<close> and \<open>Y\<close> on Python 2; each one returns and
  the theorem gives the range of its result. XOR and SELECTEDUNION read the \<open>0\<close> under the
  masked cell of \<open>X\<close>: their fourth cells are \<open>1/2\<close> and \<open>1\<close>, not masked. On Python 3
  SELECTEDUNION returns over one field, which it copies.
\<close>

theorem fuzzy_operators_stay_in_range_witness:
  "(FuzzyNot xy_state ''X'' (PStr ''NONE'') ''R'' = Inr not_R \<and>
      (\<exists>d. get_data not_R ''R'' = Inr d \<and> fuzzy_range d)) \<and>
   (FuzzyAnd xy_state [''X'', ''Y''] (PStr ''NONE'') ''R'' = Inr and_R \<and>
      (\<exists>d. get_data and_R ''R'' = Inr d \<and> fuzzy_range d)) \<and>
   (FuzzyOr xy_state [''X'', ''Y''] (PStr ''NONE'') ''R'' = Inr or_R \<and>
      (\<exists>d. get_data or_R ''R'' = Inr d \<and> fuzzy_range d)) \<and>
   (FuzzyUnion xy_state [''X'', ''Y''] (PStr ''NONE'') ''R'' = Inr union_R \<and>
      (\<exists>d. get_data union_R ''R'' = Inr d \<and> fuzzy_range d)) \<and>
   (FuzzyEMDSAnd xy_state [''X'', ''Y''] (PStr ''NONE'') ''R'' = Inr emdsand_R \<and>
      (\<exists>d. get_data emdsand_R ''R'' = Inr d \<and> fuzzy_range d)) \<and>
   (FuzzyWeightedUnion xy_state [''X'', ''Y''] [1, 3] (PStr ''NONE'') ''R'' = Inr wtdunion_R \<and>
      (\<exists>d. get_data wtdunion_R ''R'' = Inr d \<and> fuzzy_range d)) \<and>
   (FuzzyEMDSWeighteddAnd xy_state [''X'', ''Y''] [1, 3] (PStr ''NONE'') ''R'' = Inr wtdemdsand_R \<and>
      (\<exists>d. get_data wtdemdsand_R ''R'' = Inr d \<and> fuzzy_range d)) \<and>
   (FuzzyXOr xy_state [''X'', ''Y''] (PStr ''NONE'') ''R'' = Inr xor_R \<and>
      get_data xor_R ''R'' = Inr [Some (1 / 2), Some (7 / 24), Some (- 1), Some (1 / 2)] \<and>
      (\<exists>d. get_data xor_R ''R'' = Inr d \<and> fuzzy_range d)) \<and>
   (FuzzySelectedUnion xy_state [''X'', ''Y''] ''Truest'' 1 (PStr ''NONE'') ''R'' = Inr selunion_R \<and>
      get_data selunion_R ''R'' = Inr [Some 1, Some (1 / 2), Some (- 1), Some 1] \<and>
      (\<exists>d. get_data selunion_R ''R'' = Inr d \<and> fuzzy_range d)) \<and>
   (FuzzySelectedUnion xy_state3 [''Y''] ''Truest'' 1 (PStr ''NONE'') ''R'' = Inr selunion_one_R \<and>
      (\<exists>d. get_data selunion_one_R ''R'' = Inr d \<and> fuzzy_range d))"
proof -
  have h1: "FuzzyNot xy_state ''X'' (PStr ''NONE'') ''R'' = Inr not_R"
    unfolding not_R_def by (rule ok_collapse) code_simp
  have h2: "FuzzyAnd xy_state [''X'', ''Y''] (PStr ''NONE'') ''R'' = Inr and_R"
    unfolding and_R_def by (rule ok_collapse) code_simp
  have h3: "FuzzyOr xy_state [''X'', ''Y''] (PStr ''NONE'') ''R'' = Inr or_R"
    unfolding or_R_def by (rule ok_collapse) code_simp
  have h4: "FuzzyUnion xy_state [''X'', ''Y''] (PStr ''NONE'') ''R'' = Inr union_R"
    unfolding union_R_def by (rule ok_collapse) code_simp
  have h5: "FuzzyEMDSAnd xy_state [''X'', ''Y''] (PStr ''NONE'') ''R'' = Inr emdsand_R"
    unfolding emdsand_R_def by (rule ok_collapse) code_simp
  have h6: "FuzzyWeightedUnion xy_state [''X'', ''Y''] [1, 3] (PStr ''NONE'') ''R'' = Inr wtdunion_R"
    unfolding wtdunion_R_def by (rule ok_collapse) code_simp
  have h7: "FuzzyEMDSWeighteddAnd xy_state [''X'', ''Y''] [1, 3] (PStr ''NONE'') ''R''
              = Inr wtdemdsand_R"
    unfolding wtdemdsand_R_def by (rule ok_collapse) code_simp
  have h8: "FuzzyXOr xy_state [''X'', ''Y''] (PStr ''NONE'') ''R'' = Inr xor_R"
    unfolding xor_R_def by (rule ok_collapse) code_simp
  have v8: "get_data xor_R ''R'' = Inr [Some (1 / 2), Some (7 / 24), Some (- 1), Some (1 / 2)]"
    by code_simp
  have h9: "FuzzySelectedUnion xy_state [''X'', ''Y''] ''Truest'' 1 (PStr ''NONE'') ''R'' = Inr selunion_R"
    unfolding selunion_R_def by (rule ok_collapse) code_simp
  have v9: "get_data selunion_R ''R'' = Inr [Some 1, Some (1 / 2), Some (- 1), Some 1]"
    by code_simp
  have h10: "FuzzySelectedUnion xy_state3 [''Y''] ''Truest'' 1 (PStr ''NONE'') ''R''
               = Inr selunion_one_R"
    unfolding selunion_one_R_def by (rule ok_collapse) code_simp
  show ?thesis
    using h1 h2 h3 h4 h5 h6 h7 h8 v8 h9 v9 h10
      fuzzy_operators_stay_in_range [where st = xy_state and nm = "''X''"
        and nms = "[''X'', ''Y'']" and out = "PStr ''NONE''" and r = "''R''" and ws = "[1, 3]"
        and tf = "''Truest''" and n = 1 and ?s1.0 = not_R and ?s2.0 = and_R and ?s3.0 = or_R
        and ?s4.0 = union_R and ?s5.0 = emdsand_R and ?s6.0 = wtdunion_R
        and ?s7.0 = wtdemdsand_R and ?s8.0 = xor_R and ?s9.0 = selunion_R]
      fuzzy_operators_stay_in_range [where st = xy_state3 and nms = "[''Y'']"
        and out = "PStr ''NONE''" and r = "''R''" and tf = "''Truest''" and n = 1
        and ?s9.0 = selunion_one_R]
    by blast
qed

text \<open>
  Claim C7. When both thresholds are numbers (given, or found as the least or greatest value
  of the field), \<^verbatim>\<open>CvtToFuzzy\<close> stores, at every cell \<open>x\<close> that is not masked, the value at
  \<open>x\<close> of the straight line through \<open>(falseThresh, -1)\<close> and \<open>(trueThresh, 1)\<close>, clamped
  to the fuzzy interval; the line takes the value \<open>-1\<close> at the false threshold and \<open>1\<close> at
  the true one. With the thresholds \<open>100\<close> and \<open>0\<close> the field \<open>[0, 50, 100]\<close> becomes
  \<open>[-1, 0, 1]\<close>, and NOT of that is \<open>[1, 0, -1]\<close>.
\<close>

theorem cvt_to_fuzzy_is_clamped_line:
  assumes "resolve_threshold st nm falseThreshold = Inr (Some f)"
    and "resolve_threshold st nm trueThreshold = Inr (Some t)"
    and "get_data st nm = Inr d"
    and "CvtToFuzzy st nm trueThreshold falseThreshold out r = Inr st'"
  shows "get_data st' r =
           Inr (map (map_option (\<lambda>x. clamp_fuzzy (line_through f (- 1) t 1 x))) d) \<and>
     line_through f (- 1) t 1 f = - 1 \<and> line_through f (- 1) t 1 t = 1 \<and>
     get_data raw_state ''A'' = Inr [Some 0, Some 50, Some 100] \<and>
     CvtToFuzzy raw_state ''A'' 100 0 (PStr ''NONE'') ''B'' = Inr cvt_R \<and>
     get_data cvt_R ''B'' = Inr [Some (- 1), Some 0, Some 1] \<and>
     FuzzyNot cvt_R ''B'' (PStr ''NONE'') ''C'' = Inr cvt_not_R \<and>
     get_data cvt_not_R ''C'' = Inr [Some 1, Some 0, Some (- 1)]"
proof -
  from assms have tf: "t \<noteq> f"
    by (auto simp: CvtToFuzzy_def split: if_splits)
  have "AddFieldToEEMSFlds st out r
          (clip_fuzzy (ma_scalar
             (\<lambda>x. x * ((- 1 - 1) / (f - t)) + (1 - (- 1 - 1) / (f - t) * t)) d)) = Inr st'"
    using assms(3,4) tf unfolding CvtToFuzzy_def assms(1) assms(2) Let_def
    by (simp only: bindE_simps option.case if_False)
  then have "get_data st' r =
      Inr (clip_fuzzy (ma_scalar
             (\<lambda>x. x * ((- 1 - 1) / (f - t)) + (1 - (- 1 - 1) / (f - t) * t)) d))"
    by (rule AddField_get)
  then have line: "get_data st' r =
      Inr (map (map_option (\<lambda>x. clamp_fuzzy (line_through f (- 1) t 1 x))) d)"
    by (simp only: clip_fuzzy_map line_slope [OF tf])
  have atf: "line_through f (- 1) t 1 f = - 1"
    by (simp add: line_through_def)
  have "t - f \<noteq> 0" using tf by simp
  then have "(t - f) * (1 - - 1) / (t - f) = 1 - - 1"
    by (rule nonzero_mult_div_cancel_left)
  then have att: "line_through f (- 1) t 1 t = 1"
    unfolding line_through_def by (simp only:)
  have e1: "get_data raw_state ''A'' = Inr [Some 0, Some 50, Some 100]"
    by code_simp
  have e2: "CvtToFuzzy raw_state ''A'' 100 0 (PStr ''NONE'') ''B'' = Inr cvt_R"
    unfolding cvt_R_def by (rule ok_collapse) code_simp
  have e3: "get_data cvt_R ''B'' = Inr [Some (- 1), Some 0, Some 1]"
    by code_simp
  have e4: "FuzzyNot cvt_R ''B'' (PStr ''NONE'') ''C'' = Inr cvt_not_R"
    unfolding cvt_not_R_def by (rule ok_collapse) code_simp
  have e5: "get_data cvt_not_R ''C'' = Inr [Some 1, Some 0, Some (- 1)]"
    by code_simp
  from line atf att e1 e2 e3 e4 e5 show ?thesis
    by (intro conjI)
qed

text \<open>
  The conversion of \<open>A = [0, 50, 100]\<close> with the thresholds \<open>100\<close> and \<open>0\<close>.
\<close>

theorem cvt_to_fuzzy_is_clamped_line_witness:
  "resolve_threshold raw_state ''A'' 0 = Inr (Some 0) \<and>
   resolve_threshold raw_state ''A'' 100 = Inr (Some 100) \<and>
   get_data raw_state ''A'' = Inr [Some 0, Some 50, Some 100] \<and>
   CvtToFuzzy raw_state ''A'' 100 0 (PStr ''NONE'') ''B'' = Inr cvt_R \<and>
   get_data cvt_R ''B'' =
     Inr (map (map_option (\<lambda>x. clamp_fuzzy (line_through 0 (- 1) 100 1 x)))
            [Some 0, Some 50, Some 100]) \<and>
   map (map_option (\<lambda>x. clamp_fuzzy (line_through 0 (- 1) 100 1 x))) [Some 0, Some 50, Some 100]
     = [Some (- 1), Some 0, Some 1]"
proof -
  have a: "resolve_threshold raw_state ''A'' 0 = Inr (Some 0)" by code_simp
  have b: "resolve_threshold raw_state ''A'' 100 = Inr (Some 100)" by code_simp
  have c: "get_data raw_state ''A'' = Inr [Some 0, Some 50, Some 100]" by code_simp
  have d: "CvtToFuzzy raw_state ''A'' 100 0 (PStr ''NONE'') ''B'' = Inr cvt_R"
    unfolding cvt_R_def by (rule ok_collapse) code_simp
  have e: "map (map_option (\<lambda>x. clamp_fuzzy (line_through 0 (- 1) 100 1 x)))
             [Some 0, Some 50, Some 100] = [Some (- 1), Some 0, Some 1]"
    by (simp add: clamp_fuzzy_def line_through_def)
  show ?thesis
    using a b c d e cvt_to_fuzzy_is_clamped_line [OF a b c d] by (intro conjI) simp_all
qed

text \<open>
  Claim C8, as the specification words it, fails. The fields \<open>P = [1, 1/2, -1]\<close> and
  \<open>Q = [0, 1/4, -1]\<close> have no masked cell and pass the guard. At their first cell the truest
  value is \<open>1\<close> and the second truest \<open>0\<close>: on Python 2 the result there is \<open>1/2\<close>, not
  \<open>-1\<close>, and the value \<open>-1\<close> comes out at the third cell, where the truest value is \<open>-1\<close>.
  On Python 3 the same call raises \<^verbatim>\<open>UnboundLocalError\<close> and stores no field, so no cell takes
  the value \<open>-1\<close> there either.
\<close>

theorem xor_truest_one_counterexample:
  "get_all pq_state [''P'', ''Q''] =
     Inr [[Some 1, Some (1 / 2), Some (- 1)], [Some 0, Some (1 / 4), Some (- 1)]] \<and>
   verify_all pq_state [''P'', ''Q''] = Inr () \<and>
   interpreter pq_state = Python2 \<and>
   FuzzyXOr pq_state [''P'', ''Q''] (PStr ''NONE'') ''R'' = Inr pq_xor_R \<and>
   get_data pq_xor_R ''R'' = Inr [Some (1 / 2), Some (7 / 24), Some (- 1)] \<and>
   interpreter pq_state3 = Python3 \<and>
   map_sum id (\<lambda>s. ()) (FuzzyXOr pq_state3 [''P'', ''Q''] (PStr ''NONE'') ''R'')
     = Inl (UnboundLocalError ''stackedArrs'')"
proof -
  have a: "get_all pq_state [''P'', ''Q''] =
     Inr [[Some 1, Some (1 / 2), Some (- 1)], [Some 0, Some (1 / 4), Some (- 1)]]"
    by code_simp
  have v: "verify_all pq_state [''P'', ''Q''] = Inr ()"
    by code_simp
  have i2: "interpreter pq_state = Python2"
    by code_simp
  have b: "FuzzyXOr pq_state [''P'', ''Q''] (PStr ''NONE'') ''R'' = Inr pq_xor_R"
    unfolding pq_xor_R_def by (rule ok_collapse) code_simp
  have c: "get_data pq_xor_R ''R'' = Inr [Some (1 / 2), Some (7 / 24), Some (- 1)]"
    by code_simp
  have i3: "interpreter pq_state3 = Python3"
    by code_simp
  have d: "map_sum id (\<lambda>s. ()) (FuzzyXOr pq_state3 [''P'', ''Q''] (PStr ''NONE'') ''R'')
     = Inl (UnboundLocalError ''stackedArrs'')"
    by code_simp
  from a v i2 b c i3 d show ?thesis by (intro conjI)
qed

text \<open>
  Claim C8, amended. An XOR over fewer than two field names fails. When an XOR returns,
  there are at least two fields, all accepted by the guard, and at every cell where no input
  field is masked the result is \<open>-1\<close> when the truest value is \<open>-1\<close>, and else
  \<open>t - (t - s) * (s - (-1)) / (t - (-1))\<close>, where the truest value \<open>t\<close> and the second truest
  \<open>s\<close> are the two largest input values of the cell; the final clip changes nothing there.
  An XOR returns on Python 2 only: on Python 3 every XOR fails.
\<close>

theorem xor_cells_by_formula:
  "(length nms < 2 \<longrightarrow> isl (FuzzyXOr st nms out r)) \<and>
   (interpreter st = Python3 \<longrightarrow> isl (FuzzyXOr st nms out r)) \<and>
   (FuzzyXOr st nms out r = Inr st' \<longrightarrow>
      2 \<le> length nms \<and> verify_all st nms = Inr () \<and>
      (\<exists>rows res. get_all st nms = Inr rows \<and> get_data st' r = Inr res \<and>
         length rows = length nms \<and> (\<forall>row\<in>set rows. length row = length res) \<and>
         (\<forall>j<length res. None \<notin> set (map (\<lambda>row. row ! j) rows) \<longrightarrow>
            res ! j = Some (xor_by_words (map (\<lambda>row. the (row ! j)) rows)))))"
proof (intro conjI impI)
  assume "length nms < 2"
  then show "isl (FuzzyXOr st nms out r)" by (simp add: FuzzyXOr_def)
next
  assume py: "interpreter st = Python3"
  show "isl (FuzzyXOr st nms out r)"
  proof (cases "FuzzyXOr st nms out r")
    case (Inl e)
    then show ?thesis by simp
  next
    case (Inr s)
    then have "load_local st ''stackedArrs'' = Inr ()"
      by (auto simp: FuzzyXOr_def seqE_eq_Inr bindE_eq_Inr split: if_splits)
    with py show ?thesis by (simp add: load_local_def)
  qed
next
  assume ok: "FuzzyXOr st nms out r = Inr st'"
  then show two: "2 \<le> length nms" by (auto simp: FuzzyXOr_def split: if_splits)
  from ok two obtain raws where ver: "verify_all st nms = Inr ()"
    and stack: "stack_fields st nms = Inr raws"
    and add: "AddFieldToEEMSFlds st out r (clip_fuzzy (map xor_cell (sorted_columns raws))) = Inr st'"
    by (auto simp: FuzzyXOr_def seqE_eq_Inr bindE_eq_Inr split: if_splits)
  from ver show "verify_all st nms = Inr ()" .
  from stack obtain rows where ga: "get_all st nms = Inr rows"
    and raws: "raws = map (\<lambda>(nm, d). raw_data st nm d) (zip nms rows)"
    and same: "list_all (\<lambda>row. length row = length (hd raws)) raws"
    by (auto simp: stack_fields_def bindE_eq_Inr Let_def split: if_splits)
  from get_all_rows[OF ga] have lr: "length rows = length nms"
    and src: "\<forall>row\<in>set rows. \<exists>nm\<in>set nms. get_data st nm = Inr row" by auto
  define res where "res = clip_fuzzy (map xor_cell (sorted_columns raws))"
  have lres: "length res = length (hd raws)"
    by (simp add: res_def clip_fuzzy_eq sorted_columns_def)
  from add have gd: "get_data st' r = Inr res" unfolding res_def by (rule AddField_get)
  have rl: "\<forall>row\<in>set rows. length row = length res"
  proof
    fix row assume "row \<in> set rows"
    then obtain i where i: "i < length rows" "rows ! i = row" by (auto simp: in_set_conv_nth)
    with lr have "raws ! i = raw_data st (nms ! i) row" by (simp add: raws)
    moreover have "length raws = length rows" using lr by (simp add: raws)
    with i have "raws ! i \<in> set raws" by (intro nth_mem) simp
    ultimately have "length (raw_data st (nms ! i) row) = length (hd raws)"
      using same by (simp add: list_all_iff)
    with lres show "length row = length res" by (simp add: raw_data_length)
  qed
  have rng: "fuzzy_range row" if "row \<in> set rows" for row
  proof -
    from src that obtain nm where "nm \<in> set nms" "get_data st nm = Inr row" by auto
    with verify_all_mem[OF ver] verify_range show ?thesis by blast
  qed
  have cells: "res ! j = Some (xor_by_words (map (\<lambda>row. the (row ! j)) rows))"
    if j: "j < length res" and none: "None \<notin> set (map (\<lambda>row. row ! j) rows)" for j
  proof -
    let ?vs = "map (\<lambda>row. the (row ! j)) rows"
    from rl j have js: "\<forall>d\<in>set rows. j < length d" by simp
    from raw_column[OF lr[symmetric] js none]
    have col: "map (\<lambda>r. r ! j) raws = ?vs" by (simp add: raws)
    from j lres have "res ! j = map_option clamp_fuzzy (xor_cell (sort (map (\<lambda>r. r ! j) raws)))"
      by (simp add: res_def clip_fuzzy_eq sorted_columns_def)
    then have rj: "res ! j = map_option clamp_fuzzy (xor_cell (sort ?vs))"
      by (simp only: col)
    have n: "2 \<le> length ?vs" using two lr by simp
    have inr: "\<forall>v\<in>set ?vs. - 1 \<le> v \<and> v \<le> 1"
    proof
      fix v assume "v \<in> set ?vs"
      then obtain row where row: "row \<in> set rows" "v = the (row ! j)" by auto
      from none row(1) have "row ! j \<noteq> None" by force
      with row(2) have e: "row ! j = Some v" by auto
      from js row(1) have "j < length row" by blast
      then have "Some v \<in> set row" using e by (metis nth_mem)
      with rng[OF row(1)] show "- 1 \<le> v \<and> v \<le> 1"
        by (simp add: fuzzy_range_iff)
    qed
    from xor_cell_words[OF n inr] rj show ?thesis by simp
  qed
  from ga gd lr rl cells
  show "\<exists>rows res. get_all st nms = Inr rows \<and> get_data st' r = Inr res \<and>
         length rows = length nms \<and> (\<forall>row\<in>set rows. length row = length res) \<and>
         (\<forall>j<length res. None \<notin> set (map (\<lambda>row. row ! j) rows) \<longrightarrow>
            res ! j = Some (xor_by_words (map (\<lambda>row. the (row ! j)) rows)))"
    by blast
qed

text \<open>
  An XOR over \<open>X\<close> alone fails, and so does the XOR over \<open>X\<close> and \<open>Y\<close> on Python 3. On
  Python 2 the XOR over \<open>X\<close> and \<open>Y\<close> returns, with the formula at its first cell, where
  no input is masked.
\<close>

theorem xor_cells_by_formula_witness:
  "isl (FuzzyXOr xy_state [''X''] (PStr ''NONE'') ''R'') \<and>
   interpreter xy_state3 = Python3 \<and>
   isl (FuzzyXOr xy_state3 [''X'', ''Y''] (PStr ''NONE'') ''R'') \<and>
   FuzzyXOr xy_state [''X'', ''Y''] (PStr ''NONE'') ''R'' = Inr xor_R \<and>
   (\<exists>rows res. get_all xy_state [''X'', ''Y''] = Inr rows \<and> get_data xor_R ''R'' = Inr res \<and>
      None \<notin> set (map (\<lambda>row. row ! 0) rows) \<and>
      res ! 0 = Some (xor_by_words (map (\<lambda>row. the (row ! 0)) rows))) \<and>
   xor_by_words [1, 0] = 1 / 2"
proof -
  have b: "FuzzyXOr xy_state [''X'', ''Y''] (PStr ''NONE'') ''R'' = Inr xor_R"
    unfolding xor_R_def by (rule ok_collapse) code_simp
  have a: "get_all xy_state [''X'', ''Y''] =
     Inr [[Some 1, Some (1 / 2), Some (- 1), None], [Some 0, Some (1 / 4), Some (- 1), Some 1]]"
    by code_simp
  have w: "xor_by_words [1, 0] = 1 / 2" by code_simp
  have l: "length [''X''] < (2::nat)" by simp
  have p3: "interpreter xy_state3 = Python3" by code_simp
  from xor_cells_by_formula [of "[''X'']" xy_state "PStr ''NONE''" "''R''"] l
  have f: "isl (FuzzyXOr xy_state [''X''] (PStr ''NONE'') ''R'')" by blast
  from xor_cells_by_formula [of "[''X'', ''Y'']" xy_state3 "PStr ''NONE''" "''R''"] p3
  have f3: "isl (FuzzyXOr xy_state3 [''X'', ''Y''] (PStr ''NONE'') ''R'')" by blast
  from xor_cells_by_formula [of "[''X'', ''Y'']" xy_state "PStr ''NONE''" "''R''" xor_R] b
  obtain rows res where rr: "get_all xy_state [''X'', ''Y''] = Inr rows"
      "get_data xor_R ''R'' = Inr res" "\<forall>row\<in>set rows. length row = length res"
      "\<forall>j<length res. None \<notin> set (map (\<lambda>row. row ! j) rows) \<longrightarrow>
            res ! j = Some (xor_by_words (map (\<lambda>row. the (row ! j)) rows))"
    by blast
  from rr(1) a have rows: "rows = [[Some 1, Some (1 / 2), Some (- 1), None],
      [Some 0, Some (1 / 4), Some (- 1), Some 1]]" by simp
  with rr(3) have len: "length res = 4" by simp
  have n0: "None \<notin> set (map (\<lambda>row. row ! 0) rows)" by (simp add: rows)
  with rr(4) len have "res ! 0 = Some (xor_by_words (map (\<lambda>row. the (row ! 0)) rows))"
    by simp
  with f p3 f3 b rr(1,2) w n0 show ?thesis by blast
qed

text \<open>
  Claim C9 does not hold of the code. The branch of \<^verbatim>\<open>RunProgram\<close> for WTDEMDSAND calls the
  method \<^verbatim>\<open>FuzzyEMDSWeightedAnd\<close>; the engine defines \<^verbatim>\<open>FuzzyEMDSWeighteddAnd\<close> and no
  method of the other name. So every WTDEMDSAND command ends in \<^verbatim>\<open>AttributeError\<close>, whatever
  the fields and the weights, and stores no field: the program that reads \<open>X\<close> and \<open>Y\<close> and
  then runs \<^verbatim>\<open>W = WTDEMDSAND(InFieldNames=[X,Y],Weights=[1,3])\<close> fails so. Called by its own
  name on the same fields and weights, the method would give \<open>[1/8, 37/128, -1, masked]\<close>.
\<close>

theorem wtdemdsand_dispatch_fails:
  assumes "GetCommandName c = ''WTDEMDSAND''"
  shows "dispatch ReadMulti st c cmdParams = Inl (AttributeError ''FuzzyEMDSWeightedAnd'') \<and>
     runner_method ReadMulti ''FuzzyEMDSWeightedAnd'' = None \<and>
     runner_method ReadMulti ''FuzzyEMDSWeighteddAnd'' \<noteq> None \<and>
     map_sum id (\<lambda>I. ()) (RunProgram (table_reader xy_table) wtd_interpreter)
       = Inl (AttributeError ''FuzzyEMDSWeightedAnd'') \<and>
     map_sum id (\<lambda>s. get_data s ''R'')
       (FuzzyEMDSWeighteddAnd xy_state [''X'', ''Y''] [1, 3] (PStr ''NONE'') ''R'')
       = Inr (Inr [Some (1 / 8), Some (37 / 128), Some (- 1), None])"
proof -
  have n: "runner_method ReadMulti ''FuzzyEMDSWeightedAnd'' = None"
    by (simp add: runner_method_def)
  have d: "runner_method ReadMulti ''FuzzyEMDSWeighteddAnd'' \<noteq> None"
    by (simp add: runner_method_def)
  have f: "dispatch ReadMulti st c cmdParams = Inl (AttributeError ''FuzzyEMDSWeightedAnd'')"
    using assms by (simp add: dispatch_def Let_def call_method_def n)
  have e1: "map_sum id (\<lambda>I. ()) (RunProgram (table_reader xy_table) wtd_interpreter)
           = Inl (AttributeError ''FuzzyEMDSWeightedAnd'')"
    by code_simp
  have e2: "map_sum id (\<lambda>s. get_data s ''R'')
           (FuzzyEMDSWeighteddAnd xy_state [''X'', ''Y''] [1, 3] (PStr ''NONE'') ''R'')
           = Inr (Inr [Some (1 / 8), Some (37 / 128), Some (- 1), None])"
    by code_simp
  from f n d e1 e2 show ?thesis
    by (intro conjI)
qed

text \<open>
  The dispatch of the command \<open>W\<close> over the registry that holds \<open>X\<close> and \<open>Y\<close>.
\<close>

theorem wtdemdsand_dispatch_fails_witness:
  "GetCommandName wtdemdsand_W = ''WTDEMDSAND'' \<and>
   dispatch (table_reader xy_table) xy_state wtdemdsand_W
     (projr (cmd_params wtd_interpreter wtdemdsand_W))
     = Inl (AttributeError ''FuzzyEMDSWeightedAnd'')"
proof -
  have a: "GetCommandName wtdemdsand_W = ''WTDEMDSAND''" by code_simp
  from wtdemdsand_dispatch_fails [OF a, where ReadMulti = "table_reader xy_table"
      and st = xy_state and cmdParams = "projr (cmd_params wtd_interpreter wtdemdsand_W)"]
  have "dispatch (table_reader xy_table) xy_state wtdemdsand_W
     (projr (cmd_params wtd_interpreter wtdemdsand_W))
     = Inl (AttributeError ''FuzzyEMDSWeightedAnd'')"
    by (rule conjunct1)
  with a show ?thesis by (rule conjI)
qed

text \<open>
  Claim C10. The name \<^verbatim>\<open>cp\<close> is not bound in the module. With \<^verbatim>\<open>ignoreZeros\<close> false,
  \<^verbatim>\<open>MeanToMid\<close> raises \<^verbatim>\<open>NameError\<close> for that name whatever the registry, the field name and
  the fuzzy values are, before it reads the field or takes a mean; so a call that returns
  has \<^verbatim>\<open>ignoreZeros\<close> true.
\<close>

theorem meantomid_needs_ignore_zeros:
  "load_global ''cp'' = Inl (NameError ''cp'') \<and>
   MeanToMid st nm False fuzzyValues out r = Inl (NameError ''cp'') \<and>
   (MeanToMid st nm ignoreZeros fuzzyValues out r = Inr st' \<longrightarrow> ignoreZeros)"
proof -
  have g: "load_global ''cp'' = Inl (NameError ''cp'')"
    by (simp add: load_global_def module_globals_def)
  have f: "MeanToMid st nm False fuzzyValues out r = Inl (NameError ''cp'')" for st nm fuzzyValues out r
    by (simp add: MeanToMid_def g)
  show ?thesis using g f [of st nm fuzzyValues out r]
    by (cases ignoreZeros) auto
qed

text \<open>
  Over \<open>A = [1, 2, 0, 3, 4, 6]\<close> the conversion returns when zeros are ignored and raises
  \<^verbatim>\<open>NameError\<close> when they are not.
\<close>

theorem meantomid_needs_ignore_zeros_witness:
  "MeanToMid stats_state ''A'' True [- 1, - (1 / 2), 0, 1 / 2, 1] (PStr ''NONE'') ''R''
     = Inr meantomid_R \<and>
   get_data meantomid_R ''R''
     = Inr [Some (- 1), Some (- (1 / 2)), Some (- 1), Some (- (1 / 12)), Some (2 / 9), Some 1] \<and>
   MeanToMid stats_state ''A'' False [- 1, - (1 / 2), 0, 1 / 2, 1] (PStr ''NONE'') ''R''
     = Inl (NameError ''cp'')"
proof -
  have a: "MeanToMid stats_state ''A'' True [- 1, - (1 / 2), 0, 1 / 2, 1] (PStr ''NONE'') ''R''
     = Inr meantomid_R"
    unfolding meantomid_R_def by (rule ok_collapse) code_simp
  have b: "get_data meantomid_R ''R''
     = Inr [Some (- 1), Some (- (1 / 2)), Some (- 1), Some (- (1 / 12)), Some (2 / 9), Some 1]"
    by code_simp
  show ?thesis
    using a b meantomid_needs_ignore_zeros [of stats_state "''A''" "[- 1, - (1 / 2), 0, 1 / 2, 1]"
        "PStr ''NONE''" "''R''" True meantomid_R]
    by simp
qed

end
